theory Spec2Isabelle
  imports Complex_Main "HOL-Library.Word"
begin

section \<open>The Construction API of the gateway (services/construction.go)\<close>

text \<open>
  The handlers of \<^verbatim>\<open>services/construction.go\<close> are embedded as HOL functions. A handler
  returns \<^verbatim>\<open>(response, *types.Error)\<close>; the model returns \<open>error + response\<close>, with
  \<open>Inl\<close> for the error. A nil pointer dereference, which in Go panics, is the error value
  \<open>Panic\<close>. Calls of the logger and the marshalling of a response for the debug log have
  no influence on the result and are left out.
\<close>

subsection \<open>Data\<close>

type_synonym bytes = "8 word list"
type_synonym uint64 = "64 word"

text \<open>
  A \<^verbatim>\<open>float64\<close> holding a decoded JSON number is modelled by the rational it denotes
  (a JSON number is never NaN or infinite).
\<close>

type_synonym float64 = rat

text \<open>
  \<^verbatim>\<open>quantity.Quantity\<close> is a non-negative arbitrary-precision integer, \<^verbatim>\<open>big.Int\<close> an
  arbitrary-precision integer. \<^verbatim>\<open>staking.Address\<close>, \<^verbatim>\<open>signature.PublicKey\<close> and
  \<^verbatim>\<open>signature.RawSignature\<close> are fixed-length byte arrays.
\<close>

type_synonym Quantity = nat
type_synonym Address = bytes
type_synonym PublicKey = bytes
type_synonym RawSignature = bytes

text \<open>
  The errors. The first three are \<^verbatim>\<open>*types.Error\<close> values of the package that the
  handlers return; \<open>ErrNetwork\<close> stands for whatever error the network validation
  returns; \<open>GoError\<close> is an \<^verbatim>\<open>error\<close> made by \<^verbatim>\<open>fmt.Errorf\<close> inside \<^verbatim>\<open>readCurrency\<close>, with
  its message; \<open>Panic\<close> is a nil pointer dereference.
\<close>

datatype error =
    ErrMalformedValue
  | ErrNotImplemented
  | ErrUnableToSubmitTx
  | ErrNetwork string
  | GoError string
  | Panic

text \<open>A value held in a \<^verbatim>\<open>map[string]interface{}\<close>, by its dynamic type.\<close>

datatype dyn =
    VFloat64 float64
  | VUint64 uint64
  | VGas uint64
  | VString string
  | VBool bool
  | VNull
  | VArray "dyn list"
  | VObject "(string \<times> dyn) list"

text \<open>
  The Rosetta types (\<^verbatim>\<open>rosetta-sdk-go/types\<close>), with the fields that the file reads or
  writes. A field of pointer type is an \<open>option\<close>, \<open>None\<close> for nil; so is an entry of a
  slice of pointers.
\<close>

record currency =
  Symbol :: string
  Decimals :: int

record amount =
  Value :: string
  Currency :: "currency option"

record sub_account_identifier =
  SubAddress :: string

record account_identifier =
  Address :: string
  SubAccount :: "sub_account_identifier option"

record operation_identifier =
  Index :: int

record operation =
  OperationIdentifier :: "operation_identifier option"
  Type :: string
  Account :: "account_identifier option"
  Amount :: "amount option"
  Metadata :: "string \<rightharpoonup> dyn"

record network_identifier =
  Blockchain :: string
  Network :: string

text \<open>The transaction types of the chain (\<^verbatim>\<open>oasis-core\<close>).\<close>

record fee =
  FeeAmount :: Quantity
  Gas :: uint64

record transaction =
  Nonce :: uint64
  Fee :: "fee option"
  Method :: string
  Body :: bytes

record signature =
  SigPublicKey :: PublicKey
  SigSignature :: RawSignature

record signed_transaction =
  Blob :: bytes
  Signature :: signature

record staking_Transfer =
  Transfer_To :: Address
  Transfer_Tokens :: Quantity

record staking_Burn =
  Burn_Tokens :: Quantity

record staking_Escrow =
  Escrow_Account :: Address
  Escrow_Tokens :: Quantity

record staking_ReclaimEscrow =
  ReclaimEscrow_Account :: Address
  ReclaimEscrow_Shares :: Quantity

subsection \<open>What the file takes from elsewhere\<close>

text \<open>
  The file uses constants and one function of its own package that other files of the
  repository define (\<open>OpTransfer\<close>, \<open>OpBurn\<close>, \<open>SubAccountGeneral\<close>, \<open>SubAccountEscrow\<close>,
  \<open>OasisCurrency\<close>, \<open>PoolShare\<close>, \<open>ValidateNetworkIdentifier\<close>), and functions of the Go
  standard library and of \<^verbatim>\<open>oasis-core\<close>. None of them is in the file, so each is a field
  of the record \<open>env\<close>, which every handler takes as its first argument. A decoder that
  returns an \<^verbatim>\<open>error\<close> in Go returns an \<open>option\<close> here, \<open>None\<close> for the error.

  \<^item> \<open>float64_to_uint64\<close> is Go's conversion \<^verbatim>\<open>uint64(f)\<close>, whose result outside the range
    of \<^verbatim>\<open>uint64\<close> depends on the implementation.
  \<^item> \<open>big_Int_UnmarshalText\<close> is \<^verbatim>\<open>(*big.Int).UnmarshalText\<close>.
  \<^item> \<open>Address_UnmarshalText\<close>, \<open>Address_String\<close>, \<open>NewAddress\<close> are those of
    \<^verbatim>\<open>staking.Address\<close>.
  \<^item> \<open>json_\<close> and \<open>cbor_\<close> fields are \<^verbatim>\<open>json.Marshal\<close>, \<^verbatim>\<open>json.Unmarshal\<close>,
    \<^verbatim>\<open>cbor.Marshal\<close> and \<^verbatim>\<open>cbor.Unmarshal\<close> at the type named.
  \<^item> \<open>Verify\<close> is the signature check of \<^verbatim>\<open>signature.Signed.Open\<close> under
    \<^verbatim>\<open>transaction.SignatureContext\<close>: public key, signed blob, raw signature.
  \<^item> \<open>PrepareSignerMessage\<close> is \<^verbatim>\<open>signature.PrepareSignerMessage\<close> under the same context.
  \<^item> \<open>Hash_String\<close> is \<^verbatim>\<open>hash.Hash.From\<close> followed by \<^verbatim>\<open>String\<close>.
\<close>

record env =
  OpTransfer :: string
  OpBurn :: string
  SubAccountGeneral :: string
  SubAccountEscrow :: string
  OasisCurrency :: currency
  PoolShare :: currency
  ValidateNetworkIdentifier :: "network_identifier option \<Rightarrow> error option"
  MethodTransfer :: string
  MethodBurn :: string
  MethodAddEscrow :: string
  MethodReclaimEscrow :: string
  float64_to_uint64 :: "float64 \<Rightarrow> uint64"
  big_Int_UnmarshalText :: "string \<Rightarrow> int option"
  Address_UnmarshalText :: "string \<Rightarrow> Address option"
  Address_String :: "Address \<Rightarrow> string"
  NewAddress :: "PublicKey \<Rightarrow> Address"
  PublicKey_UnmarshalBinary :: "bytes \<Rightarrow> PublicKey option"
  RawSignature_UnmarshalBinary :: "bytes \<Rightarrow> RawSignature option"
  json_Marshal_Transaction :: "transaction \<Rightarrow> string option"
  json_Unmarshal_Transaction :: "string \<Rightarrow> transaction option"
  json_Marshal_SignedTransaction :: "signed_transaction \<Rightarrow> string option"
  json_Unmarshal_SignedTransaction :: "string \<Rightarrow> signed_transaction option"
  cbor_Marshal_Transaction :: "transaction \<Rightarrow> bytes"
  cbor_Unmarshal_Transaction :: "bytes \<Rightarrow> transaction option"
  cbor_Marshal_Transfer :: "staking_Transfer \<Rightarrow> bytes"
  cbor_Unmarshal_Transfer :: "bytes \<Rightarrow> staking_Transfer option"
  cbor_Marshal_Burn :: "staking_Burn \<Rightarrow> bytes"
  cbor_Unmarshal_Burn :: "bytes \<Rightarrow> staking_Burn option"
  cbor_Marshal_Escrow :: "staking_Escrow \<Rightarrow> bytes"
  cbor_Unmarshal_Escrow :: "bytes \<Rightarrow> staking_Escrow option"
  cbor_Marshal_ReclaimEscrow :: "staking_ReclaimEscrow \<Rightarrow> bytes"
  cbor_Unmarshal_ReclaimEscrow :: "bytes \<Rightarrow> staking_ReclaimEscrow option"
  Verify :: "PublicKey \<Rightarrow> bytes \<Rightarrow> RawSignature \<Rightarrow> bool"
  PrepareSignerMessage :: "bytes \<Rightarrow> bytes option"
  Hash_String :: "signed_transaction \<Rightarrow> string"

subsection \<open>Constants of the file\<close>

definition OptionsIDKey :: string where
  "OptionsIDKey = ''id''"

definition NonceKey :: string where
  "NonceKey = ''nonce''"

definition FeeGasKey :: string where
  "FeeGasKey = ''fee_gas''"

definition DefaultGas :: uint64 where
  "DefaultGas = 10000"

definition FromPlaceholder :: string where
  "FromPlaceholder = ''(from)''"

subsection \<open>Quantities\<close>

text \<open>
  \<^verbatim>\<open>Quantity.String\<close> prints the decimal digits of the quantity. \<^verbatim>\<open>Quantity.FromBigInt\<close>
  refuses a negative integer and stores any other. \<^verbatim>\<open>Quantity.Cmp\<close> compares the
  integers, so \<^verbatim>\<open>amount.Cmp(amount2) != 0\<close> is inequality.
\<close>

definition digit_char :: "nat \<Rightarrow> char" where
  "digit_char d = char_of (48 + d)"

function Quantity_String :: "Quantity \<Rightarrow> string" where
  "Quantity_String n =
     (if n < 10 then [digit_char n]
      else Quantity_String (n div 10) @ [digit_char (n mod 10)])"
  by pat_completeness auto
termination
  by (relation "measure (\<lambda>n. n)") auto

declare Quantity_String.simps [simp del]

definition Quantity_FromBigInt :: "int \<Rightarrow> Quantity option" where
  "Quantity_FromBigInt n = (if n < 0 then None else Some (nat n))"

subsection \<open>readCurrency\<close>

definition readCurrency :: "env \<Rightarrow> amount option \<Rightarrow> currency \<Rightarrow> bool \<Rightarrow> error + Quantity" where
  "readCurrency env amount cur negative =
     (case amount of
        None \<Rightarrow> Inl Panic
      | Some a \<Rightarrow>
     (case Currency a of
        None \<Rightarrow> Inl Panic
      | Some c \<Rightarrow>
     if Symbol c \<noteq> Symbol cur then Inl (GoError ''wrong currency'')
     else
     (case big_Int_UnmarshalText env (Value a) of
        None \<Rightarrow> Inl (GoError ''bi UnmarshalText Value'')
      | Some bi \<Rightarrow>
     (case Quantity_FromBigInt (if negative then - bi else bi) of
        None \<Rightarrow> Inl (GoError ''q FromBigInt bi'')
      | Some q \<Rightarrow> Inr q))))"

definition readOasisCurrency :: "env \<Rightarrow> amount option \<Rightarrow> error + Quantity" where
  "readOasisCurrency env amount = readCurrency env amount (OasisCurrency env) False"

definition readOasisCurrencyNeg :: "env \<Rightarrow> amount option \<Rightarrow> error + Quantity" where
  "readOasisCurrencyNeg env amount = readCurrency env amount (OasisCurrency env) True"

definition readPoolShareNeg :: "env \<Rightarrow> amount option \<Rightarrow> error + Quantity" where
  "readPoolShareNeg env amount = readCurrency env amount (PoolShare env) True"

subsection \<open>ConstructionPayloads\<close>

record ConstructionPayloadsRequest =
  payloads_NetworkIdentifier :: "network_identifier option"
  payloads_Operations :: "operation option list"
  payloads_Metadata :: "string \<rightharpoonup> dyn"

record signing_payload =
  payload_Address :: string
  payload_Bytes :: bytes
  payload_SignatureType :: string

record ConstructionPayloadsResponse =
  payloads_UnsignedTransaction :: string
  Payloads :: "signing_payload list"

definition Ed25519 :: string where
  "Ed25519 = ''ed25519''"

text \<open>The nonce of the request's metadata (lines 621 to 631).\<close>

definition payloads_nonce :: "env \<Rightarrow> ConstructionPayloadsRequest \<Rightarrow> error + uint64" where
  "payloads_nonce env request =
     (case payloads_Metadata request NonceKey of
        None \<Rightarrow> Inl ErrMalformedValue
      | Some nonceRaw \<Rightarrow>
     (case nonceRaw of
        VFloat64 nonceF64 \<Rightarrow> Inr (float64_to_uint64 env nonceF64)
      | _ \<Rightarrow> Inl ErrMalformedValue))"

text \<open>
  The checks of the fee operation (lines 637 to 673): the signer's address
  \<open>signWithAddr\<close>, the fee amount and the fee gas.
\<close>

definition payloads_fee :: "env \<Rightarrow> operation option \<Rightarrow> error + (string \<times> Quantity \<times> uint64)" where
  "payloads_fee env feeOpPtr =
     (case feeOpPtr of
        None \<Rightarrow> Inl Panic
      | Some feeOp \<Rightarrow>
     if Type feeOp \<noteq> OpTransfer env then Inl ErrMalformedValue
     else
     (case Account feeOp of
        None \<Rightarrow> Inl Panic
      | Some acc \<Rightarrow>
     (case SubAccount acc of
        None \<Rightarrow> Inl ErrMalformedValue
      | Some sub \<Rightarrow>
     if SubAddress sub \<noteq> SubAccountGeneral env then Inl ErrMalformedValue
     else
     (case readOasisCurrencyNeg env (Amount feeOp) of
        Inl err \<Rightarrow> (if err = Panic then Inl Panic else Inl ErrMalformedValue)
      | Inr feeAmount \<Rightarrow>
     (case Metadata feeOp FeeGasKey of
        None \<Rightarrow> Inr (Address acc, feeAmount, DefaultGas)
      | Some feeGasRaw \<Rightarrow>
     (case feeGasRaw of
        VFloat64 feeGasF64 \<Rightarrow> Inr (Address acc, feeAmount, float64_to_uint64 env feeGasF64)
      | _ \<Rightarrow> Inl ErrMalformedValue))))))"

text \<open>
  The condition that every case of the switch repeats for an operation:
  \<^verbatim>\<open>op.Type == t && op.Account.SubAccount != nil && op.Account.SubAccount.Address == sub\<close>,
  evaluated from left to right as \<^verbatim>\<open>&&\<close> does.
\<close>

definition op_shape :: "operation option \<Rightarrow> string \<Rightarrow> string \<Rightarrow> error + bool" where
  "op_shape opPtr t sub =
     (case opPtr of
        None \<Rightarrow> Inl Panic
      | Some op \<Rightarrow>
     if Type op \<noteq> t then Inr False
     else
     (case Account op of
        None \<Rightarrow> Inl Panic
      | Some acc \<Rightarrow>
     (case SubAccount acc of
        None \<Rightarrow> Inr False
      | Some s \<Rightarrow> Inr (SubAddress s = sub))))"

text \<open>
  The conditions of the four cases of the switch (lines 678, 732, 758, 812), and the case
  that the switch takes: the first whose condition holds.
\<close>

definition cond3 :: "operation option list \<Rightarrow> string \<Rightarrow> string \<Rightarrow> string \<Rightarrow> string \<Rightarrow> error + bool" where
  "cond3 ops t1 sub1 t2 sub2 =
     (if length ops \<noteq> 3 then Inr False
      else
      (case op_shape (ops ! 1) t1 sub1 of
         Inl err \<Rightarrow> Inl err
       | Inr b \<Rightarrow> if b then op_shape (ops ! 2) t2 sub2 else Inr False))"

definition cond2 :: "operation option list \<Rightarrow> string \<Rightarrow> string \<Rightarrow> error + bool" where
  "cond2 ops t1 sub1 =
     (if length ops \<noteq> 2 then Inr False else op_shape (ops ! 1) t1 sub1)"

datatype matched = MatchedTransfer | MatchedBurn | MatchedAddEscrow | MatchedReclaimEscrow | Unmatched

definition payloads_match :: "env \<Rightarrow> operation option list \<Rightarrow> error + matched" where
  "payloads_match env ops =
     (case cond3 ops (OpTransfer env) (SubAccountGeneral env) (OpTransfer env) (SubAccountGeneral env) of
        Inl err \<Rightarrow> Inl err
      | Inr c1 \<Rightarrow>
     if c1 then Inr MatchedTransfer
     else
     (case cond2 ops (OpBurn env) (SubAccountGeneral env) of
        Inl err \<Rightarrow> Inl err
      | Inr c2 \<Rightarrow>
     if c2 then Inr MatchedBurn
     else
     (case cond3 ops (OpTransfer env) (SubAccountGeneral env) (OpTransfer env) (SubAccountEscrow env) of
        Inl err \<Rightarrow> Inl err
      | Inr c3 \<Rightarrow>
     if c3 then Inr MatchedAddEscrow
     else
     (case cond2 ops (OpTransfer env) (SubAccountEscrow env) of
        Inl err \<Rightarrow> Inl err
      | Inr c4 \<Rightarrow>
     if c4 then Inr MatchedReclaimEscrow else Inr Unmatched))))"

text \<open>
  \<^verbatim>\<open>var to staking.Address\<close> followed by \<^verbatim>\<open>to.UnmarshalText(text)\<close> whose error is only
  logged: the variable holds the decoded address, or still the zero value of the array
  when the decoding failed.
\<close>

definition zero_Address :: Address where
  "zero_Address = replicate 21 0"

definition address_after_UnmarshalText :: "env \<Rightarrow> string \<Rightarrow> Address" where
  "address_after_UnmarshalText env text =
     (case Address_UnmarshalText env text of None \<Rightarrow> zero_Address | Some a \<Rightarrow> a)"

text \<open>\<^verbatim>\<open>request.Operations[i].Account.Address\<close> and \<^verbatim>\<open>request.Operations[i].Amount\<close>.\<close>

definition op_Address :: "operation option list \<Rightarrow> nat \<Rightarrow> error + string" where
  "op_Address ops i =
     (case ops ! i of
        None \<Rightarrow> Inl Panic
      | Some op \<Rightarrow> (case Account op of None \<Rightarrow> Inl Panic | Some acc \<Rightarrow> Inr (Address acc)))"

definition op_Amount :: "operation option list \<Rightarrow> nat \<Rightarrow> error + amount option" where
  "op_Amount ops i = (case ops ! i of None \<Rightarrow> Inl Panic | Some op \<Rightarrow> Inr (Amount op))"

text \<open>An amount read in a case of the switch: an error of the reader is MalformedValue.\<close>

definition read_or_malformed :: "error + Quantity \<Rightarrow> error + Quantity" where
  "read_or_malformed r =
     (case r of
        Inl err \<Rightarrow> (if err = Panic then Inl Panic else Inl ErrMalformedValue)
      | Inr q \<Rightarrow> Inr q)"

text \<open>The bodies of the four cases (lines 685 to 838), each giving the method and the body.\<close>

definition payloads_transfer :: "env \<Rightarrow> operation option list \<Rightarrow> string \<Rightarrow> error + (string \<times> bytes)" where
  "payloads_transfer env ops signWithAddr =
     (case op_Address ops 1 of Inl err \<Rightarrow> Inl err | Inr fromAddr \<Rightarrow>
      if fromAddr \<noteq> signWithAddr then Inl ErrMalformedValue
      else
      (case op_Amount ops 1 of Inl err \<Rightarrow> Inl err | Inr am1 \<Rightarrow>
      (case read_or_malformed (readOasisCurrencyNeg env am1) of Inl err \<Rightarrow> Inl err | Inr amount \<Rightarrow>
      (case op_Address ops 2 of Inl err \<Rightarrow> Inl err | Inr toAddr \<Rightarrow>
      (case op_Amount ops 2 of Inl err \<Rightarrow> Inl err | Inr am2 \<Rightarrow>
      (case read_or_malformed (readOasisCurrency env am2) of Inl err \<Rightarrow> Inl err | Inr amount2 \<Rightarrow>
      if amount \<noteq> amount2 then Inl ErrMalformedValue
      else Inr (MethodTransfer env,
                cbor_Marshal_Transfer env
                  \<lparr>Transfer_To = address_after_UnmarshalText env toAddr,
                   Transfer_Tokens = amount\<rparr>)))))))"

definition payloads_burn :: "env \<Rightarrow> operation option list \<Rightarrow> string \<Rightarrow> error + (string \<times> bytes)" where
  "payloads_burn env ops signWithAddr =
     (case op_Address ops 1 of Inl err \<Rightarrow> Inl err | Inr fromAddr \<Rightarrow>
      if fromAddr \<noteq> signWithAddr then Inl ErrMalformedValue
      else
      (case op_Amount ops 1 of Inl err \<Rightarrow> Inl err | Inr am1 \<Rightarrow>
      (case read_or_malformed (readOasisCurrencyNeg env am1) of Inl err \<Rightarrow> Inl err | Inr amount \<Rightarrow>
      Inr (MethodBurn env, cbor_Marshal_Burn env \<lparr>Burn_Tokens = amount\<rparr>))))"

definition payloads_add_escrow :: "env \<Rightarrow> operation option list \<Rightarrow> string \<Rightarrow> error + (string \<times> bytes)" where
  "payloads_add_escrow env ops signWithAddr =
     (case op_Address ops 1 of Inl err \<Rightarrow> Inl err | Inr fromAddr \<Rightarrow>
      if fromAddr \<noteq> signWithAddr then Inl ErrMalformedValue
      else
      (case op_Amount ops 1 of Inl err \<Rightarrow> Inl err | Inr am1 \<Rightarrow>
      (case read_or_malformed (readOasisCurrencyNeg env am1) of Inl err \<Rightarrow> Inl err | Inr amount \<Rightarrow>
      (case op_Address ops 2 of Inl err \<Rightarrow> Inl err | Inr escrowAddr \<Rightarrow>
      (case op_Amount ops 2 of Inl err \<Rightarrow> Inl err | Inr am2 \<Rightarrow>
      (case read_or_malformed (readOasisCurrency env am2) of Inl err \<Rightarrow> Inl err | Inr amount2 \<Rightarrow>
      if amount \<noteq> amount2 then Inl ErrMalformedValue
      else Inr (MethodAddEscrow env,
                cbor_Marshal_Escrow env
                  \<lparr>Escrow_Account = address_after_UnmarshalText env escrowAddr,
                   Escrow_Tokens = amount\<rparr>)))))))"

definition payloads_reclaim_escrow :: "env \<Rightarrow> operation option list \<Rightarrow> error + (string \<times> bytes)" where
  "payloads_reclaim_escrow env ops =
     (case op_Address ops 1 of Inl err \<Rightarrow> Inl err | Inr escrowAddr \<Rightarrow>
      (case op_Amount ops 1 of Inl err \<Rightarrow> Inl err | Inr am1 \<Rightarrow>
      (case read_or_malformed (readPoolShareNeg env am1) of Inl err \<Rightarrow> Inl err | Inr amount \<Rightarrow>
      Inr (MethodReclaimEscrow env,
           cbor_Marshal_ReclaimEscrow env
             \<lparr>ReclaimEscrow_Account = address_after_UnmarshalText env escrowAddr,
              ReclaimEscrow_Shares = amount\<rparr>))))"

text \<open>The switch (lines 675 to 844).\<close>

definition payloads_switch :: "env \<Rightarrow> operation option list \<Rightarrow> string \<Rightarrow> error + (string \<times> bytes)" where
  "payloads_switch env ops signWithAddr =
     (case payloads_match env ops of
        Inl err \<Rightarrow> Inl err
      | Inr m \<Rightarrow>
     (case m of
        MatchedTransfer \<Rightarrow> payloads_transfer env ops signWithAddr
      | MatchedBurn \<Rightarrow> payloads_burn env ops signWithAddr
      | MatchedAddEscrow \<Rightarrow> payloads_add_escrow env ops signWithAddr
      | MatchedReclaimEscrow \<Rightarrow> payloads_reclaim_escrow env ops
      | Unmatched \<Rightarrow> Inl ErrNotImplemented))"

text \<open>
  The handler from the nonce to the transaction built at line 846: the signer's address
  and the transaction.
\<close>

definition payloads_transaction :: "env \<Rightarrow> ConstructionPayloadsRequest \<Rightarrow> error + (string \<times> transaction)" where
  "payloads_transaction env request =
     (case payloads_nonce env request of
        Inl err \<Rightarrow> Inl err
      | Inr nonce \<Rightarrow>
     if length (payloads_Operations request) < 2 then Inl ErrMalformedValue
     else
     (case payloads_fee env (payloads_Operations request ! 0) of
        Inl err \<Rightarrow> Inl err
      | Inr (signWithAddr, feeAmount, feeGas) \<Rightarrow>
     (case payloads_switch env (payloads_Operations request) signWithAddr of
        Inl err \<Rightarrow> Inl err
      | Inr (meth, body) \<Rightarrow>
     Inr (signWithAddr,
          \<lparr>Nonce = nonce,
           Fee = Some \<lparr>FeeAmount = feeAmount, Gas = feeGas\<rparr>,
           Method = meth,
           Body = body\<rparr>))))"

definition ConstructionPayloads :: "env \<Rightarrow> ConstructionPayloadsRequest \<Rightarrow> error + ConstructionPayloadsResponse" where
  "ConstructionPayloads env request =
     (case ValidateNetworkIdentifier env (payloads_NetworkIdentifier request) of
        Some terr \<Rightarrow> Inl terr
      | None \<Rightarrow>
     (case payloads_transaction env request of
        Inl err \<Rightarrow> Inl err
      | Inr (signWithAddr, tx) \<Rightarrow>
     (case json_Marshal_Transaction env tx of
        None \<Rightarrow> Inl ErrMalformedValue
      | Some txJSON \<Rightarrow>
     (case PrepareSignerMessage env (cbor_Marshal_Transaction env tx) of
        None \<Rightarrow> Inl ErrMalformedValue
      | Some txMessage \<Rightarrow>
     Inr \<lparr>payloads_UnsignedTransaction = txJSON,
          Payloads = [\<lparr>payload_Address = signWithAddr,
                       payload_Bytes = txMessage,
                       payload_SignatureType = Ed25519\<rparr>]\<rparr>))))"

subsection \<open>ConstructionParse\<close>

record ConstructionParseRequest =
  parse_NetworkIdentifier :: "network_identifier option"
  parse_Signed :: bool
  parse_Transaction :: string

record ConstructionParseResponse =
  parse_Operations :: "operation option list"
  parse_Signers :: "string list"
  parse_Metadata :: "string \<rightharpoonup> dyn"

text \<open>
  \<^verbatim>\<open>SignedTransaction.Open\<close> of \<^verbatim>\<open>oasis-core\<close>, the \<open>open\<close> of the specification: the
  signature is verified over the blob with the embedded public key, and only then is the
  blob decoded as a transaction; it fails when the verification fails or the blob does
  not decode.
\<close>

definition SignedTransaction_Open :: "env \<Rightarrow> signed_transaction \<Rightarrow> transaction option" where
  "SignedTransaction_Open env st =
     (if Verify env (SigPublicKey (Signature st)) (Blob st) (SigSignature (Signature st))
      then cbor_Unmarshal_Transaction env (Blob st)
      else None)"

text \<open>Lines 311 to 341: the transaction, \<open>from\<close> and \<open>signers\<close>.\<close>

definition parse_decode :: "env \<Rightarrow> ConstructionParseRequest \<Rightarrow> error + (transaction \<times> string \<times> string list)" where
  "parse_decode env request =
     (if parse_Signed request then
        (case json_Unmarshal_SignedTransaction env (parse_Transaction request) of
           None \<Rightarrow> Inl ErrMalformedValue
         | Some st \<Rightarrow>
        (case SignedTransaction_Open env st of
           None \<Rightarrow> Inl ErrMalformedValue
         | Some tx \<Rightarrow>
        Inr (tx,
             Address_String env (NewAddress env (SigPublicKey (Signature st))),
             [Address_String env (NewAddress env (SigPublicKey (Signature st)))])))
      else
        (case json_Unmarshal_Transaction env (parse_Transaction request) of
           None \<Rightarrow> Inl ErrMalformedValue
         | Some tx \<Rightarrow> Inr (tx, FromPlaceholder, [])))"

text \<open>
  The operation literals of the handler all have the same form: an index, a type, an
  address with a sub-account, and an amount with a currency.
\<close>

definition new_operation ::
  "int \<Rightarrow> string \<Rightarrow> string \<Rightarrow> string \<Rightarrow> string \<Rightarrow> currency \<Rightarrow> (string \<rightharpoonup> dyn) \<Rightarrow> operation option" where
  "new_operation idx t addr sub val cur md =
     Some \<lparr>OperationIdentifier = Some \<lparr>Index = idx\<rparr>,
           Type = t,
           Account = Some \<lparr>Address = addr, SubAccount = Some \<lparr>SubAddress = sub\<rparr>\<rparr>,
           Amount = Some \<lparr>Value = val, Currency = Some cur\<rparr>,
           Metadata = md\<rparr>"

text \<open>Lines 343 to 369: the fee operation.\<close>

definition parse_fee_operation :: "env \<Rightarrow> transaction \<Rightarrow> string \<Rightarrow> operation option" where
  "parse_fee_operation env tx from =
     (case Fee tx of
        None \<Rightarrow>
          new_operation 0 (OpTransfer env) from (SubAccountGeneral env) ''-0'' (OasisCurrency env)
            [FeeGasKey \<mapsto> VGas 0]
      | Some f \<Rightarrow>
          new_operation 0 (OpTransfer env) from (SubAccountGeneral env)
            (''-'' @ Quantity_String (FeeAmount f)) (OasisCurrency env)
            [FeeGasKey \<mapsto> VGas (Gas f)])"

text \<open>Lines 370 to 516: the switch on the method.\<close>

definition parse_operations :: "env \<Rightarrow> transaction \<Rightarrow> string \<Rightarrow> error + operation option list" where
  "parse_operations env tx from =
     (if Method tx = MethodTransfer env then
        (case cbor_Unmarshal_Transfer env (Body tx) of
           None \<Rightarrow> Inl ErrMalformedValue
         | Some body \<Rightarrow>
             Inr [parse_fee_operation env tx from,
                  new_operation 1 (OpTransfer env) from (SubAccountGeneral env)
                    (''-'' @ Quantity_String (Transfer_Tokens body)) (OasisCurrency env) Map.empty,
                  new_operation 2 (OpTransfer env) (Address_String env (Transfer_To body))
                    (SubAccountGeneral env)
                    (Quantity_String (Transfer_Tokens body)) (OasisCurrency env) Map.empty])
      else if Method tx = MethodBurn env then
        (case cbor_Unmarshal_Burn env (Body tx) of
           None \<Rightarrow> Inl ErrMalformedValue
         | Some body \<Rightarrow>
             Inr [parse_fee_operation env tx from,
                  new_operation 1 (OpBurn env) from (SubAccountGeneral env)
                    (''-'' @ Quantity_String (Burn_Tokens body)) (OasisCurrency env) Map.empty])
      else if Method tx = MethodAddEscrow env then
        (case cbor_Unmarshal_Escrow env (Body tx) of
           None \<Rightarrow> Inl ErrMalformedValue
         | Some body \<Rightarrow>
             Inr [parse_fee_operation env tx from,
                  new_operation 1 (OpTransfer env) from (SubAccountGeneral env)
                    (''-'' @ Quantity_String (Escrow_Tokens body)) (OasisCurrency env) Map.empty,
                  new_operation 2 (OpTransfer env) (Address_String env (Escrow_Account body))
                    (SubAccountEscrow env)
                    (Quantity_String (Escrow_Tokens body)) (OasisCurrency env) Map.empty])
      else if Method tx = MethodReclaimEscrow env then
        (case cbor_Unmarshal_ReclaimEscrow env (Body tx) of
           None \<Rightarrow> Inl ErrMalformedValue
         | Some body \<Rightarrow>
             Inr [parse_fee_operation env tx from,
                  new_operation 1 (OpTransfer env) (Address_String env (ReclaimEscrow_Account body))
                    (SubAccountEscrow env)
                    (''-'' @ Quantity_String (ReclaimEscrow_Shares body)) (PoolShare env) Map.empty])
      else Inl ErrNotImplemented)"

definition ConstructionParse :: "env \<Rightarrow> ConstructionParseRequest \<Rightarrow> error + ConstructionParseResponse" where
  "ConstructionParse env request =
     (case ValidateNetworkIdentifier env (parse_NetworkIdentifier request) of
        Some terr \<Rightarrow> Inl terr
      | None \<Rightarrow>
     (case parse_decode env request of
        Inl err \<Rightarrow> Inl err
      | Inr (tx, from, signers) \<Rightarrow>
     (case parse_operations env tx from of
        Inl err \<Rightarrow> Inl err
      | Inr ops \<Rightarrow>
     Inr \<lparr>parse_Operations = ops,
          parse_Signers = signers,
          parse_Metadata = [NonceKey \<mapsto> VUint64 (Nonce tx)]\<rparr>)))"

subsection \<open>ConstructionCombine\<close>

record rosetta_PublicKey =
  pk_Bytes :: bytes

record rosetta_Signature =
  sig_PublicKey :: "rosetta_PublicKey option"
  sig_Bytes :: bytes

record ConstructionCombineRequest =
  combine_NetworkIdentifier :: "network_identifier option"
  combine_UnsignedTransaction :: string
  combine_Signatures :: "rosetta_Signature option list"

record ConstructionCombineResponse =
  combine_SignedTransaction :: string

definition ConstructionCombine :: "env \<Rightarrow> ConstructionCombineRequest \<Rightarrow> error + ConstructionCombineResponse" where
  "ConstructionCombine env request =
     (case ValidateNetworkIdentifier env (combine_NetworkIdentifier request) of
        Some terr \<Rightarrow> Inl terr
      | None \<Rightarrow>
     (case json_Unmarshal_Transaction env (combine_UnsignedTransaction request) of
        None \<Rightarrow> Inl ErrMalformedValue
      | Some tx \<Rightarrow>
     if length (combine_Signatures request) \<noteq> 1 then Inl ErrMalformedValue
     else
     (case combine_Signatures request ! 0 of
        None \<Rightarrow> Inl Panic
      | Some sig \<Rightarrow>
     (case sig_PublicKey sig of
        None \<Rightarrow> Inl Panic
      | Some sigpk \<Rightarrow>
     (case PublicKey_UnmarshalBinary env (pk_Bytes sigpk) of
        None \<Rightarrow> Inl ErrMalformedValue
      | Some pk \<Rightarrow>
     (case RawSignature_UnmarshalBinary env (sig_Bytes sig) of
        None \<Rightarrow> Inl ErrMalformedValue
      | Some rs \<Rightarrow>
     (case json_Marshal_SignedTransaction env
             \<lparr>Blob = cbor_Marshal_Transaction env tx,
              Signature = \<lparr>SigPublicKey = pk, SigSignature = rs\<rparr>\<rparr> of
        None \<Rightarrow> Inl ErrMalformedValue
      | Some stJSON \<Rightarrow> Inr \<lparr>combine_SignedTransaction = stJSON\<rparr>)))))))"

subsection \<open>ConstructionSubmit\<close>

text \<open>
  The node client (\<^verbatim>\<open>oc.OasisClient\<close>) is the one collaborator with an effect. Its
  \<^verbatim>\<open>SubmitTx\<close> takes the state \<open>'n\<close> of the node and returns the new state with the Go
  \<^verbatim>\<open>error\<close>: \<open>None\<close> for nil, or the message. The handler passes the state on.
\<close>

record 'n OasisClient =
  SubmitTx :: "string \<Rightarrow> 'n \<Rightarrow> string option \<times> 'n"

record ConstructionSubmitRequest =
  submit_NetworkIdentifier :: "network_identifier option"
  submit_SignedTransaction :: string

record ConstructionSubmitResponse =
  TransactionIdentifier_Hash :: string

definition ConstructionSubmit ::
  "env \<Rightarrow> 'n OasisClient \<Rightarrow> ConstructionSubmitRequest \<Rightarrow> 'n \<Rightarrow> (error + ConstructionSubmitResponse) \<times> 'n" where
  "ConstructionSubmit env client request node =
     (case ValidateNetworkIdentifier env (submit_NetworkIdentifier request) of
        Some terr \<Rightarrow> (Inl terr, node)
      | None \<Rightarrow>
     (case SubmitTx client (submit_SignedTransaction request) node of
        (Some err, node') \<Rightarrow> (Inl ErrUnableToSubmitTx, node')
      | (None, node') \<Rightarrow>
     (case json_Unmarshal_SignedTransaction env (submit_SignedTransaction request) of
        None \<Rightarrow> (Inl ErrMalformedValue, node')
      | Some st \<Rightarrow> (Inr \<lparr>TransactionIdentifier_Hash = Hash_String env st\<rparr>, node'))))"

subsection \<open>What the round trips need of the libraries\<close>

text \<open>
  The decoders of the libraries invert their encoders: \<^verbatim>\<open>json.Unmarshal\<close> gives back the
  transaction that \<^verbatim>\<open>json.Marshal\<close> encoded, and \<^verbatim>\<open>cbor.Unmarshal\<close> the body that
  \<^verbatim>\<open>cbor.Marshal\<close> encoded. The four method names differ.
\<close>

definition codecs_invert :: "env \<Rightarrow> bool" where
  "codecs_invert env \<longleftrightarrow>
     (\<forall>tx s. json_Marshal_Transaction env tx = Some s \<longrightarrow> json_Unmarshal_Transaction env s = Some tx) \<and>
     (\<forall>b. cbor_Unmarshal_Transfer env (cbor_Marshal_Transfer env b) = Some b) \<and>
     (\<forall>b. cbor_Unmarshal_Burn env (cbor_Marshal_Burn env b) = Some b) \<and>
     (\<forall>b. cbor_Unmarshal_Escrow env (cbor_Marshal_Escrow env b) = Some b) \<and>
     (\<forall>b. cbor_Unmarshal_ReclaimEscrow env (cbor_Marshal_ReclaimEscrow env b) = Some b)"

definition signed_codecs_invert :: "env \<Rightarrow> bool" where
  "signed_codecs_invert env \<longleftrightarrow>
     (\<forall>st s. json_Marshal_SignedTransaction env st = Some s \<longrightarrow>
        json_Unmarshal_SignedTransaction env s = Some st) \<and>
     (\<forall>tx. cbor_Unmarshal_Transaction env (cbor_Marshal_Transaction env tx) = Some tx)"

definition methods_distinct :: "env \<Rightarrow> bool" where
  "methods_distinct env \<longleftrightarrow>
     distinct [MethodTransfer env, MethodBurn env, MethodAddEscrow env, MethodReclaimEscrow env]"

subsection \<open>The round trip, in the words of the specification\<close>

text \<open>
  The composition \<^verbatim>\<open>parse(unsigned-tx-from(payloads(ops, nonce)))\<close> of the
  specification: ConstructionParse, unsigned, of the unsigned transaction that
  ConstructionPayloads returns.
\<close>

definition payloads_then_parse :: "env \<Rightarrow> ConstructionPayloadsRequest \<Rightarrow> error + ConstructionParseResponse" where
  "payloads_then_parse env request =
     (case ConstructionPayloads env request of
        Inl err \<Rightarrow> Inl err
      | Inr response \<Rightarrow>
          ConstructionParse env
            \<lparr>parse_NetworkIdentifier = payloads_NetworkIdentifier request,
             parse_Signed = False,
             parse_Transaction = payloads_UnsignedTransaction response\<rparr>)"

text \<open>
  The operations as the specification expects them back: the address of the fee payer
  (index 0) and, except in the reclaim-escrow pattern, of the debit operation (index 1),
  which payloads has checked to be the signer's, replaced by the placeholder. The
  comparison is on indices, types, accounts and amounts: the metadata is set aside.
\<close>

definition with_placeholder :: "operation option \<Rightarrow> operation option" where
  "with_placeholder =
     map_option (\<lambda>op. op\<lparr>Account := map_option (\<lambda>acc. acc\<lparr>Address := FromPlaceholder\<rparr>) (Account op)\<rparr>)"

definition placeholder_ops :: "matched \<Rightarrow> operation option list \<Rightarrow> operation option list" where
  "placeholder_ops m ops =
     (if m = MatchedReclaimEscrow
      then ops[0 := with_placeholder (ops ! 0)]
      else ops[0 := with_placeholder (ops ! 0), 1 := with_placeholder (ops ! 1)])"

definition without_metadata :: "operation option \<Rightarrow> operation option" where
  "without_metadata = map_option (\<lambda>op. op\<lparr>Metadata := Map.empty\<rparr>)"

text \<open>
  The forms that parse writes. A value string is canonical when it is what parse prints
  for the integer that it reads as: the decimal digits of the magnitude, after a minus
  sign on the debit side. An address is canonical when it is the text of the address
  that it decodes to. An operation is canonical at an index when it carries that index,
  its amount has the given currency and a canonical value, and, where the address is
  encoded into the transaction, its address is canonical.
\<close>

definition canonical_value :: "env \<Rightarrow> bool \<Rightarrow> string \<Rightarrow> bool" where
  "canonical_value env negative s =
     (case big_Int_UnmarshalText env s of
        None \<Rightarrow> False
      | Some v \<Rightarrow>
          if negative then v \<le> 0 \<and> s = ''-'' @ Quantity_String (nat (- v))
          else 0 \<le> v \<and> s = Quantity_String (nat v))"

definition canonical_address :: "env \<Rightarrow> string \<Rightarrow> bool" where
  "canonical_address env s =
     (case Address_UnmarshalText env s of
        None \<Rightarrow> False
      | Some a \<Rightarrow> Address_String env a = s)"

definition canonical_op :: "env \<Rightarrow> int \<Rightarrow> bool \<Rightarrow> currency \<Rightarrow> bool \<Rightarrow> operation option \<Rightarrow> bool" where
  "canonical_op env idx negative cur encoded p =
     (case p of
        None \<Rightarrow> False
      | Some op \<Rightarrow>
          OperationIdentifier op = Some \<lparr>Index = idx\<rparr> \<and>
          (case Amount op of
             None \<Rightarrow> False
           | Some am \<Rightarrow> Currency am = Some cur \<and> canonical_value env negative (Value am)) \<and>
          (if encoded
           then (case Account op of
                   None \<Rightarrow> False
                 | Some acc \<Rightarrow> canonical_address env (Address acc))
           else True))"

definition canonical_ops :: "env \<Rightarrow> matched \<Rightarrow> operation option list \<Rightarrow> bool" where
  "canonical_ops env m ops =
     (canonical_op env 0 True (OasisCurrency env) False (ops ! 0) \<and>
      (case m of
         MatchedTransfer \<Rightarrow>
           canonical_op env 1 True (OasisCurrency env) False (ops ! 1) \<and>
           canonical_op env 2 False (OasisCurrency env) True (ops ! 2)
       | MatchedBurn \<Rightarrow>
           canonical_op env 1 True (OasisCurrency env) False (ops ! 1)
       | MatchedAddEscrow \<Rightarrow>
           canonical_op env 1 True (OasisCurrency env) False (ops ! 1) \<and>
           canonical_op env 2 False (OasisCurrency env) True (ops ! 2)
       | MatchedReclaimEscrow \<Rightarrow>
           canonical_op env 1 True (PoolShare env) True (ops ! 1)
       | Unmatched \<Rightarrow> False))"

text \<open>The amount strings of an operation list, in order.\<close>

definition amount_values :: "operation option list \<Rightarrow> string list" where
  "amount_values ops =
     map (\<lambda>p. case p of
                 None \<Rightarrow> []
               | Some op \<Rightarrow> (case Amount op of None \<Rightarrow> [] | Some am \<Rightarrow> Value am)) ops"

subsection \<open>A reference environment\<close>

text \<open>
  One environment, for evaluating the handlers on concrete requests. Its encodings are
  simple stand-ins for JSON, CBOR and Bech32: a value is a list of numbers, written in
  decimal with a comma after each. Its integer reader takes the plain decimal forms that
  \<^verbatim>\<open>big.Int\<close> reads: an optional sign, then \<open>0\<close> or digits that do not start with \<open>0\<close>.
\<close>

definition is_digit :: "char \<Rightarrow> bool" where
  "is_digit c \<longleftrightarrow> (48::nat) \<le> of_char c \<and> of_char c \<le> (57::nat)"

definition dec_acc :: "nat \<Rightarrow> string \<Rightarrow> nat" where
  "dec_acc acc s = foldl (\<lambda>a c. 10 * a + (of_char c - 48)) acc s"

definition ref_decimal :: "string \<Rightarrow> nat option" where
  "ref_decimal s = (if s \<noteq> [] \<and> list_all is_digit s then Some (dec_acc 0 s) else None)"

definition ref_plain_decimal :: "string \<Rightarrow> nat option" where
  "ref_plain_decimal s =
     (if s \<noteq> [] \<and> hd s = CHR ''0'' \<and> tl s \<noteq> [] then None else ref_decimal s)"

definition ref_big_Int_UnmarshalText :: "string \<Rightarrow> int option" where
  "ref_big_Int_UnmarshalText s =
     (case s of
        [] \<Rightarrow> None
      | c # cs \<Rightarrow>
          if c = CHR ''-'' then map_option (\<lambda>n. - int n) (ref_plain_decimal cs)
          else if c = CHR ''+'' then map_option int (ref_plain_decimal cs)
          else map_option int (ref_plain_decimal s))"

fun ref_show_nats :: "nat list \<Rightarrow> string" where
  "ref_show_nats [] = []"
| "ref_show_nats (n # ns) = Quantity_String n @ CHR '','' # ref_show_nats ns"

fun split_commas :: "string \<Rightarrow> string \<Rightarrow> string list option" where
  "split_commas cur [] = (if cur = [] then Some [] else None)"
| "split_commas cur (c # cs) =
     (if c = CHR '','' then map_option (Cons (rev cur)) (split_commas [] cs)
      else split_commas (c # cur) cs)"

definition ref_read_nats :: "string \<Rightarrow> nat list option" where
  "ref_read_nats s =
     (case split_commas [] s of
        None \<Rightarrow> None
      | Some toks \<Rightarrow>
          if list_all (\<lambda>t. ref_decimal t \<noteq> None) toks
          then Some (map (dec_acc 0) toks)
          else None)"

definition byte_of_char :: "char \<Rightarrow> 8 word" where
  "byte_of_char c = of_nat (of_char c)"

definition char_of_byte :: "8 word \<Rightarrow> char" where
  "char_of_byte b = char_of (unat b)"

definition ref_tx_nats :: "transaction \<Rightarrow> nat list" where
  "ref_tx_nats tx =
     unat (Nonce tx) #
     (case Fee tx of None \<Rightarrow> [0, 0, 0] | Some f \<Rightarrow> [1, FeeAmount f, unat (Gas f)]) @
     length (Method tx) # map of_char (Method tx) @ map unat (Body tx)"

fun ref_nats_tx :: "nat list \<Rightarrow> transaction option" where
  "ref_nats_tx (n # fl # a # g # l # rest) =
     (if l \<le> length rest
      then Some \<lparr>Nonce = of_nat n,
                 Fee = (if fl = 0 then None else Some \<lparr>FeeAmount = a, Gas = of_nat g\<rparr>),
                 Method = map char_of (take l rest),
                 Body = map of_nat (drop l rest)\<rparr>
      else None)"
| "ref_nats_tx _ = None"

definition ref_st_nats :: "signed_transaction \<Rightarrow> nat list" where
  "ref_st_nats st =
     length (Blob st) # length (SigPublicKey (Signature st)) #
     map unat (Blob st) @ map unat (SigPublicKey (Signature st)) @
     map unat (SigSignature (Signature st))"

fun ref_nats_st :: "nat list \<Rightarrow> signed_transaction option" where
  "ref_nats_st (lb # lp # rest) =
     (if lb + lp \<le> length rest
      then Some \<lparr>Blob = map of_nat (take lb rest),
                 Signature = \<lparr>SigPublicKey = map of_nat (take lp (drop lb rest)),
                              SigSignature = map of_nat (drop (lb + lp) rest)\<rparr>\<rparr>
      else None)"
| "ref_nats_st _ = None"

definition ref_bytes :: "nat list \<Rightarrow> bytes" where
  "ref_bytes ns = map byte_of_char (ref_show_nats ns)"

definition ref_unbytes :: "bytes \<Rightarrow> nat list option" where
  "ref_unbytes bs = ref_read_nats (map char_of_byte bs)"

definition ref_Unmarshal_Transfer :: "bytes \<Rightarrow> staking_Transfer option" where
  "ref_Unmarshal_Transfer bs =
     (case ref_unbytes bs of
        Some (t # rest) \<Rightarrow> Some \<lparr>Transfer_To = map of_nat rest, Transfer_Tokens = t\<rparr>
      | _ \<Rightarrow> None)"

definition ref_Unmarshal_Burn :: "bytes \<Rightarrow> staking_Burn option" where
  "ref_Unmarshal_Burn bs =
     (case ref_unbytes bs of
        Some [t] \<Rightarrow> Some \<lparr>Burn_Tokens = t\<rparr>
      | _ \<Rightarrow> None)"

definition ref_Unmarshal_Escrow :: "bytes \<Rightarrow> staking_Escrow option" where
  "ref_Unmarshal_Escrow bs =
     (case ref_unbytes bs of
        Some (t # rest) \<Rightarrow> Some \<lparr>Escrow_Account = map of_nat rest, Escrow_Tokens = t\<rparr>
      | _ \<Rightarrow> None)"

definition ref_Unmarshal_ReclaimEscrow :: "bytes \<Rightarrow> staking_ReclaimEscrow option" where
  "ref_Unmarshal_ReclaimEscrow bs =
     (case ref_unbytes bs of
        Some (t # rest) \<Rightarrow> Some \<lparr>ReclaimEscrow_Account = map of_nat rest, ReclaimEscrow_Shares = t\<rparr>
      | _ \<Rightarrow> None)"

definition ref_network :: network_identifier where
  "ref_network = \<lparr>Blockchain = ''Oasis'', Network = ''testnet''\<rparr>"

text \<open>
  The stand-in for the signature scheme: the one valid signature of a blob under a key is
  the first 64 bytes of the key followed by the blob and zeros.
\<close>

definition ref_sign :: "PublicKey \<Rightarrow> bytes \<Rightarrow> RawSignature" where
  "ref_sign pk blob = take 64 (pk @ blob @ replicate 64 0)"

definition ref_float64_to_uint64 :: "float64 \<Rightarrow> uint64" where
  "ref_float64_to_uint64 f = (if f < 0 then - word_of_int \<lfloor>- f\<rfloor> else word_of_int \<lfloor>f\<rfloor>)"

definition ref_env :: env where
  "ref_env =
     \<lparr>OpTransfer = ''Transfer'',
      OpBurn = ''Burn'',
      SubAccountGeneral = ''general'',
      SubAccountEscrow = ''escrow'',
      OasisCurrency = \<lparr>Symbol = ''ROSE'', Decimals = 9\<rparr>,
      PoolShare = \<lparr>Symbol = ''(pool share)'', Decimals = 0\<rparr>,
      ValidateNetworkIdentifier =
        (\<lambda>n. if n = Some ref_network then None else Some (ErrNetwork ''invalid network'')),
      MethodTransfer = ''staking.Transfer'',
      MethodBurn = ''staking.Burn'',
      MethodAddEscrow = ''staking.AddEscrow'',
      MethodReclaimEscrow = ''staking.ReclaimEscrow'',
      float64_to_uint64 = ref_float64_to_uint64,
      big_Int_UnmarshalText = ref_big_Int_UnmarshalText,
      Address_UnmarshalText =
        (\<lambda>s. if length s = 21 then Some (map byte_of_char s) else None),
      Address_String = map char_of_byte,
      NewAddress = take 21,
      PublicKey_UnmarshalBinary = (\<lambda>b. if length b = 32 then Some b else None),
      RawSignature_UnmarshalBinary = (\<lambda>b. if length b = 64 then Some b else None),
      json_Marshal_Transaction = (\<lambda>tx. Some (ref_show_nats (ref_tx_nats tx))),
      json_Unmarshal_Transaction =
        (\<lambda>s. case ref_read_nats s of None \<Rightarrow> None | Some ns \<Rightarrow> ref_nats_tx ns),
      json_Marshal_SignedTransaction = (\<lambda>st. Some (ref_show_nats (ref_st_nats st))),
      json_Unmarshal_SignedTransaction =
        (\<lambda>s. case ref_read_nats s of None \<Rightarrow> None | Some ns \<Rightarrow> ref_nats_st ns),
      cbor_Marshal_Transaction = (\<lambda>tx. ref_bytes (ref_tx_nats tx)),
      cbor_Unmarshal_Transaction =
        (\<lambda>bs. case ref_unbytes bs of None \<Rightarrow> None | Some ns \<Rightarrow> ref_nats_tx ns),
      cbor_Marshal_Transfer =
        (\<lambda>b. ref_bytes (Transfer_Tokens b # map unat (Transfer_To b))),
      cbor_Unmarshal_Transfer = ref_Unmarshal_Transfer,
      cbor_Marshal_Burn = (\<lambda>b. ref_bytes [Burn_Tokens b]),
      cbor_Unmarshal_Burn = ref_Unmarshal_Burn,
      cbor_Marshal_Escrow =
        (\<lambda>b. ref_bytes (Escrow_Tokens b # map unat (Escrow_Account b))),
      cbor_Unmarshal_Escrow = ref_Unmarshal_Escrow,
      cbor_Marshal_ReclaimEscrow =
        (\<lambda>b. ref_bytes (ReclaimEscrow_Shares b # map unat (ReclaimEscrow_Account b))),
      cbor_Unmarshal_ReclaimEscrow = ref_Unmarshal_ReclaimEscrow,
      Verify = (\<lambda>pk blob rs. rs = ref_sign pk blob),
      PrepareSignerMessage =
        (\<lambda>m. Some (map byte_of_char ''oasis-core/consensus: tx'' @ m)),
      Hash_String = (\<lambda>st. ref_show_nats (map unat (Blob st)))\<rparr>"

subsection \<open>Concrete requests\<close>

text \<open>
  Requests on which the handlers are evaluated in the reference environment: the
  scenarios of the specification, and variations of them.
\<close>

definition encoders_total :: "env \<Rightarrow> bool" where
  "encoders_total env \<longleftrightarrow>
     (\<forall>tx. json_Marshal_Transaction env tx \<noteq> None) \<and>
     (\<forall>m. PrepareSignerMessage env m \<noteq> None)"

definition rose :: currency where
  "rose = \<lparr>Symbol = ''ROSE'', Decimals = 9\<rparr>"

definition pool_share :: currency where
  "pool_share = \<lparr>Symbol = ''(pool share)'', Decimals = 0\<rparr>"

definition alice :: string where
  "alice = ''oasis1-alice-addr-001''"

definition bob :: string where
  "bob = ''oasis1-bob-address-02''"

definition carol :: string where
  "carol = ''oasis1-carol-escrow-3''"

definition fee_operation :: "string \<Rightarrow> (string \<rightharpoonup> dyn) \<Rightarrow> operation option" where
  "fee_operation val md = new_operation 0 ''Transfer'' alice ''general'' val rose md"

definition transfer_ops ::
  "string \<Rightarrow> (string \<rightharpoonup> dyn) \<Rightarrow> string \<Rightarrow> string \<Rightarrow> string \<Rightarrow> string \<Rightarrow> operation option list" where
  "transfer_ops feeVal feeMd debitAddr debitVal creditAddr creditVal =
     [fee_operation feeVal feeMd,
      new_operation 1 ''Transfer'' debitAddr ''general'' debitVal rose Map.empty,
      new_operation 2 ''Transfer'' creditAddr ''general'' creditVal rose Map.empty]"

definition burn_ops :: "string \<Rightarrow> string \<Rightarrow> string \<Rightarrow> operation option list" where
  "burn_ops feeVal debitAddr debitVal =
     [fee_operation feeVal Map.empty,
      new_operation 1 ''Burn'' debitAddr ''general'' debitVal rose Map.empty]"

definition add_escrow_ops ::
  "string \<Rightarrow> string \<Rightarrow> string \<Rightarrow> string \<Rightarrow> string \<Rightarrow> operation option list" where
  "add_escrow_ops feeVal debitAddr debitVal escrowAddr creditVal =
     [fee_operation feeVal Map.empty,
      new_operation 1 ''Transfer'' debitAddr ''general'' debitVal rose Map.empty,
      new_operation 2 ''Transfer'' escrowAddr ''escrow'' creditVal rose Map.empty]"

definition reclaim_escrow_ops :: "string \<Rightarrow> string \<Rightarrow> string \<Rightarrow> operation option list" where
  "reclaim_escrow_ops feeVal escrowAddr debitVal =
     [fee_operation feeVal Map.empty,
      new_operation 1 ''Transfer'' escrowAddr ''escrow'' debitVal pool_share Map.empty]"

definition payloads_request :: "operation option list \<Rightarrow> float64 \<Rightarrow> ConstructionPayloadsRequest" where
  "payloads_request ops nonce =
     \<lparr>payloads_NetworkIdentifier = Some ref_network,
      payloads_Operations = ops,
      payloads_Metadata = [NonceKey \<mapsto> VFloat64 nonce]\<rparr>"

definition parse_request :: "bool \<Rightarrow> string \<Rightarrow> ConstructionParseRequest" where
  "parse_request isSigned text =
     \<lparr>parse_NetworkIdentifier = Some ref_network, parse_Signed = isSigned,
      parse_Transaction = text\<rparr>"

definition transfer_tx :: transaction where
  "transfer_tx =
     \<lparr>Nonce = 5, Fee = Some \<lparr>FeeAmount = 10, Gas = 20000\<rparr>,
      Method = ''staking.Transfer'',
      Body = cbor_Marshal_Transfer ref_env
               \<lparr>Transfer_To = map byte_of_char bob, Transfer_Tokens = 100\<rparr>\<rparr>"

definition other_tx :: transaction where
  "other_tx =
     \<lparr>Nonce = 5, Fee = None, Method = ''staking.AmendCommissionSchedule'', Body = []\<rparr>"

definition public_key :: PublicKey where
  "public_key = replicate 32 7"

definition ref_signed :: "transaction \<Rightarrow> RawSignature \<Rightarrow> signed_transaction" where
  "ref_signed tx rs =
     \<lparr>Blob = cbor_Marshal_Transaction ref_env tx,
      Signature = \<lparr>SigPublicKey = public_key, SigSignature = rs\<rparr>\<rparr>"

definition unsigned_text :: "transaction \<Rightarrow> string" where
  "unsigned_text tx = ref_show_nats (ref_tx_nats tx)"

definition signed_text :: "signed_transaction \<Rightarrow> string" where
  "signed_text st = ref_show_nats (ref_st_nats st)"

definition combine_request :: "string \<Rightarrow> rosetta_Signature option list \<Rightarrow> ConstructionCombineRequest" where
  "combine_request text sigs =
     \<lparr>combine_NetworkIdentifier = Some ref_network,
      combine_UnsignedTransaction = text,
      combine_Signatures = sigs\<rparr>"

definition detached_signature :: "bytes \<Rightarrow> bytes \<Rightarrow> rosetta_Signature option" where
  "detached_signature pk rs = Some \<lparr>sig_PublicKey = Some \<lparr>pk_Bytes = pk\<rparr>, sig_Bytes = rs\<rparr>"

definition submit_request :: "string \<Rightarrow> ConstructionSubmitRequest" where
  "submit_request text =
     \<lparr>submit_NetworkIdentifier = Some ref_network, submit_SignedTransaction = text\<rparr>"

text \<open>
  Two node clients. The state of the node of the first is the list of the signed
  transactions broadcast: its \<^verbatim>\<open>SubmitTx\<close> decodes the text and returns the error of the
  decoder, or broadcasts the transaction. The second hands every text on to the node,
  whose state is the list of the texts received.
\<close>

definition decoding_client :: "signed_transaction list OasisClient" where
  "decoding_client =
     \<lparr>SubmitTx = (\<lambda>text node.
        case json_Unmarshal_SignedTransaction ref_env text of
          None \<Rightarrow> (Some ''cannot unmarshal'', node)
        | Some st \<Rightarrow> (None, node @ [st]))\<rparr>"

definition forwarding_client :: "string list OasisClient" where
  "forwarding_client = \<lparr>SubmitTx = (\<lambda>text node. (None, node @ [text]))\<rparr>"

section \<open>Properties\<close>

subsection \<open>The reference environment\<close>

lemma ref_env_consts:
  "OpTransfer ref_env = ''Transfer''"
  "OpBurn ref_env = ''Burn''"
  "SubAccountGeneral ref_env = ''general''"
  "SubAccountEscrow ref_env = ''escrow''"
  "OasisCurrency ref_env = \<lparr>Symbol = ''ROSE'', Decimals = 9\<rparr>"
  "PoolShare ref_env = \<lparr>Symbol = ''(pool share)'', Decimals = 0\<rparr>"
  "ValidateNetworkIdentifier ref_env n =
     (if n = Some ref_network then None else Some (ErrNetwork ''invalid network''))"
  "MethodTransfer ref_env = ''staking.Transfer''"
  "MethodBurn ref_env = ''staking.Burn''"
  "MethodAddEscrow ref_env = ''staking.AddEscrow''"
  "MethodReclaimEscrow ref_env = ''staking.ReclaimEscrow''"
  by (simp_all add: ref_env_def)

lemma ref_env_funs:
  "float64_to_uint64 ref_env = ref_float64_to_uint64"
  "big_Int_UnmarshalText ref_env = ref_big_Int_UnmarshalText"
  "Address_UnmarshalText ref_env s = (if length s = 21 then Some (map byte_of_char s) else None)"
  "Address_String ref_env = map char_of_byte"
  "NewAddress ref_env = take 21"
  "PublicKey_UnmarshalBinary ref_env b = (if length b = 32 then Some b else None)"
  "RawSignature_UnmarshalBinary ref_env b = (if length b = 64 then Some b else None)"
  "Verify ref_env pk blob rs \<longleftrightarrow> rs = ref_sign pk blob"
  "PrepareSignerMessage ref_env m = Some (map byte_of_char ''oasis-core/consensus: tx'' @ m)"
  "Hash_String ref_env st = ref_show_nats (map unat (Blob st))"
  by (simp_all add: ref_env_def)

lemma ref_env_codecs:
  "json_Marshal_Transaction ref_env tx = Some (ref_show_nats (ref_tx_nats tx))"
  "json_Unmarshal_Transaction ref_env s =
     (case ref_read_nats s of None \<Rightarrow> None | Some ns \<Rightarrow> ref_nats_tx ns)"
  "json_Marshal_SignedTransaction ref_env st = Some (ref_show_nats (ref_st_nats st))"
  "json_Unmarshal_SignedTransaction ref_env s =
     (case ref_read_nats s of None \<Rightarrow> None | Some ns \<Rightarrow> ref_nats_st ns)"
  "cbor_Marshal_Transaction ref_env tx = ref_bytes (ref_tx_nats tx)"
  "cbor_Unmarshal_Transaction ref_env bs =
     (case ref_unbytes bs of None \<Rightarrow> None | Some ns \<Rightarrow> ref_nats_tx ns)"
  "cbor_Marshal_Transfer ref_env tb = ref_bytes (Transfer_Tokens tb # map unat (Transfer_To tb))"
  "cbor_Unmarshal_Transfer ref_env = ref_Unmarshal_Transfer"
  "cbor_Marshal_Burn ref_env bb = ref_bytes [Burn_Tokens bb]"
  "cbor_Unmarshal_Burn ref_env = ref_Unmarshal_Burn"
  "cbor_Marshal_Escrow ref_env eb = ref_bytes (Escrow_Tokens eb # map unat (Escrow_Account eb))"
  "cbor_Unmarshal_Escrow ref_env = ref_Unmarshal_Escrow"
  "cbor_Marshal_ReclaimEscrow ref_env rb =
     ref_bytes (ReclaimEscrow_Shares rb # map unat (ReclaimEscrow_Account rb))"
  "cbor_Unmarshal_ReclaimEscrow ref_env = ref_Unmarshal_ReclaimEscrow"
  by (simp_all add: ref_env_def)

subsection \<open>Unfolding the model\<close>

lemmas payloads_defs =
  ConstructionPayloads_def payloads_transaction_def payloads_nonce_def payloads_fee_def
  payloads_switch_def payloads_match_def cond3_def cond2_def op_shape_def payloads_transfer_def
  payloads_burn_def payloads_add_escrow_def payloads_reclaim_escrow_def op_Address_def
  op_Amount_def read_or_malformed_def readOasisCurrency_def readOasisCurrencyNeg_def
  readPoolShareNeg_def readCurrency_def Quantity_FromBigInt_def address_after_UnmarshalText_def
  new_operation_def NonceKey_def FeeGasKey_def DefaultGas_def Ed25519_def

lemmas ref_defs =
  ref_env_consts ref_env_funs ref_env_codecs ref_big_Int_UnmarshalText_def
  ref_plain_decimal_def ref_decimal_def is_digit_def dec_acc_def ref_float64_to_uint64_def
  ref_network_def

lemmas request_defs =
  payloads_request_def fee_operation_def transfer_ops_def burn_ops_def add_escrow_ops_def
  reclaim_escrow_ops_def rose_def pool_share_def alice_def bob_def carol_def

subsection \<open>The stages of ConstructionPayloads\<close>

lemma payloads_nonce_error:
  "payloads_nonce env request = Inl e \<Longrightarrow> e = ErrMalformedValue"
  by (auto simp: payloads_nonce_def split: option.splits dyn.splits)

lemma readCurrency_error:
  "readCurrency env amount cur negative = Inl e \<Longrightarrow> e = Panic \<or> (\<exists>m. e = GoError m)"
  by (auto simp: readCurrency_def split: option.splits if_splits)

lemma payloads_fee_error:
  "payloads_fee env p = Inl e \<Longrightarrow> e = ErrMalformedValue \<or> e = Panic"
  by (auto simp: payloads_fee_def split: option.splits if_splits sum.splits dyn.splits)

lemma payloads_fee_signer:
  "payloads_fee env (Some f) = Inr (signer, fa, fg) \<Longrightarrow> Account f = Some acc \<Longrightarrow> signer = Address acc"
  by (auto simp: payloads_fee_def split: option.splits if_splits sum.splits dyn.splits)

lemma op_shape_TrueD:
  "op_shape p t s = Inr True \<Longrightarrow>
     \<exists>op acc sub. p = Some op \<and> Type op = t \<and> Account op = Some acc \<and>
       SubAccount acc = Some sub \<and> SubAddress sub = s"
  by (auto simp: op_shape_def split: option.splits if_splits)

lemma cond3_TrueD:
  "cond3 ops t1 s1 t2 s2 = Inr True \<Longrightarrow>
     length ops = 3 \<and> op_shape (ops ! 1) t1 s1 = Inr True \<and> op_shape (ops ! 2) t2 s2 = Inr True"
  by (auto simp: cond3_def split: if_splits sum.splits)

lemma cond2_TrueD:
  "cond2 ops t1 s1 = Inr True \<Longrightarrow> length ops = 2 \<and> op_shape (ops ! 1) t1 s1 = Inr True"
  by (auto simp: cond2_def split: if_splits)

lemma match_TransferD:
  "payloads_match env ops = Inr MatchedTransfer \<Longrightarrow>
     cond3 ops (OpTransfer env) (SubAccountGeneral env) (OpTransfer env) (SubAccountGeneral env) = Inr True"
  by (auto simp: payloads_match_def split: sum.splits if_splits)

lemma match_BurnD:
  "payloads_match env ops = Inr MatchedBurn \<Longrightarrow>
     cond2 ops (OpBurn env) (SubAccountGeneral env) = Inr True"
  by (auto simp: payloads_match_def split: sum.splits if_splits)

lemma match_AddEscrowD:
  "payloads_match env ops = Inr MatchedAddEscrow \<Longrightarrow>
     cond3 ops (OpTransfer env) (SubAccountGeneral env) (OpTransfer env) (SubAccountEscrow env) = Inr True"
  by (auto simp: payloads_match_def split: sum.splits if_splits)

lemma match_ReclaimEscrowD:
  "payloads_match env ops = Inr MatchedReclaimEscrow \<Longrightarrow>
     cond2 ops (OpTransfer env) (SubAccountEscrow env) = Inr True"
  by (auto simp: payloads_match_def split: sum.splits if_splits)

lemma match_length:
  "payloads_match env ops = Inr m \<Longrightarrow> m \<noteq> Unmatched \<Longrightarrow> 2 \<le> length ops"
  by (cases m) (auto dest!: match_TransferD match_BurnD match_AddEscrowD match_ReclaimEscrowD
      cond3_TrueD cond2_TrueD)

subsection \<open>An operation list that holds only the fee operation\<close>

text \<open>
  Claim C5, as amended. A request that passes the network validation and whose
  operation list has length 1 fails with MalformedValue: after the nonce checks, which
  fail with MalformedValue themselves, the guard \<^verbatim>\<open>len(request.Operations) < 2\<close> of line 633
  returns it. The default case of the switch, which returns NotImplemented, is not
  reached.
\<close>

theorem payloads_single_operation:
  assumes "ValidateNetworkIdentifier env (payloads_NetworkIdentifier request) = None"
    and "length (payloads_Operations request) = 1"
  shows "ConstructionPayloads env request = Inl ErrMalformedValue"
  using assms
  by (auto simp: ConstructionPayloads_def payloads_transaction_def
      split: sum.splits dest: payloads_nonce_error)

theorem payloads_single_operation_witness:
  "ValidateNetworkIdentifier ref_env
     (payloads_NetworkIdentifier (payloads_request [fee_operation ''-1'' Map.empty] 5)) = None \<and>
   length (payloads_Operations (payloads_request [fee_operation ''-1'' Map.empty] 5)) = 1 \<and>
   ConstructionPayloads ref_env (payloads_request [fee_operation ''-1'' Map.empty] 5) =
     Inl ErrMalformedValue"
proof -
  let ?r = "payloads_request [fee_operation ''-1'' Map.empty] 5"
  have net: "ValidateNetworkIdentifier ref_env (payloads_NetworkIdentifier ?r) = None"
    by (simp add: payloads_request_def ref_env_consts)
  have len: "length (payloads_Operations ?r) = 1"
    by (simp add: payloads_request_def)
  from payloads_single_operation [OF net len] net len show ?thesis by simp
qed

text \<open>
  Claim C5 as stated fails: the request with nonce 5 whose only operation is the fee
  operation of \<open>alice\<close> does not fail with NotImplemented.
\<close>

theorem fee_only_is_not_NotImplemented:
  "ConstructionPayloads ref_env (payloads_request [fee_operation ''-1'' Map.empty] 5)
     \<noteq> Inl ErrNotImplemented"
  by (simp add: payloads_defs ref_defs request_defs)

subsection \<open>From the stages to the handler\<close>

lemma handler_transaction_error:
  "ValidateNetworkIdentifier env (payloads_NetworkIdentifier request) = None \<Longrightarrow>
   payloads_transaction env request = Inl e \<Longrightarrow>
   ConstructionPayloads env request = Inl e"
  by (simp add: ConstructionPayloads_def)

lemma payloads_transaction_malformed:
  assumes "payloads_fee env (payloads_Operations request ! 0) \<noteq> Inl Panic"
    and "\<And>signer fa fg. payloads_fee env (payloads_Operations request ! 0) = Inr (signer, fa, fg) \<Longrightarrow>
           payloads_switch env (payloads_Operations request) signer = Inl ErrMalformedValue"
  shows "payloads_transaction env request = Inl ErrMalformedValue"
proof (cases "payloads_nonce env request")
  case (Inl e)
  then show ?thesis
    by (simp add: payloads_transaction_def payloads_nonce_error)
next
  case (Inr n)
  show ?thesis
  proof (cases "payloads_fee env (payloads_Operations request ! 0)")
    case (Inl e)
    with assms(1) have "e = ErrMalformedValue"
      using payloads_fee_error by blast
    with Inl Inr show ?thesis
      by (simp add: payloads_transaction_def)
  next
    case fee: (Inr r)
    obtain signer fa fg where r: "r = (signer, fa, fg)"
      by (cases r) auto
    from assms(2) fee r
    have "payloads_switch env (payloads_Operations request) signer = Inl ErrMalformedValue"
      by simp
    with Inr fee r show ?thesis
      by (simp add: payloads_transaction_def)
  qed
qed

lemma payloads_transaction_ok:
  assumes "payloads_nonce env request = Inr n"
    and "2 \<le> length (payloads_Operations request)"
    and "payloads_fee env (payloads_Operations request ! 0) = Inr (signer, fa, fg)"
    and "payloads_switch env (payloads_Operations request) signer = Inr (meth, body)"
  shows "payloads_transaction env request =
           Inr (signer, \<lparr>Nonce = n, Fee = Some \<lparr>FeeAmount = fa, Gas = fg\<rparr>,
                         Method = meth, Body = body\<rparr>)"
  using assms by (simp add: payloads_transaction_def)

lemma handler_ok:
  assumes "ValidateNetworkIdentifier env (payloads_NetworkIdentifier request) = None"
    and "payloads_transaction env request = Inr (signer, tx)"
    and "encoders_total env"
  shows "\<exists>txJSON txMessage.
           json_Marshal_Transaction env tx = Some txJSON \<and>
           PrepareSignerMessage env (cbor_Marshal_Transaction env tx) = Some txMessage \<and>
           ConstructionPayloads env request =
             Inr \<lparr>payloads_UnsignedTransaction = txJSON,
                  Payloads = [\<lparr>payload_Address = signer, payload_Bytes = txMessage,
                               payload_SignatureType = Ed25519\<rparr>]\<rparr>"
proof -
  from assms(3) obtain j where j: "json_Marshal_Transaction env tx = Some j"
    by (auto simp: encoders_total_def)
  from assms(3) obtain m where m: "PrepareSignerMessage env (cbor_Marshal_Transaction env tx) = Some m"
    by (auto simp: encoders_total_def)
  from assms(1,2) j m show ?thesis
    by (simp add: ConstructionPayloads_def)
qed

lemma match_op1:
  assumes "payloads_match env ops = Inr m" and "m \<noteq> Unmatched"
  shows "\<exists>op acc. ops ! 1 = Some op \<and> Account op = Some acc"
  using assms
  by (cases m) (auto dest!: match_TransferD match_BurnD match_AddEscrowD match_ReclaimEscrowD
      cond3_TrueD cond2_TrueD op_shape_TrueD)

lemma match_op2:
  assumes "payloads_match env ops = Inr m" and "m = MatchedTransfer \<or> m = MatchedAddEscrow"
  shows "\<exists>op acc. ops ! 2 = Some op \<and> Account op = Some acc"
  using assms
  by (auto dest!: match_TransferD match_AddEscrowD cond3_TrueD op_shape_TrueD)

lemma switch_signer_mismatch:
  assumes "payloads_match env ops = Inr m"
    and "m = MatchedTransfer \<or> m = MatchedBurn \<or> m = MatchedAddEscrow"
    and "ops ! 1 = Some o1" and "Account o1 = Some a1" and "Address a1 \<noteq> signer"
  shows "payloads_switch env ops signer = Inl ErrMalformedValue"
  using assms
  by (auto simp: payloads_switch_def payloads_transfer_def payloads_burn_def
      payloads_add_escrow_def op_Address_def)

lemma switch_reclaim:
  assumes "payloads_match env ops = Inr MatchedReclaimEscrow"
    and "ops ! 1 = Some o1" and "Account o1 = Some a1"
    and "readPoolShareNeg env (Amount o1) = Inr shares"
  shows "payloads_switch env ops signer =
           Inr (MethodReclaimEscrow env,
                cbor_Marshal_ReclaimEscrow env
                  \<lparr>ReclaimEscrow_Account = address_after_UnmarshalText env (Address a1),
                   ReclaimEscrow_Shares = shares\<rparr>)"
  using assms
  by (simp add: payloads_switch_def payloads_reclaim_escrow_def op_Address_def op_Amount_def
      read_or_malformed_def)

lemma ref_env_encoders_total: "encoders_total ref_env"
  by (simp add: encoders_total_def ref_env_codecs ref_env_funs)

subsection \<open>The signer check of the cases of the switch\<close>

text \<open>
  Claim C2. Let the request pass the network validation, and let the fee operation
  (index 0) and the debit operation (index 1) have accounts. If the operation list
  matches the transfer, the burn or the add-escrow case, the fee operation does not
  crash the handler, and the address of the debit operation differs from the address of
  the fee operation, the handler fails with MalformedValue. If the list matches the
  reclaim-escrow case, and the nonce, the fee operation and the amount of pool shares
  are read (and the encoders of the libraries do not fail), the handler succeeds and
  the signing payload is for the address of the fee operation: no hypothesis relates the
  address of the withdrawing account to it.
\<close>

theorem payloads_signer_check:
  assumes net: "ValidateNetworkIdentifier env (payloads_NetworkIdentifier request) = None"
    and fee: "payloads_Operations request ! 0 = Some feeOp" "Account feeOp = Some feeAcc"
    and deb: "payloads_Operations request ! 1 = Some debitOp" "Account debitOp = Some debitAcc"
  shows
    "(payloads_match env (payloads_Operations request) \<in>
        {Inr MatchedTransfer, Inr MatchedBurn, Inr MatchedAddEscrow} \<and>
      payloads_fee env (Some feeOp) \<noteq> Inl Panic \<and>
      Address debitAcc \<noteq> Address feeAcc \<longrightarrow>
        ConstructionPayloads env request = Inl ErrMalformedValue) \<and>
     (payloads_match env (payloads_Operations request) = Inr MatchedReclaimEscrow \<and>
      encoders_total env \<and>
      payloads_nonce env request = Inr nonce \<and>
      payloads_fee env (Some feeOp) = Inr (signer, feeAmount, feeGas) \<and>
      readPoolShareNeg env (Amount debitOp) = Inr shares \<longrightarrow>
        signer = Address feeAcc \<and>
        payloads_transaction env request =
          Inr (signer,
               \<lparr>Nonce = nonce,
                Fee = Some \<lparr>FeeAmount = feeAmount, Gas = feeGas\<rparr>,
                Method = MethodReclaimEscrow env,
                Body = cbor_Marshal_ReclaimEscrow env
                  \<lparr>ReclaimEscrow_Account = address_after_UnmarshalText env (Address debitAcc),
                   ReclaimEscrow_Shares = shares\<rparr>\<rparr>) \<and>
        (\<exists>response. ConstructionPayloads env request = Inr response \<and>
           map payload_Address (Payloads response) = [Address feeAcc]))"
proof (intro conjI impI)
  let ?ops = "payloads_Operations request"
  assume a: "payloads_match env ?ops \<in> {Inr MatchedTransfer, Inr MatchedBurn, Inr MatchedAddEscrow} \<and>
      payloads_fee env (Some feeOp) \<noteq> Inl Panic \<and> Address debitAcc \<noteq> Address feeAcc"
  then obtain m where m: "payloads_match env ?ops = Inr m"
    "m = MatchedTransfer \<or> m = MatchedBurn \<or> m = MatchedAddEscrow"
    by auto
  have "payloads_transaction env request = Inl ErrMalformedValue"
  proof (rule payloads_transaction_malformed)
    show "payloads_fee env (?ops ! 0) \<noteq> Inl Panic"
      using a fee by simp
  next
    fix s fa fg
    assume "payloads_fee env (?ops ! 0) = Inr (s, fa, fg)"
    with fee have "s = Address feeAcc"
      using payloads_fee_signer by simp
    with a have "Address debitAcc \<noteq> s" by simp
    with m deb show "payloads_switch env ?ops s = Inl ErrMalformedValue"
      using switch_signer_mismatch by blast
  qed
  with net show "ConstructionPayloads env request = Inl ErrMalformedValue"
    by (rule handler_transaction_error)
next
  let ?ops = "payloads_Operations request"
  assume a: "payloads_match env ?ops = Inr MatchedReclaimEscrow \<and> encoders_total env \<and>
      payloads_nonce env request = Inr nonce \<and>
      payloads_fee env (Some feeOp) = Inr (signer, feeAmount, feeGas) \<and>
      readPoolShareNeg env (Amount debitOp) = Inr shares"
  show s: "signer = Address feeAcc"
    using a fee payloads_fee_signer by blast
  have len: "2 \<le> length ?ops"
    using a match_length by blast
  have sw: "payloads_switch env ?ops signer =
           Inr (MethodReclaimEscrow env,
                cbor_Marshal_ReclaimEscrow env
                  \<lparr>ReclaimEscrow_Account = address_after_UnmarshalText env (Address debitAcc),
                   ReclaimEscrow_Shares = shares\<rparr>)"
    using a deb by (simp add: switch_reclaim)
  show tx: "payloads_transaction env request =
          Inr (signer,
               \<lparr>Nonce = nonce,
                Fee = Some \<lparr>FeeAmount = feeAmount, Gas = feeGas\<rparr>,
                Method = MethodReclaimEscrow env,
                Body = cbor_Marshal_ReclaimEscrow env
                  \<lparr>ReclaimEscrow_Account = address_after_UnmarshalText env (Address debitAcc),
                   ReclaimEscrow_Shares = shares\<rparr>\<rparr>)"
    using a fee len sw by (simp add: payloads_transaction_ok)
  from handler_ok [OF net tx] a s
  show "\<exists>response. ConstructionPayloads env request = Inr response \<and>
           map payload_Address (Payloads response) = [Address feeAcc]"
    by auto
qed

theorem payloads_signer_check_witness:
  "ConstructionPayloads ref_env
     (payloads_request (transfer_ops ''-10'' Map.empty bob ''-100'' carol ''100'') 5) =
     Inl ErrMalformedValue \<and>
   ConstructionPayloads ref_env (payloads_request (burn_ops ''-1'' bob ''-50'') 5) =
     Inl ErrMalformedValue \<and>
   ConstructionPayloads ref_env
     (payloads_request (add_escrow_ops ''-1'' bob ''-100'' carol ''100'') 5) =
     Inl ErrMalformedValue \<and>
   carol \<noteq> alice \<and>
   (\<exists>response.
      ConstructionPayloads ref_env (payloads_request (reclaim_escrow_ops ''-1'' carol ''-30'') 5) =
        Inr response \<and>
      map payload_Address (Payloads response) = [alice])"
proof -
  note evals = payloads_defs ref_defs request_defs
  let ?alice = "\<lparr>Address = alice, SubAccount = Some \<lparr>SubAddress = ''general''\<rparr>\<rparr>"
  let ?bob = "\<lparr>Address = bob, SubAccount = Some \<lparr>SubAddress = ''general''\<rparr>\<rparr>"
  have t: "ConstructionPayloads ref_env
     (payloads_request (transfer_ops ''-10'' Map.empty bob ''-100'' carol ''100'') 5) =
     Inl ErrMalformedValue"
    using payloads_signer_check [
      where env = ref_env
        and request = "payloads_request (transfer_ops ''-10'' Map.empty bob ''-100'' carol ''100'') 5"
        and feeOp = "the (fee_operation ''-10'' Map.empty)" and feeAcc = ?alice
        and debitOp = "the (new_operation 1 ''Transfer'' bob ''general'' ''-100'' rose Map.empty)"
        and debitAcc = ?bob,
      THEN conjunct1, THEN mp]
    by (simp add: evals)
  have b: "ConstructionPayloads ref_env (payloads_request (burn_ops ''-1'' bob ''-50'') 5) =
     Inl ErrMalformedValue"
    using payloads_signer_check [
      where env = ref_env
        and request = "payloads_request (burn_ops ''-1'' bob ''-50'') 5"
        and feeOp = "the (fee_operation ''-1'' Map.empty)" and feeAcc = ?alice
        and debitOp = "the (new_operation 1 ''Burn'' bob ''general'' ''-50'' rose Map.empty)"
        and debitAcc = ?bob,
      THEN conjunct1, THEN mp]
    by (simp add: evals)
  have a: "ConstructionPayloads ref_env
     (payloads_request (add_escrow_ops ''-1'' bob ''-100'' carol ''100'') 5) =
     Inl ErrMalformedValue"
    using payloads_signer_check [
      where env = ref_env
        and request = "payloads_request (add_escrow_ops ''-1'' bob ''-100'' carol ''100'') 5"
        and feeOp = "the (fee_operation ''-1'' Map.empty)" and feeAcc = ?alice
        and debitOp = "the (new_operation 1 ''Transfer'' bob ''general'' ''-100'' rose Map.empty)"
        and debitAcc = ?bob,
      THEN conjunct1, THEN mp]
    by (simp add: evals)
  have c: "carol \<noteq> alice"
    by (simp add: carol_def alice_def)
  have r: "\<exists>response.
      ConstructionPayloads ref_env (payloads_request (reclaim_escrow_ops ''-1'' carol ''-30'') 5) =
        Inr response \<and>
      map payload_Address (Payloads response) = [alice]"
    using payloads_signer_check [
      where env = ref_env
        and request = "payloads_request (reclaim_escrow_ops ''-1'' carol ''-30'') 5"
        and feeOp = "the (fee_operation ''-1'' Map.empty)" and feeAcc = ?alice
        and debitOp = "the (new_operation 1 ''Transfer'' carol ''escrow'' ''-30'' pool_share Map.empty)"
        and debitAcc = "\<lparr>Address = carol, SubAccount = Some \<lparr>SubAddress = ''escrow''\<rparr>\<rparr>"
        and nonce = "ref_float64_to_uint64 5" and signer = alice and feeAmount = 1
        and feeGas = DefaultGas and shares = 30,
      THEN conjunct2, THEN mp]
      ref_env_encoders_total
    by (simp add: evals)
  from t b a c r show ?thesis by blast
qed

subsection \<open>What a success of the handler tells\<close>

lemma payloads_transaction_InrD:
  assumes "payloads_transaction env request = Inr (signer, tx)"
  shows "\<exists>n fa fg meth body.
           payloads_nonce env request = Inr n \<and>
           2 \<le> length (payloads_Operations request) \<and>
           payloads_fee env (payloads_Operations request ! 0) = Inr (signer, fa, fg) \<and>
           payloads_switch env (payloads_Operations request) signer = Inr (meth, body) \<and>
           tx = \<lparr>Nonce = n, Fee = Some \<lparr>FeeAmount = fa, Gas = fg\<rparr>, Method = meth, Body = body\<rparr>"
  using assms
  by (auto simp: payloads_transaction_def split: sum.splits if_splits)

lemma handler_InrD:
  assumes "ConstructionPayloads env request = Inr response"
  shows "\<exists>signer tx txMessage.
           ValidateNetworkIdentifier env (payloads_NetworkIdentifier request) = None \<and>
           payloads_transaction env request = Inr (signer, tx) \<and>
           json_Marshal_Transaction env tx = Some (payloads_UnsignedTransaction response) \<and>
           PrepareSignerMessage env (cbor_Marshal_Transaction env tx) = Some txMessage \<and>
           Payloads response = [\<lparr>payload_Address = signer, payload_Bytes = txMessage,
                                 payload_SignatureType = Ed25519\<rparr>]"
  using assms
  by (auto simp: ConstructionPayloads_def split: option.splits sum.splits)

lemma payloads_fee_gas_value:
  assumes "payloads_fee env (Some f) = Inr (signer, fa, fg)"
  shows "(Metadata f FeeGasKey = None \<longrightarrow> fg = DefaultGas) \<and>
         (\<forall>g. Metadata f FeeGasKey = Some (VFloat64 g) \<longrightarrow> fg = float64_to_uint64 env g)"
  using assms
  by (auto simp: payloads_fee_def split: option.splits if_splits sum.splits dyn.splits)

subsection \<open>The gas of the fee\<close>

text \<open>
  Claim C9. When the handler accepts a request, the transaction that it has encoded
  as the unsigned transaction of the response has a fee; the gas of that fee is
  \<open>DefaultGas\<close>, which is 10000, when the metadata of the fee operation (index 0) has no
  \<^verbatim>\<open>fee_gas\<close> key, and is the \<^verbatim>\<open>uint64\<close> conversion of the value when the key holds a
  number.
\<close>

theorem payloads_fee_gas:
  assumes "ConstructionPayloads env request = Inr response"
    and "payloads_Operations request ! 0 = Some feeOp"
  shows "\<exists>signer tx f.
           payloads_transaction env request = Inr (signer, tx) \<and>
           json_Marshal_Transaction env tx = Some (payloads_UnsignedTransaction response) \<and>
           Fee tx = Some f \<and>
           (Metadata feeOp FeeGasKey = None \<longrightarrow> Gas f = DefaultGas \<and> DefaultGas = 10000) \<and>
           (\<forall>g. Metadata feeOp FeeGasKey = Some (VFloat64 g) \<longrightarrow> Gas f = float64_to_uint64 env g)"
proof -
  from handler_InrD [OF assms(1)] obtain signer tx where
    tx: "payloads_transaction env request = Inr (signer, tx)"
    and j: "json_Marshal_Transaction env tx = Some (payloads_UnsignedTransaction response)"
    by blast
  from payloads_transaction_InrD [OF tx] obtain n fa fg meth body where
    fee: "payloads_fee env (payloads_Operations request ! 0) = Inr (signer, fa, fg)"
    and t: "tx = \<lparr>Nonce = n, Fee = Some \<lparr>FeeAmount = fa, Gas = fg\<rparr>, Method = meth, Body = body\<rparr>"
    by blast
  from fee assms(2) have "payloads_fee env (Some feeOp) = Inr (signer, fa, fg)"
    by simp
  from payloads_fee_gas_value [OF this] tx j t show ?thesis
    by (simp add: DefaultGas_def)
qed

theorem payloads_fee_gas_witness:
  "(\<exists>response signer tx f.
      ConstructionPayloads ref_env (payloads_request (burn_ops ''-1'' alice ''-50'') 5) = Inr response \<and>
      Metadata (the (fee_operation ''-1'' Map.empty)) FeeGasKey = None \<and>
      payloads_transaction ref_env (payloads_request (burn_ops ''-1'' alice ''-50'') 5) = Inr (signer, tx) \<and>
      Fee tx = Some f \<and> Gas f = 10000) \<and>
   (\<exists>response signer tx f.
      ConstructionPayloads ref_env
        (payloads_request
           (transfer_ops ''-10'' [FeeGasKey \<mapsto> VFloat64 20000] alice ''-100'' bob ''100'') 5) =
        Inr response \<and>
      payloads_transaction ref_env
        (payloads_request
           (transfer_ops ''-10'' [FeeGasKey \<mapsto> VFloat64 20000] alice ''-100'' bob ''100'') 5) =
        Inr (signer, tx) \<and>
      Fee tx = Some f \<and> Gas f = 20000)"
proof -
  note evals = payloads_defs ref_defs request_defs
  let ?b = "payloads_request (burn_ops ''-1'' alice ''-50'') 5"
  let ?t = "payloads_request
     (transfer_ops ''-10'' [FeeGasKey \<mapsto> VFloat64 20000] alice ''-100'' bob ''100'') 5"
  obtain rb where rb: "ConstructionPayloads ref_env ?b = Inr rb"
    by (simp add: evals)
  have fb: "payloads_Operations ?b ! 0 = Some (the (fee_operation ''-1'' Map.empty))"
    by (simp add: evals)
  have mb: "Metadata (the (fee_operation ''-1'' Map.empty)) FeeGasKey = None"
    by (simp add: evals)
  obtain rt where rt: "ConstructionPayloads ref_env ?t = Inr rt"
    by (simp add: evals)
  have ft: "payloads_Operations ?t ! 0 =
      Some (the (fee_operation ''-10'' [FeeGasKey \<mapsto> VFloat64 20000]))"
    by (simp add: evals)
  have mt: "Metadata (the (fee_operation ''-10'' [FeeGasKey \<mapsto> VFloat64 20000])) FeeGasKey =
      Some (VFloat64 20000)"
    by (simp add: evals)
  have g: "float64_to_uint64 ref_env 20000 = 20000"
    by (simp add: ref_defs)
  from payloads_fee_gas [OF rb fb] rb mb
  have 1: "\<exists>response signer tx f.
      ConstructionPayloads ref_env ?b = Inr response \<and>
      Metadata (the (fee_operation ''-1'' Map.empty)) FeeGasKey = None \<and>
      payloads_transaction ref_env ?b = Inr (signer, tx) \<and>
      Fee tx = Some f \<and> Gas f = 10000"
    by auto
  from payloads_fee_gas [OF rt ft] rt mt g
  have 2: "\<exists>response signer tx f.
      ConstructionPayloads ref_env ?t = Inr response \<and>
      payloads_transaction ref_env ?t = Inr (signer, tx) \<and>
      Fee tx = Some f \<and> Gas f = 20000"
    by auto
  from 1 2 show ?thesis by blast
qed

subsection \<open>The cases of the switch\<close>

lemma switch_amounts_differ:
  assumes "payloads_match env ops = Inr m"
    and "m = MatchedTransfer \<or> m = MatchedAddEscrow"
    and "ops ! 1 = Some o1" and "ops ! 2 = Some o2"
    and "readOasisCurrencyNeg env (Amount o1) = Inr debit"
    and "readOasisCurrency env (Amount o2) = Inr credit"
    and "debit \<noteq> credit"
  shows "payloads_switch env ops signer = Inl ErrMalformedValue"
proof -
  from match_op1 [OF assms(1)] assms(2,3) obtain a1 where a1: "Account o1 = Some a1"
    by auto
  from match_op2 [OF assms(1,2)] assms(4) obtain a2 where a2: "Account o2 = Some a2"
    by auto
  from assms a1 a2 show ?thesis
    by (auto simp: payloads_switch_def payloads_transfer_def payloads_add_escrow_def
        op_Address_def op_Amount_def read_or_malformed_def)
qed

lemma switch_transfer:
  assumes "payloads_match env ops = Inr MatchedTransfer"
    and "ops ! 1 = Some o1" and "Account o1 = Some a1" and "Address a1 = signer"
    and "ops ! 2 = Some o2" and "Account o2 = Some a2"
    and "readOasisCurrencyNeg env (Amount o1) = Inr q"
    and "readOasisCurrency env (Amount o2) = Inr q"
  shows "payloads_switch env ops signer =
           Inr (MethodTransfer env,
                cbor_Marshal_Transfer env
                  \<lparr>Transfer_To = address_after_UnmarshalText env (Address a2),
                   Transfer_Tokens = q\<rparr>)"
  using assms
  by (simp add: payloads_switch_def payloads_transfer_def op_Address_def op_Amount_def
      read_or_malformed_def)

lemma switch_add_escrow:
  assumes "payloads_match env ops = Inr MatchedAddEscrow"
    and "ops ! 1 = Some o1" and "Account o1 = Some a1" and "Address a1 = signer"
    and "ops ! 2 = Some o2" and "Account o2 = Some a2"
    and "readOasisCurrencyNeg env (Amount o1) = Inr q"
    and "readOasisCurrency env (Amount o2) = Inr q"
  shows "payloads_switch env ops signer =
           Inr (MethodAddEscrow env,
                cbor_Marshal_Escrow env
                  \<lparr>Escrow_Account = address_after_UnmarshalText env (Address a2),
                   Escrow_Tokens = q\<rparr>)"
  using assms
  by (simp add: payloads_switch_def payloads_add_escrow_def op_Address_def op_Amount_def
      read_or_malformed_def)

lemma switch_burn:
  assumes "payloads_match env ops = Inr MatchedBurn"
    and "ops ! 1 = Some o1" and "Account o1 = Some a1" and "Address a1 = signer"
    and "readOasisCurrencyNeg env (Amount o1) = Inr q"
  shows "payloads_switch env ops signer =
           Inr (MethodBurn env, cbor_Marshal_Burn env \<lparr>Burn_Tokens = q\<rparr>)"
  using assms
  by (simp add: payloads_switch_def payloads_burn_def op_Address_def op_Amount_def
      read_or_malformed_def)

lemma handler_succeeds:
  assumes "ValidateNetworkIdentifier env (payloads_NetworkIdentifier request) = None"
    and "encoders_total env"
    and "payloads_nonce env request = Inr n"
    and "payloads_match env (payloads_Operations request) = Inr m" and "m \<noteq> Unmatched"
    and "payloads_fee env (payloads_Operations request ! 0) = Inr (signer, fa, fg)"
    and "payloads_switch env (payloads_Operations request) signer = Inr (meth, body)"
  shows "payloads_transaction env request =
           Inr (signer, \<lparr>Nonce = n, Fee = Some \<lparr>FeeAmount = fa, Gas = fg\<rparr>,
                         Method = meth, Body = body\<rparr>) \<and>
         (\<exists>response. ConstructionPayloads env request = Inr response \<and>
            map payload_Address (Payloads response) = [signer])"
proof -
  have len: "2 \<le> length (payloads_Operations request)"
    using assms(4,5) by (rule match_length)
  have tx: "payloads_transaction env request =
           Inr (signer, \<lparr>Nonce = n, Fee = Some \<lparr>FeeAmount = fa, Gas = fg\<rparr>,
                         Method = meth, Body = body\<rparr>)"
    using assms(3) len assms(6,7) by (rule payloads_transaction_ok)
  from handler_ok [OF assms(1) tx assms(2)] tx show ?thesis
    by auto
qed

subsection \<open>The amounts of the two sides\<close>

text \<open>
  Claim C3. Let the request pass the network validation and its operation list match
  the transfer or the add-escrow case, and let the amount of the debit operation (index
  1) read, negated, as \<open>debit\<close> and the amount of the credit operation (index 2) read as
  \<open>credit\<close>, both as quantities of arbitrary precision. If they differ (and the fee
  operation does not crash the handler), the handler fails with MalformedValue. If they
  are equal, and the nonce and the fee operation are read, the debit address is the
  signer's and the encoders of the libraries do not fail, the case proceeds: the handler
  builds the transaction of the matched method, whose body holds the amount, and
  succeeds.
\<close>

theorem payloads_amounts_equal:
  assumes net: "ValidateNetworkIdentifier env (payloads_NetworkIdentifier request) = None"
    and m: "payloads_match env (payloads_Operations request) = Inr m"
      "m = MatchedTransfer \<or> m = MatchedAddEscrow"
    and ops: "payloads_Operations request ! 1 = Some debitOp"
      "payloads_Operations request ! 2 = Some creditOp"
    and reads: "readOasisCurrencyNeg env (Amount debitOp) = Inr debit"
      "readOasisCurrency env (Amount creditOp) = Inr credit"
  shows
    "(debit \<noteq> credit \<and> payloads_fee env (payloads_Operations request ! 0) \<noteq> Inl Panic \<longrightarrow>
        ConstructionPayloads env request = Inl ErrMalformedValue) \<and>
     (debit = credit \<and> encoders_total env \<and>
      payloads_nonce env request = Inr nonce \<and>
      payloads_fee env (payloads_Operations request ! 0) = Inr (signer, feeAmount, feeGas) \<and>
      Account debitOp = Some debitAcc \<and> Address debitAcc = signer \<and>
      Account creditOp = Some creditAcc \<longrightarrow>
        payloads_transaction env request =
          Inr (signer,
               \<lparr>Nonce = nonce,
                Fee = Some \<lparr>FeeAmount = feeAmount, Gas = feeGas\<rparr>,
                Method = (if m = MatchedTransfer then MethodTransfer env else MethodAddEscrow env),
                Body =
                  (if m = MatchedTransfer
                   then cbor_Marshal_Transfer env
                          \<lparr>Transfer_To = address_after_UnmarshalText env (Address creditAcc),
                           Transfer_Tokens = debit\<rparr>
                   else cbor_Marshal_Escrow env
                          \<lparr>Escrow_Account = address_after_UnmarshalText env (Address creditAcc),
                           Escrow_Tokens = debit\<rparr>)\<rparr>) \<and>
        (\<exists>response. ConstructionPayloads env request = Inr response \<and>
           map payload_Address (Payloads response) = [signer]))"
proof (rule conjI; rule impI)
  let ?ops = "payloads_Operations request"
  assume a: "debit \<noteq> credit \<and> payloads_fee env (?ops ! 0) \<noteq> Inl Panic"
  have "payloads_transaction env request = Inl ErrMalformedValue"
  proof (rule payloads_transaction_malformed)
    show "payloads_fee env (?ops ! 0) \<noteq> Inl Panic"
      using a by simp
  next
    fix s fa fg
    show "payloads_switch env ?ops s = Inl ErrMalformedValue"
      using m ops reads a by (simp add: switch_amounts_differ)
  qed
  with net show "ConstructionPayloads env request = Inl ErrMalformedValue"
    by (rule handler_transaction_error)
next
  let ?ops = "payloads_Operations request"
  assume a: "debit = credit \<and> encoders_total env \<and>
      payloads_nonce env request = Inr nonce \<and>
      payloads_fee env (?ops ! 0) = Inr (signer, feeAmount, feeGas) \<and>
      Account debitOp = Some debitAcc \<and> Address debitAcc = signer \<and>
      Account creditOp = Some creditAcc"
  have sw: "payloads_switch env ?ops signer =
      Inr (if m = MatchedTransfer then MethodTransfer env else MethodAddEscrow env,
           if m = MatchedTransfer
           then cbor_Marshal_Transfer env
                  \<lparr>Transfer_To = address_after_UnmarshalText env (Address creditAcc),
                   Transfer_Tokens = debit\<rparr>
           else cbor_Marshal_Escrow env
                  \<lparr>Escrow_Account = address_after_UnmarshalText env (Address creditAcc),
                   Escrow_Tokens = debit\<rparr>)"
    using m ops reads a by (auto simp: switch_transfer switch_add_escrow)
  have "m \<noteq> Unmatched"
    using m(2) by auto
  with net m(1) sw a
  show "payloads_transaction env request =
          Inr (signer,
               \<lparr>Nonce = nonce,
                Fee = Some \<lparr>FeeAmount = feeAmount, Gas = feeGas\<rparr>,
                Method = (if m = MatchedTransfer then MethodTransfer env else MethodAddEscrow env),
                Body =
                  (if m = MatchedTransfer
                   then cbor_Marshal_Transfer env
                          \<lparr>Transfer_To = address_after_UnmarshalText env (Address creditAcc),
                           Transfer_Tokens = debit\<rparr>
                   else cbor_Marshal_Escrow env
                          \<lparr>Escrow_Account = address_after_UnmarshalText env (Address creditAcc),
                           Escrow_Tokens = debit\<rparr>)\<rparr>) \<and>
        (\<exists>response. ConstructionPayloads env request = Inr response \<and>
           map payload_Address (Payloads response) = [signer])"
    by (intro handler_succeeds) auto
qed

theorem payloads_amounts_equal_witness:
  "ConstructionPayloads ref_env
     (payloads_request (transfer_ops ''-10'' Map.empty alice ''-100'' bob ''99'') 5) =
     Inl ErrMalformedValue \<and>
   ConstructionPayloads ref_env
     (payloads_request (add_escrow_ops ''-1'' alice ''-100'' carol ''101'') 5) =
     Inl ErrMalformedValue \<and>
   (\<exists>response.
      ConstructionPayloads ref_env
        (payloads_request (transfer_ops ''-10'' Map.empty alice ''-100'' bob ''100'') 5) =
        Inr response \<and>
      map payload_Address (Payloads response) = [alice]) \<and>
   (\<exists>response.
      ConstructionPayloads ref_env
        (payloads_request (add_escrow_ops ''-1'' alice ''-100'' carol ''100'') 5) =
        Inr response \<and>
      map payload_Address (Payloads response) = [alice])"
proof -
  note evals = payloads_defs ref_defs request_defs
  let ?alice = "\<lparr>Address = alice, SubAccount = Some \<lparr>SubAddress = ''general''\<rparr>\<rparr>"
  have 1: "ConstructionPayloads ref_env
     (payloads_request (transfer_ops ''-10'' Map.empty alice ''-100'' bob ''99'') 5) =
     Inl ErrMalformedValue"
    using payloads_amounts_equal [
      where env = ref_env and m = MatchedTransfer
        and request = "payloads_request (transfer_ops ''-10'' Map.empty alice ''-100'' bob ''99'') 5"
        and debitOp = "the (new_operation 1 ''Transfer'' alice ''general'' ''-100'' rose Map.empty)"
        and creditOp = "the (new_operation 2 ''Transfer'' bob ''general'' ''99'' rose Map.empty)"
        and debit = 100 and credit = 99,
      THEN conjunct1, THEN mp]
    by (simp add: evals)
  have 2: "ConstructionPayloads ref_env
     (payloads_request (add_escrow_ops ''-1'' alice ''-100'' carol ''101'') 5) =
     Inl ErrMalformedValue"
    using payloads_amounts_equal [
      where env = ref_env and m = MatchedAddEscrow
        and request = "payloads_request (add_escrow_ops ''-1'' alice ''-100'' carol ''101'') 5"
        and debitOp = "the (new_operation 1 ''Transfer'' alice ''general'' ''-100'' rose Map.empty)"
        and creditOp = "the (new_operation 2 ''Transfer'' carol ''escrow'' ''101'' rose Map.empty)"
        and debit = 100 and credit = 101,
      THEN conjunct1, THEN mp]
    by (simp add: evals)
  have 3: "\<exists>response.
      ConstructionPayloads ref_env
        (payloads_request (transfer_ops ''-10'' Map.empty alice ''-100'' bob ''100'') 5) =
        Inr response \<and>
      map payload_Address (Payloads response) = [alice]"
    using payloads_amounts_equal [
      where env = ref_env and m = MatchedTransfer
        and request = "payloads_request (transfer_ops ''-10'' Map.empty alice ''-100'' bob ''100'') 5"
        and debitOp = "the (new_operation 1 ''Transfer'' alice ''general'' ''-100'' rose Map.empty)"
        and creditOp = "the (new_operation 2 ''Transfer'' bob ''general'' ''100'' rose Map.empty)"
        and debit = 100 and credit = 100 and nonce = "ref_float64_to_uint64 5"
        and signer = alice and feeAmount = 10 and feeGas = DefaultGas and debitAcc = ?alice
        and creditAcc = "\<lparr>Address = bob, SubAccount = Some \<lparr>SubAddress = ''general''\<rparr>\<rparr>",
      THEN conjunct2, THEN mp]
      ref_env_encoders_total
    by (simp add: evals)
  have 4: "\<exists>response.
      ConstructionPayloads ref_env
        (payloads_request (add_escrow_ops ''-1'' alice ''-100'' carol ''100'') 5) =
        Inr response \<and>
      map payload_Address (Payloads response) = [alice]"
    using payloads_amounts_equal [
      where env = ref_env and m = MatchedAddEscrow
        and request = "payloads_request (add_escrow_ops ''-1'' alice ''-100'' carol ''100'') 5"
        and debitOp = "the (new_operation 1 ''Transfer'' alice ''general'' ''-100'' rose Map.empty)"
        and creditOp = "the (new_operation 2 ''Transfer'' carol ''escrow'' ''100'' rose Map.empty)"
        and debit = 100 and credit = 100 and nonce = "ref_float64_to_uint64 5"
        and signer = alice and feeAmount = 1 and feeGas = DefaultGas and debitAcc = ?alice
        and creditAcc = "\<lparr>Address = carol, SubAccount = Some \<lparr>SubAddress = ''escrow''\<rparr>\<rparr>",
      THEN conjunct2, THEN mp]
      ref_env_encoders_total
    by (simp add: evals)
  from 1 2 3 4 show ?thesis by blast
qed

lemma fee_read_fails:
  assumes "Account feeOp = Some feeAcc"
    and "readOasisCurrencyNeg env (Amount feeOp) = Inl (GoError msg)"
  shows "payloads_fee env (Some feeOp) = Inl ErrMalformedValue"
  using assms
  by (simp add: payloads_fee_def split: option.splits)

lemma switch_first_read_fails:
  assumes "payloads_match env ops = Inr m"
    and "m = MatchedTransfer \<or> m = MatchedBurn \<or> m = MatchedAddEscrow"
    and "ops ! 1 = Some o1"
    and "readOasisCurrencyNeg env (Amount o1) = Inl (GoError msg)"
  shows "payloads_switch env ops signer = Inl ErrMalformedValue"
proof -
  from match_op1 [OF assms(1)] assms(2,3) obtain a1 where "Account o1 = Some a1"
    by auto
  with assms show ?thesis
    by (auto simp: payloads_switch_def payloads_transfer_def payloads_burn_def
        payloads_add_escrow_def op_Address_def op_Amount_def read_or_malformed_def)
qed

lemma switch_second_read_fails:
  assumes "payloads_match env ops = Inr m"
    and "m = MatchedTransfer \<or> m = MatchedAddEscrow"
    and "ops ! 1 = Some o1" and "ops ! 2 = Some o2"
    and "readOasisCurrencyNeg env (Amount o1) = Inr q"
    and "readOasisCurrency env (Amount o2) = Inl (GoError msg)"
  shows "payloads_switch env ops signer = Inl ErrMalformedValue"
proof -
  from match_op1 [OF assms(1)] assms(2,3) obtain a1 where a1: "Account o1 = Some a1"
    by auto
  from match_op2 [OF assms(1,2)] assms(4) obtain a2 where a2: "Account o2 = Some a2"
    by auto
  from assms a1 a2 show ?thesis
    by (auto simp: payloads_switch_def payloads_transfer_def payloads_add_escrow_def
        op_Address_def op_Amount_def read_or_malformed_def)
qed

lemma switch_reclaim_read_fails:
  assumes "payloads_match env ops = Inr MatchedReclaimEscrow"
    and "ops ! 1 = Some o1"
    and "readPoolShareNeg env (Amount o1) = Inl (GoError msg)"
  shows "payloads_switch env ops signer = Inl ErrMalformedValue"
proof -
  from match_op1 [OF assms(1)] assms(2) obtain a1 where "Account o1 = Some a1"
    by auto
  with assms show ?thesis
    by (auto simp: payloads_switch_def payloads_reclaim_escrow_def op_Address_def op_Amount_def
        read_or_malformed_def)
qed

lemma handler_switch_malformed:
  assumes "ValidateNetworkIdentifier env (payloads_NetworkIdentifier request) = None"
    and "payloads_fee env (payloads_Operations request ! 0) \<noteq> Inl Panic"
    and "\<And>signer. payloads_switch env (payloads_Operations request) signer = Inl ErrMalformedValue"
  shows "ConstructionPayloads env request = Inl ErrMalformedValue"
  using assms(1)
  by (rule handler_transaction_error) (rule payloads_transaction_malformed, fact assms(2), rule assms(3))

lemma handler_fee_malformed:
  assumes "ValidateNetworkIdentifier env (payloads_NetworkIdentifier request) = None"
    and "payloads_fee env (payloads_Operations request ! 0) = Inl ErrMalformedValue"
  shows "ConstructionPayloads env request = Inl ErrMalformedValue"
  using assms(1)
  by (rule handler_transaction_error) (rule payloads_transaction_malformed, simp_all add: assms(2))

subsection \<open>Reading an amount\<close>

text \<open>
  Claim C8. For an amount with a currency, \<open>readCurrency\<close> fails when the symbol of the
  currency, which is its tag, differs from the symbol of the expected currency (the
  other fields of a currency are not compared); it fails when the value
  string does not parse as an integer; it fails when the parsed integer, negated if so
  requested, is negative; and when the symbols agree and that integer is not negative,
  it returns it as a quantity. In ConstructionPayloads every such failure surfaces as
  MalformedValue, for a request that passes the network validation: at the fee
  operation (which has an account), and, when the fee operation does not crash the
  handler, at the debit amount of the transfer, burn and add-escrow cases, at the credit
  amount of the transfer and add-escrow cases, and at the amount of the reclaim-escrow
  case.
\<close>

theorem readCurrency_checks:
  assumes cur: "Currency a = Some c"
  shows
    "(Symbol c \<noteq> Symbol expected \<longrightarrow>
        (\<exists>msg. readCurrency env (Some a) expected negative = Inl (GoError msg))) \<and>
     (big_Int_UnmarshalText env (Value a) = None \<longrightarrow>
        (\<exists>msg. readCurrency env (Some a) expected negative = Inl (GoError msg))) \<and>
     (\<forall>bi. big_Int_UnmarshalText env (Value a) = Some bi \<and> (if negative then - bi else bi) < 0 \<longrightarrow>
        (\<exists>msg. readCurrency env (Some a) expected negative = Inl (GoError msg))) \<and>
     (\<forall>bi. Symbol c = Symbol expected \<and> big_Int_UnmarshalText env (Value a) = Some bi \<and>
           0 \<le> (if negative then - bi else bi) \<longrightarrow>
        readCurrency env (Some a) expected negative = Inr (nat (if negative then - bi else bi))) \<and>
     (\<forall>request msg.
        ValidateNetworkIdentifier env (payloads_NetworkIdentifier request) = None \<and>
        (\<exists>feeOp feeAcc. payloads_Operations request ! 0 = Some feeOp \<and>
           Account feeOp = Some feeAcc \<and>
           readOasisCurrencyNeg env (Amount feeOp) = Inl (GoError msg)) \<longrightarrow>
        ConstructionPayloads env request = Inl ErrMalformedValue) \<and>
     (\<forall>request msg.
        ValidateNetworkIdentifier env (payloads_NetworkIdentifier request) = None \<and>
        payloads_fee env (payloads_Operations request ! 0) \<noteq> Inl Panic \<and>
        payloads_match env (payloads_Operations request) \<in>
          {Inr MatchedTransfer, Inr MatchedBurn, Inr MatchedAddEscrow} \<and>
        (\<exists>debitOp. payloads_Operations request ! 1 = Some debitOp \<and>
           readOasisCurrencyNeg env (Amount debitOp) = Inl (GoError msg)) \<longrightarrow>
        ConstructionPayloads env request = Inl ErrMalformedValue) \<and>
     (\<forall>request msg.
        ValidateNetworkIdentifier env (payloads_NetworkIdentifier request) = None \<and>
        payloads_fee env (payloads_Operations request ! 0) \<noteq> Inl Panic \<and>
        payloads_match env (payloads_Operations request) \<in>
          {Inr MatchedTransfer, Inr MatchedAddEscrow} \<and>
        (\<exists>debitOp creditOp q. payloads_Operations request ! 1 = Some debitOp \<and>
           payloads_Operations request ! 2 = Some creditOp \<and>
           readOasisCurrencyNeg env (Amount debitOp) = Inr q \<and>
           readOasisCurrency env (Amount creditOp) = Inl (GoError msg)) \<longrightarrow>
        ConstructionPayloads env request = Inl ErrMalformedValue) \<and>
     (\<forall>request msg.
        ValidateNetworkIdentifier env (payloads_NetworkIdentifier request) = None \<and>
        payloads_fee env (payloads_Operations request ! 0) \<noteq> Inl Panic \<and>
        payloads_match env (payloads_Operations request) = Inr MatchedReclaimEscrow \<and>
        (\<exists>debitOp. payloads_Operations request ! 1 = Some debitOp \<and>
           readPoolShareNeg env (Amount debitOp) = Inl (GoError msg)) \<longrightarrow>
        ConstructionPayloads env request = Inl ErrMalformedValue)"
proof (intro conjI allI impI)
  assume "Symbol c \<noteq> Symbol expected"
  with cur show "\<exists>msg. readCurrency env (Some a) expected negative = Inl (GoError msg)"
    by (simp add: readCurrency_def)
next
  assume "big_Int_UnmarshalText env (Value a) = None"
  with cur show "\<exists>msg. readCurrency env (Some a) expected negative = Inl (GoError msg)"
    by (simp add: readCurrency_def)
next
  fix bi
  assume "big_Int_UnmarshalText env (Value a) = Some bi \<and> (if negative then - bi else bi) < 0"
  with cur show "\<exists>msg. readCurrency env (Some a) expected negative = Inl (GoError msg)"
    by (simp add: readCurrency_def Quantity_FromBigInt_def)
next
  fix bi
  assume "Symbol c = Symbol expected \<and> big_Int_UnmarshalText env (Value a) = Some bi \<and>
           0 \<le> (if negative then - bi else bi)"
  with cur show "readCurrency env (Some a) expected negative =
      Inr (nat (if negative then - bi else bi))"
    by (simp add: readCurrency_def Quantity_FromBigInt_def)
next
  fix request :: ConstructionPayloadsRequest and msg
  assume a: "ValidateNetworkIdentifier env (payloads_NetworkIdentifier request) = None \<and>
        (\<exists>feeOp feeAcc. payloads_Operations request ! 0 = Some feeOp \<and>
           Account feeOp = Some feeAcc \<and>
           readOasisCurrencyNeg env (Amount feeOp) = Inl (GoError msg))"
  then have "payloads_fee env (payloads_Operations request ! 0) = Inl ErrMalformedValue"
    by (auto simp: fee_read_fails)
  with a show "ConstructionPayloads env request = Inl ErrMalformedValue"
    by (simp add: handler_fee_malformed)
next
  fix request :: ConstructionPayloadsRequest and msg
  assume a: "ValidateNetworkIdentifier env (payloads_NetworkIdentifier request) = None \<and>
        payloads_fee env (payloads_Operations request ! 0) \<noteq> Inl Panic \<and>
        payloads_match env (payloads_Operations request) \<in>
          {Inr MatchedTransfer, Inr MatchedBurn, Inr MatchedAddEscrow} \<and>
        (\<exists>debitOp. payloads_Operations request ! 1 = Some debitOp \<and>
           readOasisCurrencyNeg env (Amount debitOp) = Inl (GoError msg))"
  show "ConstructionPayloads env request = Inl ErrMalformedValue"
  proof (rule handler_switch_malformed)
    fix signer
    from a show "payloads_switch env (payloads_Operations request) signer = Inl ErrMalformedValue"
      by (auto intro: switch_first_read_fails)
  qed (use a in simp_all)
next
  fix request :: ConstructionPayloadsRequest and msg
  assume a: "ValidateNetworkIdentifier env (payloads_NetworkIdentifier request) = None \<and>
        payloads_fee env (payloads_Operations request ! 0) \<noteq> Inl Panic \<and>
        payloads_match env (payloads_Operations request) \<in>
          {Inr MatchedTransfer, Inr MatchedAddEscrow} \<and>
        (\<exists>debitOp creditOp q. payloads_Operations request ! 1 = Some debitOp \<and>
           payloads_Operations request ! 2 = Some creditOp \<and>
           readOasisCurrencyNeg env (Amount debitOp) = Inr q \<and>
           readOasisCurrency env (Amount creditOp) = Inl (GoError msg))"
  show "ConstructionPayloads env request = Inl ErrMalformedValue"
  proof (rule handler_switch_malformed)
    fix signer
    from a show "payloads_switch env (payloads_Operations request) signer = Inl ErrMalformedValue"
      by (auto intro: switch_second_read_fails)
  qed (use a in simp_all)
next
  fix request :: ConstructionPayloadsRequest and msg
  assume a: "ValidateNetworkIdentifier env (payloads_NetworkIdentifier request) = None \<and>
        payloads_fee env (payloads_Operations request ! 0) \<noteq> Inl Panic \<and>
        payloads_match env (payloads_Operations request) = Inr MatchedReclaimEscrow \<and>
        (\<exists>debitOp. payloads_Operations request ! 1 = Some debitOp \<and>
           readPoolShareNeg env (Amount debitOp) = Inl (GoError msg))"
  show "ConstructionPayloads env request = Inl ErrMalformedValue"
  proof (rule handler_switch_malformed)
    fix signer
    from a show "payloads_switch env (payloads_Operations request) signer = Inl ErrMalformedValue"
      by (auto intro: switch_reclaim_read_fails)
  qed (use a in simp_all)
qed

theorem readCurrency_checks_witness:
  "readCurrency ref_env (Some \<lparr>Value = ''-10'', Currency = Some pool_share\<rparr>) rose True =
     Inl (GoError ''wrong currency'') \<and>
   readCurrency ref_env (Some \<lparr>Value = ''ten'', Currency = Some rose\<rparr>) rose True =
     Inl (GoError ''bi UnmarshalText Value'') \<and>
   readCurrency ref_env (Some \<lparr>Value = ''10'', Currency = Some rose\<rparr>) rose True =
     Inl (GoError ''q FromBigInt bi'') \<and>
   readCurrency ref_env (Some \<lparr>Value = ''-10'', Currency = Some rose\<rparr>) rose True = Inr 10 \<and>
   readCurrency ref_env (Some \<lparr>Value = ''10'', Currency = Some rose\<rparr>) rose False = Inr 10 \<and>
   ConstructionPayloads ref_env
     (payloads_request (transfer_ops ''ten'' Map.empty alice ''-100'' bob ''100'') 5) =
     Inl ErrMalformedValue \<and>
   ConstructionPayloads ref_env
     (payloads_request (transfer_ops ''-10'' Map.empty alice ''100'' bob ''100'') 5) =
     Inl ErrMalformedValue \<and>
   ConstructionPayloads ref_env
     (payloads_request (transfer_ops ''-10'' Map.empty alice ''-100'' bob ''-100'') 5) =
     Inl ErrMalformedValue \<and>
   ConstructionPayloads ref_env
     (payloads_request (reclaim_escrow_ops ''-1'' carol ''30'') 5) =
     Inl ErrMalformedValue"
proof -
  note evals = payloads_defs ref_defs request_defs
  note chk = readCurrency_checks [where env = ref_env and expected = rose]
  have 1: "readCurrency ref_env (Some \<lparr>Value = ''-10'', Currency = Some pool_share\<rparr>) rose True =
     Inl (GoError ''wrong currency'')"
    using chk [where a = "\<lparr>Value = ''-10'', Currency = Some pool_share\<rparr>" and c = pool_share
        and negative = True, THEN conjunct1]
    by (simp add: evals)
  have 2: "readCurrency ref_env (Some \<lparr>Value = ''ten'', Currency = Some rose\<rparr>) rose True =
     Inl (GoError ''bi UnmarshalText Value'')"
    using chk [where a = "\<lparr>Value = ''ten'', Currency = Some rose\<rparr>" and c = rose
        and negative = True, THEN conjunct2, THEN conjunct1]
    by (simp add: evals)
  have 3: "readCurrency ref_env (Some \<lparr>Value = ''10'', Currency = Some rose\<rparr>) rose True =
     Inl (GoError ''q FromBigInt bi'')"
    using chk [where a = "\<lparr>Value = ''10'', Currency = Some rose\<rparr>" and c = rose
        and negative = True, THEN conjunct2, THEN conjunct2, THEN conjunct1, THEN spec, of 10]
    by (simp add: evals)
  have 4: "readCurrency ref_env (Some \<lparr>Value = ''-10'', Currency = Some rose\<rparr>) rose True = Inr 10"
    using chk [where a = "\<lparr>Value = ''-10'', Currency = Some rose\<rparr>" and c = rose
        and negative = True, THEN conjunct2, THEN conjunct2, THEN conjunct2, THEN conjunct1,
        THEN spec, of "- 10"]
    by (simp add: evals)
  have 5: "readCurrency ref_env (Some \<lparr>Value = ''10'', Currency = Some rose\<rparr>) rose False = Inr 10"
    using chk [where a = "\<lparr>Value = ''10'', Currency = Some rose\<rparr>" and c = rose
        and negative = False, THEN conjunct2, THEN conjunct2, THEN conjunct2, THEN conjunct1,
        THEN spec, of 10]
    by (simp add: evals)
  note rest = chk [where a = "\<lparr>Value = ''10'', Currency = Some rose\<rparr>" and c = rose
        and negative = False, THEN conjunct2, THEN conjunct2, THEN conjunct2, THEN conjunct2]
  have 6: "ConstructionPayloads ref_env
     (payloads_request (transfer_ops ''ten'' Map.empty alice ''-100'' bob ''100'') 5) =
     Inl ErrMalformedValue"
    using rest [THEN conjunct1, THEN spec, THEN spec,
        of "payloads_request (transfer_ops ''ten'' Map.empty alice ''-100'' bob ''100'') 5"
           "''bi UnmarshalText Value''"]
    by (simp add: evals)
  have 7: "ConstructionPayloads ref_env
     (payloads_request (transfer_ops ''-10'' Map.empty alice ''100'' bob ''100'') 5) =
     Inl ErrMalformedValue"
    using rest [THEN conjunct2, THEN conjunct1, THEN spec, THEN spec,
        of "payloads_request (transfer_ops ''-10'' Map.empty alice ''100'' bob ''100'') 5"
           "''q FromBigInt bi''"]
    by (simp add: evals)
  have 8: "ConstructionPayloads ref_env
     (payloads_request (transfer_ops ''-10'' Map.empty alice ''-100'' bob ''-100'') 5) =
     Inl ErrMalformedValue"
    using rest [THEN conjunct2, THEN conjunct2, THEN conjunct1, THEN spec, THEN spec,
        of "payloads_request (transfer_ops ''-10'' Map.empty alice ''-100'' bob ''-100'') 5"
           "''q FromBigInt bi''"]
    by (simp add: evals)
  have 9: "ConstructionPayloads ref_env
     (payloads_request (reclaim_escrow_ops ''-1'' carol ''30'') 5) =
     Inl ErrMalformedValue"
    using rest [THEN conjunct2, THEN conjunct2, THEN conjunct2, THEN spec, THEN spec,
        of "payloads_request (reclaim_escrow_ops ''-1'' carol ''30'') 5"
           "''q FromBigInt bi''"]
    by (simp add: evals)
  from 1 2 3 4 5 6 7 8 9 show ?thesis by blast
qed

subsection \<open>The encodings of the reference environment invert\<close>

lemma digit_char_digit:
  "d < 10 \<Longrightarrow> is_digit (digit_char d) \<and> of_char (digit_char d) - 48 = d"
  by (auto simp: is_digit_def digit_char_def)

lemma Quantity_String_digits:
  "list_all is_digit (Quantity_String n) \<and> Quantity_String n \<noteq> []"
proof (induction n rule: Quantity_String.induct)
  case (1 n)
  show ?case
  proof (cases "n < 10")
    case True
    then show ?thesis
      by (subst (1 2) Quantity_String.simps) (simp add: digit_char_digit)
  next
    case False
    with 1 show ?thesis
      by (subst (1 2) Quantity_String.simps) (simp add: digit_char_digit)
  qed
qed

lemma dec_acc_Quantity_String: "dec_acc 0 (Quantity_String n) = n"
proof (induction n rule: Quantity_String.induct)
  case (1 n)
  show ?case
  proof (cases "n < 10")
    case True
    then show ?thesis
      by (subst Quantity_String.simps) (simp add: dec_acc_def digit_char_digit)
  next
    case False
    with 1 have "dec_acc 0 (Quantity_String (n div 10)) = n div 10"
      by simp
    with False show ?thesis
      by (subst Quantity_String.simps) (simp add: dec_acc_def digit_char_digit)
  qed
qed

lemma ref_decimal_Quantity_String: "ref_decimal (Quantity_String n) = Some n"
  by (simp add: ref_decimal_def Quantity_String_digits dec_acc_Quantity_String)

lemma Quantity_String_no_comma: "CHR '','' \<notin> set (Quantity_String n)"
proof
  assume "CHR '','' \<in> set (Quantity_String n)"
  moreover have "\<forall>c \<in> set (Quantity_String n). is_digit c"
    using Quantity_String_digits [of n] by (simp add: list_all_iff)
  ultimately have "is_digit CHR '',''" by blast
  then show False by (simp add: is_digit_def)
qed

lemma split_commas_field:
  "CHR '','' \<notin> set xs \<Longrightarrow>
   split_commas cur (xs @ CHR '','' # rest) = map_option (Cons (rev cur @ xs)) (split_commas [] rest)"
  by (induction xs arbitrary: cur) auto

lemma split_commas_show: "split_commas [] (ref_show_nats ns) = Some (map Quantity_String ns)"
  by (induction ns) (simp_all add: split_commas_field Quantity_String_no_comma)

lemma ref_read_show: "ref_read_nats (ref_show_nats ns) = Some ns"
  by (simp add: ref_read_nats_def split_commas_show list_all_iff ref_decimal_Quantity_String
      dec_acc_Quantity_String map_idI)

lemma char_of_byte_of_char: "char_of_byte (byte_of_char c) = c"
  by (simp add: char_of_byte_def byte_of_char_def unat_of_nat)

lemma ref_unbytes_bytes: "ref_unbytes (ref_bytes ns) = Some ns"
  by (simp add: ref_unbytes_def ref_bytes_def comp_def char_of_byte_of_char ref_read_show)

lemma unmap_bytes: "map ((of_nat :: nat \<Rightarrow> 8 word) \<circ> unat) bs = bs"
  by (simp add: comp_def)

lemma unmap_chars: "map ((char_of :: nat \<Rightarrow> char) \<circ> of_char) s = s"
  by (simp add: comp_def)

lemma ref_nats_tx_inverse: "ref_nats_tx (ref_tx_nats tx) = Some tx"
  by (cases tx; cases "Fee tx")
     (auto simp: ref_tx_nats_def unmap_bytes unmap_chars)

lemma ref_nats_st_inverse: "ref_nats_st (ref_st_nats st) = Some st"
  by (cases st; cases "Signature st")
     (auto simp: ref_st_nats_def unmap_bytes)

lemma ref_env_codecs_invert: "codecs_invert ref_env"
  unfolding codecs_invert_def
proof (intro conjI allI impI)
  fix tx s
  assume "json_Marshal_Transaction ref_env tx = Some s"
  then show "json_Unmarshal_Transaction ref_env s = Some tx"
    by (auto simp: ref_env_codecs ref_read_show ref_nats_tx_inverse)
next
  fix b
  show "cbor_Unmarshal_Transfer ref_env (cbor_Marshal_Transfer ref_env b) = Some b"
    by (cases b) (simp add: ref_env_codecs ref_Unmarshal_Transfer_def ref_unbytes_bytes unmap_bytes)
next
  fix b
  show "cbor_Unmarshal_Burn ref_env (cbor_Marshal_Burn ref_env b) = Some b"
    by (cases b) (simp add: ref_env_codecs ref_Unmarshal_Burn_def ref_unbytes_bytes)
next
  fix b
  show "cbor_Unmarshal_Escrow ref_env (cbor_Marshal_Escrow ref_env b) = Some b"
    by (cases b) (simp add: ref_env_codecs ref_Unmarshal_Escrow_def ref_unbytes_bytes unmap_bytes)
next
  fix b
  show "cbor_Unmarshal_ReclaimEscrow ref_env (cbor_Marshal_ReclaimEscrow ref_env b) = Some b"
    by (cases b)
      (simp add: ref_env_codecs ref_Unmarshal_ReclaimEscrow_def ref_unbytes_bytes unmap_bytes)
qed

lemma ref_env_signed_codecs_invert: "signed_codecs_invert ref_env"
  unfolding signed_codecs_invert_def
proof (intro conjI allI impI)
  fix st s
  assume "json_Marshal_SignedTransaction ref_env st = Some s"
  then show "json_Unmarshal_SignedTransaction ref_env s = Some st"
    by (auto simp: ref_env_codecs ref_read_show ref_nats_st_inverse)
next
  fix tx
  show "cbor_Unmarshal_Transaction ref_env (cbor_Marshal_Transaction ref_env tx) = Some tx"
    by (simp add: ref_env_codecs ref_unbytes_bytes ref_nats_tx_inverse)
qed

lemma ref_env_methods_distinct: "methods_distinct ref_env"
  by (simp add: methods_distinct_def ref_env_consts)

subsection \<open>The stages of ConstructionParse\<close>

lemmas parse_defs =
  ConstructionParse_def parse_decode_def parse_operations_def parse_fee_operation_def
  SignedTransaction_Open_def new_operation_def FromPlaceholder_def NonceKey_def FeeGasKey_def

lemma parse_operations_head:
  "parse_operations env tx from = Inr ops \<Longrightarrow> \<exists>rest. ops = parse_fee_operation env tx from # rest"
  by (auto simp: parse_operations_def split: if_splits option.splits)

lemma parse_decode_from:
  assumes "parse_decode env request = Inr (tx, from, signers)"
  shows "if parse_Signed request
         then \<exists>st. json_Unmarshal_SignedTransaction env (parse_Transaction request) = Some st \<and>
                Verify env (SigPublicKey (Signature st)) (Blob st) (SigSignature (Signature st)) \<and>
                cbor_Unmarshal_Transaction env (Blob st) = Some tx \<and>
                from = Address_String env (NewAddress env (SigPublicKey (Signature st))) \<and>
                signers = [from]
         else json_Unmarshal_Transaction env (parse_Transaction request) = Some tx \<and>
              from = FromPlaceholder \<and> signers = []"
  using assms
  by (auto simp: parse_decode_def SignedTransaction_Open_def split: if_splits option.splits)

lemma parse_fee_operation_shape:
  "\<exists>feeOp am. parse_fee_operation env tx from = Some feeOp \<and>
     OperationIdentifier feeOp = Some \<lparr>Index = 0\<rparr> \<and>
     Type feeOp = OpTransfer env \<and>
     Account feeOp =
       Some \<lparr>Address = from, SubAccount = Some \<lparr>SubAddress = SubAccountGeneral env\<rparr>\<rparr> \<and>
     Amount feeOp = Some am \<and> Currency am = Some (OasisCurrency env)"
  by (simp add: parse_fee_operation_def new_operation_def split: option.splits)

lemma ref_unsigned_text: "json_Unmarshal_Transaction ref_env (unsigned_text tx) = Some tx"
  by (simp add: unsigned_text_def ref_env_codecs ref_read_show ref_nats_tx_inverse)

lemma ref_signed_text: "json_Unmarshal_SignedTransaction ref_env (signed_text st) = Some st"
  by (simp add: signed_text_def ref_env_codecs ref_read_show ref_nats_st_inverse)

lemma ref_open_signed:
  "SignedTransaction_Open ref_env (ref_signed tx rs) =
     (if rs = ref_sign public_key (cbor_Marshal_Transaction ref_env tx) then Some tx else None)"
  using ref_env_signed_codecs_invert
  by (simp add: SignedTransaction_Open_def ref_signed_def ref_env_funs signed_codecs_invert_def)

lemma ref_parse_decode_unsigned:
  "parse_decode ref_env (parse_request False (unsigned_text tx)) = Inr (tx, ''(from)'', [])"
  by (simp add: parse_decode_def parse_request_def ref_unsigned_text FromPlaceholder_def)

lemma ref_parse_decode_signed:
  "parse_decode ref_env
     (parse_request True
        (signed_text (ref_signed tx (ref_sign public_key (cbor_Marshal_Transaction ref_env tx))))) =
   Inr (tx, map char_of_byte (take 21 public_key), [map char_of_byte (take 21 public_key)])"
  by (simp add: parse_decode_def parse_request_def ref_signed_text ref_open_signed)
     (simp add: ref_signed_def ref_env_funs)

lemma ref_parse_operations_transfer:
  "parse_operations ref_env transfer_tx from =
     Inr [parse_fee_operation ref_env transfer_tx from,
          new_operation 1 ''Transfer'' from ''general'' ''-100'' rose Map.empty,
          new_operation 2 ''Transfer'' bob ''general'' ''100'' rose Map.empty]"
proof -
  have b: "cbor_Unmarshal_Transfer ref_env (Body transfer_tx) =
      Some \<lparr>Transfer_To = map byte_of_char bob, Transfer_Tokens = 100\<rparr>"
    using ref_env_codecs_invert by (simp add: transfer_tx_def codecs_invert_def)
  have q: "Quantity_String 100 = ''100''"
    by (simp add: Quantity_String.simps digit_char_def char_of_eq_iff)
  have m: "Method transfer_tx = ''staking.Transfer''"
    by (simp add: transfer_tx_def)
  show ?thesis
    by (simp add: parse_operations_def m b q ref_env_consts ref_env_funs rose_def comp_def
        char_of_byte_of_char)
qed

subsection \<open>The fee operation and the methods of ConstructionParse\<close>

text \<open>
  Claim C7. Let the request pass the network validation and its transaction decode:
  the envelope decodes and, when the request is signed, the signature verifies. Then
  the payer \<open>from\<close> is the address derived from the public key of the verified
  signature when the request is signed, and the placeholder \<^verbatim>\<open>(from)\<close> when it is not;
  every response of the handler has at index 0 the fee operation, with operation index
  0, the sub-account General and the address \<open>from\<close>; the handler returns a response
  whenever the switch on the method yields the operations; and when the method of the
  transaction is none of Transfer, Burn, AddEscrow and ReclaimEscrow, the handler fails
  with NotImplemented.
\<close>

theorem parse_fee_operation_first:
  assumes net: "ValidateNetworkIdentifier env (parse_NetworkIdentifier request) = None"
    and dec: "parse_decode env request = Inr (tx, from, signers)"
  shows
    "(if parse_Signed request
      then \<exists>st. json_Unmarshal_SignedTransaction env (parse_Transaction request) = Some st \<and>
             Verify env (SigPublicKey (Signature st)) (Blob st) (SigSignature (Signature st)) \<and>
             from = Address_String env (NewAddress env (SigPublicKey (Signature st)))
      else from = FromPlaceholder \<and> FromPlaceholder = ''(from)'') \<and>
     (\<forall>response. ConstructionParse env request = Inr response \<longrightarrow>
        (\<exists>feeOp am rest.
           parse_Operations response = Some feeOp # rest \<and>
           OperationIdentifier feeOp = Some \<lparr>Index = 0\<rparr> \<and>
           Type feeOp = OpTransfer env \<and>
           Account feeOp =
             Some \<lparr>Address = from, SubAccount = Some \<lparr>SubAddress = SubAccountGeneral env\<rparr>\<rparr> \<and>
           Amount feeOp = Some am \<and> Currency am = Some (OasisCurrency env))) \<and>
     (\<forall>ops. parse_operations env tx from = Inr ops \<longrightarrow>
        ConstructionParse env request =
          Inr \<lparr>parse_Operations = ops, parse_Signers = signers,
               parse_Metadata = [NonceKey \<mapsto> VUint64 (Nonce tx)]\<rparr>) \<and>
     (Method tx \<notin> {MethodTransfer env, MethodBurn env, MethodAddEscrow env,
                     MethodReclaimEscrow env} \<longrightarrow>
        ConstructionParse env request = Inl ErrNotImplemented)"
proof (intro conjI allI impI)
  from parse_decode_from [OF dec]
  show "if parse_Signed request
      then \<exists>st. json_Unmarshal_SignedTransaction env (parse_Transaction request) = Some st \<and>
             Verify env (SigPublicKey (Signature st)) (Blob st) (SigSignature (Signature st)) \<and>
             from = Address_String env (NewAddress env (SigPublicKey (Signature st)))
      else from = FromPlaceholder \<and> FromPlaceholder = ''(from)''"
    by (auto simp: FromPlaceholder_def split: if_splits)
next
  fix response
  assume "ConstructionParse env request = Inr response"
  with net dec obtain ops where ops: "parse_operations env tx from = Inr ops"
    and r: "parse_Operations response = ops"
    by (auto simp: ConstructionParse_def split: sum.splits)
  from parse_operations_head [OF ops] r
  obtain rest where "parse_Operations response = parse_fee_operation env tx from # rest"
    by auto
  with parse_fee_operation_shape [of env tx "from"]
  show "\<exists>feeOp am rest.
           parse_Operations response = Some feeOp # rest \<and>
           OperationIdentifier feeOp = Some \<lparr>Index = 0\<rparr> \<and>
           Type feeOp = OpTransfer env \<and>
           Account feeOp =
             Some \<lparr>Address = from, SubAccount = Some \<lparr>SubAddress = SubAccountGeneral env\<rparr>\<rparr> \<and>
           Amount feeOp = Some am \<and> Currency am = Some (OasisCurrency env)"
    by auto
next
  fix ops
  assume "parse_operations env tx from = Inr ops"
  with net dec show "ConstructionParse env request =
          Inr \<lparr>parse_Operations = ops, parse_Signers = signers,
               parse_Metadata = [NonceKey \<mapsto> VUint64 (Nonce tx)]\<rparr>"
    by (simp add: ConstructionParse_def)
next
  assume "Method tx \<notin> {MethodTransfer env, MethodBurn env, MethodAddEscrow env,
                     MethodReclaimEscrow env}"
  then have "parse_operations env tx from = Inl ErrNotImplemented"
    by (simp add: parse_operations_def)
  with net dec show "ConstructionParse env request = Inl ErrNotImplemented"
    by (simp add: ConstructionParse_def)
qed

theorem parse_fee_operation_first_witness:
  "(\<exists>response feeOp rest.
      ConstructionParse ref_env (parse_request False (unsigned_text transfer_tx)) = Inr response \<and>
      parse_Operations response = Some feeOp # rest \<and>
      OperationIdentifier feeOp = Some \<lparr>Index = 0\<rparr> \<and>
      Account feeOp =
        Some \<lparr>Address = ''(from)'', SubAccount = Some \<lparr>SubAddress = ''general''\<rparr>\<rparr>) \<and>
   (\<exists>response feeOp rest.
      ConstructionParse ref_env
        (parse_request True
           (signed_text
              (ref_signed transfer_tx
                 (ref_sign public_key (cbor_Marshal_Transaction ref_env transfer_tx))))) =
        Inr response \<and>
      parse_Operations response = Some feeOp # rest \<and>
      OperationIdentifier feeOp = Some \<lparr>Index = 0\<rparr> \<and>
      Account feeOp =
        Some \<lparr>Address = map char_of_byte (take 21 public_key),
              SubAccount = Some \<lparr>SubAddress = ''general''\<rparr>\<rparr>) \<and>
   ConstructionParse ref_env (parse_request False (unsigned_text other_tx)) =
     Inl ErrNotImplemented"
proof -
  let ?u = "parse_request False (unsigned_text transfer_tx)"
  let ?s = "parse_request True
           (signed_text
              (ref_signed transfer_tx
                 (ref_sign public_key (cbor_Marshal_Transaction ref_env transfer_tx))))"
  let ?o = "parse_request False (unsigned_text other_tx)"
  have net: "\<And>b t. ValidateNetworkIdentifier ref_env (parse_NetworkIdentifier (parse_request b t)) = None"
    by (simp add: parse_request_def ref_env_consts)
  note u = parse_fee_operation_first [OF net ref_parse_decode_unsigned, of transfer_tx]
  note s = parse_fee_operation_first [OF net ref_parse_decode_signed, of transfer_tx]
  note o = parse_fee_operation_first [OF net ref_parse_decode_unsigned, of other_tx]
  from u [THEN conjunct2, THEN conjunct2, THEN conjunct1] ref_parse_operations_transfer
  obtain ru where ru: "ConstructionParse ref_env ?u = Inr ru"
    by auto
  from u [THEN conjunct2, THEN conjunct1] ru
  have 1: "\<exists>response feeOp rest.
      ConstructionParse ref_env ?u = Inr response \<and>
      parse_Operations response = Some feeOp # rest \<and>
      OperationIdentifier feeOp = Some \<lparr>Index = 0\<rparr> \<and>
      Account feeOp =
        Some \<lparr>Address = ''(from)'', SubAccount = Some \<lparr>SubAddress = ''general''\<rparr>\<rparr>"
    by (fastforce simp: ref_env_consts)
  from s [THEN conjunct2, THEN conjunct2, THEN conjunct1] ref_parse_operations_transfer
  obtain rs where rs: "ConstructionParse ref_env ?s = Inr rs"
    by auto
  from s [THEN conjunct2, THEN conjunct1] rs
  have 2: "\<exists>response feeOp rest.
      ConstructionParse ref_env ?s = Inr response \<and>
      parse_Operations response = Some feeOp # rest \<and>
      OperationIdentifier feeOp = Some \<lparr>Index = 0\<rparr> \<and>
      Account feeOp =
        Some \<lparr>Address = map char_of_byte (take 21 public_key),
              SubAccount = Some \<lparr>SubAddress = ''general''\<rparr>\<rparr>"
    by (fastforce simp: ref_env_consts)
  from o [THEN conjunct2, THEN conjunct2, THEN conjunct2]
  have 3: "ConstructionParse ref_env ?o = Inl ErrNotImplemented"
    by (simp add: other_tx_def ref_env_consts)
  from 1 2 3 show ?thesis by blast
qed

subsection \<open>ConstructionSubmit on a text that does not decode\<close>

text \<open>
  Claim C6, as amended. For a request that passes the network validation and whose
  signed-transaction text does not decode, the handler first hands the text to
  \<^verbatim>\<open>SubmitTx\<close> of the node client. When \<^verbatim>\<open>SubmitTx\<close> returns an error the handler fails
  with UnableToSubmitTx, and when it returns none the handler fails with MalformedValue;
  either way no transaction identifier is returned, and the node is in the state in
  which \<^verbatim>\<open>SubmitTx\<close> left it.
\<close>

theorem submit_undecodable:
  assumes net: "ValidateNetworkIdentifier env (submit_NetworkIdentifier request) = None"
    and und: "json_Unmarshal_SignedTransaction env (submit_SignedTransaction request) = None"
  shows "ConstructionSubmit env client request node =
           (case fst (SubmitTx client (submit_SignedTransaction request) node) of
              None \<Rightarrow> Inl ErrMalformedValue
            | Some err \<Rightarrow> Inl ErrUnableToSubmitTx,
            snd (SubmitTx client (submit_SignedTransaction request) node))"
  using assms
  by (cases "SubmitTx client (submit_SignedTransaction request) node")
     (simp add: ConstructionSubmit_def split: option.splits)

lemma garbage_undecodable: "json_Unmarshal_SignedTransaction ref_env ''garbage'' = None"
  by (simp add: ref_env_codecs ref_read_nats_def)

theorem submit_undecodable_witness:
  "ValidateNetworkIdentifier ref_env (submit_NetworkIdentifier (submit_request ''garbage'')) = None \<and>
   json_Unmarshal_SignedTransaction ref_env (submit_SignedTransaction (submit_request ''garbage'')) =
     None \<and>
   ConstructionSubmit ref_env forwarding_client (submit_request ''garbage'') [] =
     (Inl ErrMalformedValue, [''garbage''])"
proof -
  have net: "ValidateNetworkIdentifier ref_env
      (submit_NetworkIdentifier (submit_request ''garbage'')) = None"
    by (simp add: submit_request_def ref_env_consts)
  have und: "json_Unmarshal_SignedTransaction ref_env
      (submit_SignedTransaction (submit_request ''garbage'')) = None"
    by (simp add: submit_request_def garbage_undecodable)
  from submit_undecodable [OF net und, of forwarding_client "[]"] net und
  show ?thesis
    by (simp add: forwarding_client_def submit_request_def)
qed

text \<open>
  Claim C6 as stated fails at the text \<^verbatim>\<open>garbage\<close>, which does not decode. With the
  client that decodes before it broadcasts, the handler fails with UnableToSubmitTx, not
  with MalformedValue. With the client that hands every text on, the handler fails with
  MalformedValue after the node has received the text.
\<close>

theorem submit_calls_client_first:
  "json_Unmarshal_SignedTransaction ref_env ''garbage'' = None \<and>
   ConstructionSubmit ref_env decoding_client (submit_request ''garbage'') [] =
     (Inl ErrUnableToSubmitTx, []) \<and>
   ConstructionSubmit ref_env forwarding_client (submit_request ''garbage'') [] =
     (Inl ErrMalformedValue, [''garbage''])"
  by (simp add: ConstructionSubmit_def decoding_client_def forwarding_client_def
      submit_request_def garbage_undecodable ref_env_consts)

subsection \<open>Combine, then parse\<close>

lemma combine_built:
  assumes "ValidateNetworkIdentifier env (combine_NetworkIdentifier request) = None"
    and "json_Unmarshal_Transaction env (combine_UnsignedTransaction request) = Some tx"
    and "combine_Signatures request = [Some sig]"
    and "sig_PublicKey sig = Some sigpk"
    and "PublicKey_UnmarshalBinary env (pk_Bytes sigpk) = Some pk"
    and "RawSignature_UnmarshalBinary env (sig_Bytes sig) = Some rs"
    and "json_Marshal_SignedTransaction env
           \<lparr>Blob = cbor_Marshal_Transaction env tx,
            Signature = \<lparr>SigPublicKey = pk, SigSignature = rs\<rparr>\<rparr> = Some stJSON"
  shows "ConstructionCombine env request = Inr \<lparr>combine_SignedTransaction = stJSON\<rparr>"
  using assms by (simp add: ConstructionCombine_def)

lemma parse_decode_combined:
  assumes "signed_codecs_invert env"
    and "json_Marshal_SignedTransaction env
           \<lparr>Blob = cbor_Marshal_Transaction env tx,
            Signature = \<lparr>SigPublicKey = pk, SigSignature = rs\<rparr>\<rparr> = Some stJSON"
  shows "parse_decode env
           \<lparr>parse_NetworkIdentifier = n, parse_Signed = True, parse_Transaction = stJSON\<rparr> =
         (if Verify env pk (cbor_Marshal_Transaction env tx) rs
          then Inr (tx, Address_String env (NewAddress env pk),
                    [Address_String env (NewAddress env pk)])
          else Inl ErrMalformedValue)"
proof -
  from assms have "json_Unmarshal_SignedTransaction env stJSON =
      Some \<lparr>Blob = cbor_Marshal_Transaction env tx,
            Signature = \<lparr>SigPublicKey = pk, SigSignature = rs\<rparr>\<rparr>"
    by (simp add: signed_codecs_invert_def)
  moreover from assms(1)
  have "cbor_Unmarshal_Transaction env (cbor_Marshal_Transaction env tx) = Some tx"
    by (simp add: signed_codecs_invert_def)
  ultimately show ?thesis
    by (simp add: parse_decode_def SignedTransaction_Open_def)
qed

lemma ref_sign_not_zero: "ref_sign public_key blob \<noteq> replicate 64 0"
proof
  assume "ref_sign public_key blob = replicate 64 0"
  then have "hd (ref_sign public_key blob) = hd (replicate 64 (0 :: 8 word))"
    by simp
  then show False
    by (simp add: ref_sign_def public_key_def hd_append)
qed

lemma ref_combine:
  assumes "length pk = 32" and "length rs = 64"
  shows "ConstructionCombine ref_env
           (combine_request (unsigned_text tx) [detached_signature pk rs]) =
         Inr \<lparr>combine_SignedTransaction =
                signed_text \<lparr>Blob = cbor_Marshal_Transaction ref_env tx,
                             Signature = \<lparr>SigPublicKey = pk, SigSignature = rs\<rparr>\<rparr>\<rparr>"
  using assms
  by (simp add: ConstructionCombine_def combine_request_def detached_signature_def
      ref_unsigned_text ref_env_consts ref_env_funs signed_text_def
      ref_env_codecs(3))

lemma public_key_length: "length public_key = 32"
  by (simp add: public_key_def)

lemma ref_sign_length: "length (ref_sign pk blob) = 64"
  by (simp add: ref_sign_def)

subsection \<open>The signatures of ConstructionCombine\<close>

text \<open>
  Claim C4, as amended. For a request that passes the network validation,
  ConstructionCombine fails with MalformedValue when the signature list has not exactly
  one entry, and when the public key or the raw signature of the single entry is not
  well formed. When the unsigned transaction decodes, the single entry is well formed
  and the encoder does not fail, it succeeds with the signed transaction that holds the
  canonical encoding of the transaction and the signature as given; it does not verify
  the signature. ConstructionParse of that signed transaction (the decoders inverting
  the encoders) opens it exactly when the signature verifies over the canonical
  encoding under the public key, and then continues with the operations of the
  transaction; when the signature does not verify it fails with MalformedValue.
\<close>

theorem combine_one_signature:
  assumes net: "ValidateNetworkIdentifier env (combine_NetworkIdentifier request) = None"
  shows
    "(length (combine_Signatures request) \<noteq> 1 \<longrightarrow>
        ConstructionCombine env request = Inl ErrMalformedValue) \<and>
     (\<forall>sig sigpk.
        combine_Signatures request = [Some sig] \<and> sig_PublicKey sig = Some sigpk \<and>
        (PublicKey_UnmarshalBinary env (pk_Bytes sigpk) = None \<or>
         RawSignature_UnmarshalBinary env (sig_Bytes sig) = None) \<longrightarrow>
        ConstructionCombine env request = Inl ErrMalformedValue) \<and>
     (\<forall>tx sig sigpk pk rs stJSON.
        json_Unmarshal_Transaction env (combine_UnsignedTransaction request) = Some tx \<and>
        combine_Signatures request = [Some sig] \<and> sig_PublicKey sig = Some sigpk \<and>
        PublicKey_UnmarshalBinary env (pk_Bytes sigpk) = Some pk \<and>
        RawSignature_UnmarshalBinary env (sig_Bytes sig) = Some rs \<and>
        json_Marshal_SignedTransaction env
          \<lparr>Blob = cbor_Marshal_Transaction env tx,
           Signature = \<lparr>SigPublicKey = pk, SigSignature = rs\<rparr>\<rparr> = Some stJSON \<longrightarrow>
        ConstructionCombine env request = Inr \<lparr>combine_SignedTransaction = stJSON\<rparr> \<and>
        (signed_codecs_invert env \<longrightarrow>
           ConstructionParse env
             \<lparr>parse_NetworkIdentifier = combine_NetworkIdentifier request,
              parse_Signed = True, parse_Transaction = stJSON\<rparr> =
           (if Verify env pk (cbor_Marshal_Transaction env tx) rs
            then (case parse_operations env tx (Address_String env (NewAddress env pk)) of
                    Inl err \<Rightarrow> Inl err
                  | Inr ops \<Rightarrow>
                      Inr \<lparr>parse_Operations = ops,
                           parse_Signers = [Address_String env (NewAddress env pk)],
                           parse_Metadata = [NonceKey \<mapsto> VUint64 (Nonce tx)]\<rparr>)
            else Inl ErrMalformedValue)))"
proof (intro conjI allI impI)
  assume "length (combine_Signatures request) \<noteq> 1"
  with net show "ConstructionCombine env request = Inl ErrMalformedValue"
    by (simp add: ConstructionCombine_def split: option.splits)
next
  fix sig sigpk
  assume "combine_Signatures request = [Some sig] \<and> sig_PublicKey sig = Some sigpk \<and>
        (PublicKey_UnmarshalBinary env (pk_Bytes sigpk) = None \<or>
         RawSignature_UnmarshalBinary env (sig_Bytes sig) = None)"
  with net show "ConstructionCombine env request = Inl ErrMalformedValue"
    by (auto simp: ConstructionCombine_def split: option.splits)
next
  fix tx sig sigpk pk rs stJSON
  assume a: "json_Unmarshal_Transaction env (combine_UnsignedTransaction request) = Some tx \<and>
        combine_Signatures request = [Some sig] \<and> sig_PublicKey sig = Some sigpk \<and>
        PublicKey_UnmarshalBinary env (pk_Bytes sigpk) = Some pk \<and>
        RawSignature_UnmarshalBinary env (sig_Bytes sig) = Some rs \<and>
        json_Marshal_SignedTransaction env
          \<lparr>Blob = cbor_Marshal_Transaction env tx,
           Signature = \<lparr>SigPublicKey = pk, SigSignature = rs\<rparr>\<rparr> = Some stJSON"
  with net show "ConstructionCombine env request = Inr \<lparr>combine_SignedTransaction = stJSON\<rparr>"
    by (simp add: combine_built)
  assume inv: "signed_codecs_invert env"
  from a have m: "json_Marshal_SignedTransaction env
          \<lparr>Blob = cbor_Marshal_Transaction env tx,
           Signature = \<lparr>SigPublicKey = pk, SigSignature = rs\<rparr>\<rparr> = Some stJSON"
    by simp
  from net parse_decode_combined [OF inv m]
  show "ConstructionParse env
             \<lparr>parse_NetworkIdentifier = combine_NetworkIdentifier request,
              parse_Signed = True, parse_Transaction = stJSON\<rparr> =
           (if Verify env pk (cbor_Marshal_Transaction env tx) rs
            then (case parse_operations env tx (Address_String env (NewAddress env pk)) of
                    Inl err \<Rightarrow> Inl err
                  | Inr ops \<Rightarrow>
                      Inr \<lparr>parse_Operations = ops,
                           parse_Signers = [Address_String env (NewAddress env pk)],
                           parse_Metadata = [NonceKey \<mapsto> VUint64 (Nonce tx)]\<rparr>)
            else Inl ErrMalformedValue)"
    by (simp add: ConstructionParse_def)
qed

theorem combine_one_signature_witness:
  "ConstructionCombine ref_env (combine_request (unsigned_text transfer_tx) []) =
     Inl ErrMalformedValue \<and>
   ConstructionCombine ref_env
     (combine_request (unsigned_text transfer_tx)
        [detached_signature public_key (replicate 64 0),
         detached_signature public_key (replicate 64 0)]) =
     Inl ErrMalformedValue \<and>
   ConstructionCombine ref_env
     (combine_request (unsigned_text transfer_tx) [detached_signature [1, 2, 3] (replicate 64 0)]) =
     Inl ErrMalformedValue \<and>
   ConstructionCombine ref_env
     (combine_request (unsigned_text transfer_tx) [detached_signature public_key [1, 2, 3]]) =
     Inl ErrMalformedValue \<and>
   ConstructionCombine ref_env
     (combine_request (unsigned_text transfer_tx)
        [detached_signature public_key
           (ref_sign public_key (cbor_Marshal_Transaction ref_env transfer_tx))]) =
     Inr \<lparr>combine_SignedTransaction =
            signed_text
              (ref_signed transfer_tx
                 (ref_sign public_key (cbor_Marshal_Transaction ref_env transfer_tx)))\<rparr> \<and>
   (\<exists>response.
      ConstructionParse ref_env
        (parse_request True
           (signed_text
              (ref_signed transfer_tx
                 (ref_sign public_key (cbor_Marshal_Transaction ref_env transfer_tx))))) =
      Inr response \<and>
      parse_Signers response = [map char_of_byte (take 21 public_key)])"
proof -
  let ?text = "unsigned_text transfer_tx"
  let ?rs = "ref_sign public_key (cbor_Marshal_Transaction ref_env transfer_tx)"
  have net: "\<And>sigs. ValidateNetworkIdentifier ref_env
      (combine_NetworkIdentifier (combine_request ?text sigs)) = None"
    by (simp add: combine_request_def ref_env_consts)
  note c = combine_one_signature [OF net]
  have 1: "ConstructionCombine ref_env (combine_request ?text []) = Inl ErrMalformedValue"
    using c [of "[]", THEN conjunct1] by (simp add: combine_request_def)
  have 2: "ConstructionCombine ref_env
     (combine_request ?text
        [detached_signature public_key (replicate 64 0),
         detached_signature public_key (replicate 64 0)]) = Inl ErrMalformedValue"
    using c [of "[detached_signature public_key (replicate 64 0),
         detached_signature public_key (replicate 64 0)]", THEN conjunct1]
    by (simp add: combine_request_def)
  have 3: "ConstructionCombine ref_env
     (combine_request ?text [detached_signature [1, 2, 3] (replicate 64 0)]) =
     Inl ErrMalformedValue"
    using c [of "[detached_signature [1, 2, 3] (replicate 64 0)]", THEN conjunct2, THEN conjunct1,
        THEN spec, THEN spec,
        of "the (detached_signature [1, 2, 3] (replicate 64 0))" "\<lparr>pk_Bytes = [1, 2, 3]\<rparr>"]
    by (simp add: combine_request_def detached_signature_def ref_env_funs)
  have 4: "ConstructionCombine ref_env
     (combine_request ?text [detached_signature public_key [1, 2, 3]]) =
     Inl ErrMalformedValue"
    using c [of "[detached_signature public_key [1, 2, 3]]", THEN conjunct2, THEN conjunct1,
        THEN spec, THEN spec,
        of "the (detached_signature public_key [1, 2, 3])" "\<lparr>pk_Bytes = public_key\<rparr>"]
    by (simp add: combine_request_def detached_signature_def ref_env_funs)
  note good = c [of "[detached_signature public_key ?rs]", THEN conjunct2, THEN conjunct2,
        THEN spec, THEN spec, THEN spec, THEN spec, THEN spec, THEN spec,
        of transfer_tx "the (detached_signature public_key ?rs)" "\<lparr>pk_Bytes = public_key\<rparr>"
           public_key ?rs "signed_text (ref_signed transfer_tx ?rs)"]
  have hyps: "json_Unmarshal_Transaction ref_env
        (combine_UnsignedTransaction (combine_request ?text [detached_signature public_key ?rs])) =
        Some transfer_tx \<and>
      combine_Signatures (combine_request ?text [detached_signature public_key ?rs]) =
        [Some (the (detached_signature public_key ?rs))] \<and>
      sig_PublicKey (the (detached_signature public_key ?rs)) = Some \<lparr>pk_Bytes = public_key\<rparr> \<and>
      PublicKey_UnmarshalBinary ref_env (pk_Bytes \<lparr>pk_Bytes = public_key\<rparr>) = Some public_key \<and>
      RawSignature_UnmarshalBinary ref_env (sig_Bytes (the (detached_signature public_key ?rs))) =
        Some ?rs \<and>
      json_Marshal_SignedTransaction ref_env
        \<lparr>Blob = cbor_Marshal_Transaction ref_env transfer_tx,
         Signature = \<lparr>SigPublicKey = public_key, SigSignature = ?rs\<rparr>\<rparr> =
        Some (signed_text (ref_signed transfer_tx ?rs))"
    by (simp add: combine_request_def detached_signature_def ref_unsigned_text ref_env_funs
        public_key_length ref_sign_length ref_env_codecs(3) signed_text_def ref_signed_def)
  from good [THEN mp, OF hyps]
  have 5: "ConstructionCombine ref_env (combine_request ?text [detached_signature public_key ?rs]) =
     Inr \<lparr>combine_SignedTransaction = signed_text (ref_signed transfer_tx ?rs)\<rparr>"
    by simp
  from good [THEN mp, OF hyps, THEN conjunct2, THEN mp, OF ref_env_signed_codecs_invert]
  have "ConstructionParse ref_env (parse_request True (signed_text (ref_signed transfer_tx ?rs))) =
      Inr \<lparr>parse_Operations =
             [parse_fee_operation ref_env transfer_tx (map char_of_byte (take 21 public_key)),
              new_operation 1 ''Transfer'' (map char_of_byte (take 21 public_key)) ''general''
                ''-100'' rose Map.empty,
              new_operation 2 ''Transfer'' bob ''general'' ''100'' rose Map.empty],
           parse_Signers = [map char_of_byte (take 21 public_key)],
           parse_Metadata = [NonceKey \<mapsto> VUint64 (Nonce transfer_tx)]\<rparr>"
    by (simp add: combine_request_def parse_request_def ref_env_funs
        ref_parse_operations_transfer)
  then have 6: "\<exists>response.
      ConstructionParse ref_env (parse_request True (signed_text (ref_signed transfer_tx ?rs))) =
      Inr response \<and>
      parse_Signers response = [map char_of_byte (take 21 public_key)]"
    by simp
  from 1 2 3 4 5 6 show ?thesis by blast
qed

text \<open>
  Claim C4 as stated fails: a public key of 32 bytes and a raw signature of 64 zero
  bytes are well formed, ConstructionCombine succeeds on them, and the signed
  transaction that it returns does not verify: ConstructionParse fails on it with
  MalformedValue. And with the same well-formed signature, ConstructionCombine fails
  when the unsigned transaction does not decode.
\<close>

theorem combine_accepts_invalid_signature:
  "PublicKey_UnmarshalBinary ref_env public_key = Some public_key \<and>
   RawSignature_UnmarshalBinary ref_env (replicate 64 0) = Some (replicate 64 0) \<and>
   ConstructionCombine ref_env
     (combine_request (unsigned_text transfer_tx)
        [detached_signature public_key (replicate 64 0)]) =
     Inr \<lparr>combine_SignedTransaction =
            signed_text (ref_signed transfer_tx (replicate 64 0))\<rparr> \<and>
   ConstructionParse ref_env
     (parse_request True (signed_text (ref_signed transfer_tx (replicate 64 0)))) =
     Inl ErrMalformedValue \<and>
   ConstructionCombine ref_env
     (combine_request ''garbage'' [detached_signature public_key (replicate 64 0)]) =
     Inl ErrMalformedValue"
proof -
  have 1: "PublicKey_UnmarshalBinary ref_env public_key = Some public_key"
    by (simp add: ref_env_funs public_key_length)
  have 2: "RawSignature_UnmarshalBinary ref_env (replicate 64 0) = Some (replicate 64 0)"
    by (simp add: ref_env_funs)
  have 3: "ConstructionCombine ref_env
     (combine_request (unsigned_text transfer_tx)
        [detached_signature public_key (replicate 64 0)]) =
     Inr \<lparr>combine_SignedTransaction =
            signed_text (ref_signed transfer_tx (replicate 64 0))\<rparr>"
    by (simp add: ref_combine public_key_length ref_signed_def)
  have "replicate 64 0 \<noteq> ref_sign public_key (cbor_Marshal_Transaction ref_env transfer_tx)"
    using ref_sign_not_zero [of "cbor_Marshal_Transaction ref_env transfer_tx"] by simp
  then have 4: "ConstructionParse ref_env
     (parse_request True (signed_text (ref_signed transfer_tx (replicate 64 0)))) =
     Inl ErrMalformedValue"
    by (simp add: ConstructionParse_def parse_decode_def parse_request_def ref_env_consts
        ref_signed_text ref_open_signed)
  have 5: "ConstructionCombine ref_env
     (combine_request ''garbage'' [detached_signature public_key (replicate 64 0)]) =
     Inl ErrMalformedValue"
    by (simp add: ConstructionCombine_def combine_request_def ref_env_consts ref_env_codecs
        ref_read_nats_def)
  from 1 2 3 4 5 show ?thesis by blast
qed

subsection \<open>Operations in the form that parse writes\<close>

lemma canonical_op_read:
  assumes "canonical_op env idx negative cur encoded (Some op)"
  shows "\<exists>am q. OperationIdentifier op = Some \<lparr>Index = idx\<rparr> \<and>
           Amount op = Some am \<and> Currency am = Some cur \<and>
           readCurrency env (Amount op) cur negative = Inr q \<and>
           Value am = (if negative then ''-'' @ Quantity_String q else Quantity_String q)"
  using assms
  by (auto simp: canonical_op_def canonical_value_def readCurrency_def Quantity_FromBigInt_def
      split: option.splits if_splits)

lemma canonical_op_address:
  assumes "canonical_op env idx negative cur True (Some op)" and "Account op = Some acc"
  shows "Address_String env (address_after_UnmarshalText env (Address acc)) = Address acc"
  using assms
  by (auto simp: canonical_op_def canonical_address_def address_after_UnmarshalText_def
      split: option.splits)

lemma canonical_op_Some:
  "canonical_op env idx negative cur encoded p \<Longrightarrow> \<exists>op. p = Some op"
  by (cases p) (simp_all add: canonical_op_def)

lemma payloads_fee_InrD:
  assumes "payloads_fee env (Some f) = Inr (signer, fa, fg)"
  shows "\<exists>acc sub. Type f = OpTransfer env \<and> Account f = Some acc \<and>
           SubAccount acc = Some sub \<and> SubAddress sub = SubAccountGeneral env \<and>
           signer = Address acc \<and> readOasisCurrencyNeg env (Amount f) = Inr fa"
  using assms
  by (auto simp: payloads_fee_def split: option.splits if_splits sum.splits dyn.splits)

lemma read_or_malformed_InrD: "read_or_malformed r = Inr q \<Longrightarrow> r = Inr q"
  by (cases r) (auto simp: read_or_malformed_def split: if_splits)

lemma payloads_transfer_InrD:
  assumes "payloads_transfer env ops signer = Inr (meth, body)"
    and "ops ! 1 = Some o1" and "ops ! 2 = Some o2"
  shows "\<exists>a1 a2 q. Account o1 = Some a1 \<and> Address a1 = signer \<and> Account o2 = Some a2 \<and>
           readOasisCurrencyNeg env (Amount o1) = Inr q \<and>
           readOasisCurrency env (Amount o2) = Inr q \<and>
           meth = MethodTransfer env \<and>
           body = cbor_Marshal_Transfer env
                    \<lparr>Transfer_To = address_after_UnmarshalText env (Address a2),
                     Transfer_Tokens = q\<rparr>"
  using assms
  by (auto simp: payloads_transfer_def op_Address_def op_Amount_def
      split: option.splits sum.splits if_splits dest!: read_or_malformed_InrD)

lemma payloads_add_escrow_InrD:
  assumes "payloads_add_escrow env ops signer = Inr (meth, body)"
    and "ops ! 1 = Some o1" and "ops ! 2 = Some o2"
  shows "\<exists>a1 a2 q. Account o1 = Some a1 \<and> Address a1 = signer \<and> Account o2 = Some a2 \<and>
           readOasisCurrencyNeg env (Amount o1) = Inr q \<and>
           readOasisCurrency env (Amount o2) = Inr q \<and>
           meth = MethodAddEscrow env \<and>
           body = cbor_Marshal_Escrow env
                    \<lparr>Escrow_Account = address_after_UnmarshalText env (Address a2),
                     Escrow_Tokens = q\<rparr>"
  using assms
  by (auto simp: payloads_add_escrow_def op_Address_def op_Amount_def
      split: option.splits sum.splits if_splits dest!: read_or_malformed_InrD)

lemma payloads_burn_InrD:
  assumes "payloads_burn env ops signer = Inr (meth, body)"
    and "ops ! 1 = Some o1"
  shows "\<exists>a1 q. Account o1 = Some a1 \<and> Address a1 = signer \<and>
           readOasisCurrencyNeg env (Amount o1) = Inr q \<and>
           meth = MethodBurn env \<and>
           body = cbor_Marshal_Burn env \<lparr>Burn_Tokens = q\<rparr>"
  using assms
  by (auto simp: payloads_burn_def op_Address_def op_Amount_def
      split: option.splits sum.splits if_splits dest!: read_or_malformed_InrD)

lemma payloads_reclaim_escrow_InrD:
  assumes "payloads_reclaim_escrow env ops = Inr (meth, body)"
    and "ops ! 1 = Some o1"
  shows "\<exists>a1 q. Account o1 = Some a1 \<and>
           readPoolShareNeg env (Amount o1) = Inr q \<and>
           meth = MethodReclaimEscrow env \<and>
           body = cbor_Marshal_ReclaimEscrow env
                    \<lparr>ReclaimEscrow_Account = address_after_UnmarshalText env (Address a1),
                     ReclaimEscrow_Shares = q\<rparr>"
  using assms
  by (auto simp: payloads_reclaim_escrow_def op_Address_def op_Amount_def
      split: option.splits sum.splits if_splits dest!: read_or_malformed_InrD)

lemma same_as_new_operation:
  assumes "OperationIdentifier op = Some \<lparr>Index = i\<rparr>" and "Type op = t"
    and "Account op = Some acc" and "SubAccount acc = Some sub" and "SubAddress sub = s"
    and "Amount op = Some am" and "Value am = v" and "Currency am = Some c"
  shows "without_metadata (with_placeholder (Some op)) =
           without_metadata (new_operation i t FromPlaceholder s v c md)"
    and "without_metadata (Some op) = without_metadata (new_operation i t (Address acc) s v c md)"
  using assms
  by (cases op; cases acc; cases sub; cases am;
      simp add: without_metadata_def with_placeholder_def new_operation_def)+

lemma update3: "length xs = 3 \<Longrightarrow> xs[0 := a, 1 := b] = [a, b, xs ! 2]"
  by (cases xs; cases "tl xs"; cases "tl (tl xs)") auto

lemma update2:
  "length xs = 2 \<Longrightarrow> xs[0 := a, 1 := b] = [a, b]"
  "length xs = 2 \<Longrightarrow> xs[0 := a] = [a, xs ! 1]"
  by (cases xs; cases "tl xs"; auto)+

lemma fee_round_trip:
  assumes fee: "payloads_fee env (Some f) = Inr (signer, fa, fg)"
    and can: "canonical_op env 0 True (OasisCurrency env) False (Some f)"
  shows "without_metadata (with_placeholder (Some f)) =
           without_metadata
             (parse_fee_operation env
                \<lparr>Nonce = n, Fee = Some \<lparr>FeeAmount = fa, Gas = fg\<rparr>, Method = meth, Body = body\<rparr>
                FromPlaceholder)"
proof -
  from payloads_fee_InrD [OF fee] obtain acc sub where
    f: "Type f = OpTransfer env" "Account f = Some acc" "SubAccount acc = Some sub"
      "SubAddress sub = SubAccountGeneral env"
    and r: "readOasisCurrencyNeg env (Amount f) = Inr fa"
    by blast
  from canonical_op_read [OF can] r obtain am where
    a: "OperationIdentifier f = Some \<lparr>Index = 0\<rparr>" "Amount f = Some am"
      "Currency am = Some (OasisCurrency env)" "Value am = ''-'' @ Quantity_String fa"
    by (auto simp: readOasisCurrencyNeg_def)
  show ?thesis
    using same_as_new_operation(1) [OF a(1) f(1) f(2) f(3) f(4) a(2) a(4) a(3)]
    by (simp add: parse_fee_operation_def)
qed

lemma debit_round_trip:
  assumes shape: "op_shape (Some op) t s = Inr True"
    and can: "canonical_op env idx True cur False (Some op)"
    and r: "readCurrency env (Amount op) cur True = Inr q"
  shows "without_metadata (with_placeholder (Some op)) =
           without_metadata (new_operation idx t FromPlaceholder s (''-'' @ Quantity_String q) cur md)"
proof -
  from op_shape_TrueD [OF shape] obtain acc sub where
    f: "Type op = t" "Account op = Some acc" "SubAccount acc = Some sub" "SubAddress sub = s"
    by auto
  from canonical_op_read [OF can] r obtain am where
    a: "OperationIdentifier op = Some \<lparr>Index = idx\<rparr>" "Amount op = Some am"
      "Currency am = Some cur" "Value am = ''-'' @ Quantity_String q"
    by auto
  show ?thesis
    by (rule same_as_new_operation(1) [OF a(1) f(1) f(2) f(3) f(4) a(2) a(4) a(3)])
qed

lemma encoded_round_trip:
  assumes shape: "op_shape (Some op) t s = Inr True"
    and can: "canonical_op env idx negative cur True (Some op)"
    and acc: "Account op = Some acc"
    and r: "readCurrency env (Amount op) cur negative = Inr q"
  shows "without_metadata (Some op) =
           without_metadata
             (new_operation idx t
                (Address_String env (address_after_UnmarshalText env (Address acc))) s
                (if negative then ''-'' @ Quantity_String q else Quantity_String q) cur md)"
proof -
  from op_shape_TrueD [OF shape] acc obtain sub where
    f: "Type op = t" "SubAccount acc = Some sub" "SubAddress sub = s"
    by auto
  from canonical_op_read [OF can] r obtain am where
    a: "OperationIdentifier op = Some \<lparr>Index = idx\<rparr>" "Amount op = Some am"
      "Currency am = Some cur"
      "Value am = (if negative then ''-'' @ Quantity_String q else Quantity_String q)"
    by auto
  show ?thesis
    using same_as_new_operation(2) [OF a(1) f(1) acc f(2) f(3) a(2) a(4) a(3)]
    by (simp add: canonical_op_address [OF can acc])
qed

lemma transfer_round_trip:
  assumes inv: "codecs_invert env"
    and m: "payloads_match env ops = Inr MatchedTransfer"
    and fee: "payloads_fee env (ops ! 0) = Inr (signer, fa, fg)"
    and sw: "payloads_switch env ops signer = Inr (meth, body)"
    and can: "canonical_ops env MatchedTransfer ops"
  shows "\<exists>pops.
           parse_operations env
             \<lparr>Nonce = n, Fee = Some \<lparr>FeeAmount = fa, Gas = fg\<rparr>, Method = meth, Body = body\<rparr>
             FromPlaceholder = Inr pops \<and>
           map without_metadata pops = map without_metadata (placeholder_ops MatchedTransfer ops)"
proof -
  let ?tx = "\<lparr>Nonce = n, Fee = Some \<lparr>FeeAmount = fa, Gas = fg\<rparr>, Method = meth, Body = body\<rparr>"
  from cond3_TrueD [OF match_TransferD [OF m]]
  have len: "length ops = 3"
    and s1: "op_shape (ops ! 1) (OpTransfer env) (SubAccountGeneral env) = Inr True"
    and s2: "op_shape (ops ! 2) (OpTransfer env) (SubAccountGeneral env) = Inr True"
    by auto
  from can have c0: "canonical_op env 0 True (OasisCurrency env) False (ops ! 0)"
    and c1: "canonical_op env 1 True (OasisCurrency env) False (ops ! 1)"
    and c2: "canonical_op env 2 False (OasisCurrency env) True (ops ! 2)"
    by (simp_all add: canonical_ops_def)
  from canonical_op_Some [OF c0] obtain f where f: "ops ! 0 = Some f" by blast
  from canonical_op_Some [OF c1] obtain o1 where o1: "ops ! 1 = Some o1" by blast
  from canonical_op_Some [OF c2] obtain o2 where o2: "ops ! 2 = Some o2" by blast
  from sw m have "payloads_transfer env ops signer = Inr (meth, body)"
    by (simp add: payloads_switch_def)
  from payloads_transfer_InrD [OF this o1 o2] obtain a2 q where
    a2: "Account o2 = Some a2"
    and r1: "readOasisCurrencyNeg env (Amount o1) = Inr q"
    and r2: "readOasisCurrency env (Amount o2) = Inr q"
    and meth: "meth = MethodTransfer env"
    and body: "body = cbor_Marshal_Transfer env
                 \<lparr>Transfer_To = address_after_UnmarshalText env (Address a2), Transfer_Tokens = q\<rparr>"
    by blast
  from inv body have dec: "cbor_Unmarshal_Transfer env body =
      Some \<lparr>Transfer_To = address_after_UnmarshalText env (Address a2), Transfer_Tokens = q\<rparr>"
    by (simp add: codecs_invert_def)
  have pops: "parse_operations env ?tx FromPlaceholder =
      Inr [parse_fee_operation env ?tx FromPlaceholder,
           new_operation 1 (OpTransfer env) FromPlaceholder (SubAccountGeneral env)
             (''-'' @ Quantity_String q) (OasisCurrency env) Map.empty,
           new_operation 2 (OpTransfer env)
             (Address_String env (address_after_UnmarshalText env (Address a2)))
             (SubAccountGeneral env) (Quantity_String q) (OasisCurrency env) Map.empty]"
    by (simp add: parse_operations_def meth dec)
  have e0: "without_metadata (with_placeholder (ops ! 0)) =
      without_metadata (parse_fee_operation env ?tx FromPlaceholder)"
    using fee c0 by (simp add: f fee_round_trip)
  have e1: "without_metadata (with_placeholder (ops ! 1)) =
      without_metadata (new_operation 1 (OpTransfer env) FromPlaceholder (SubAccountGeneral env)
             (''-'' @ Quantity_String q) (OasisCurrency env) Map.empty)"
    using s1 c1 r1 unfolding o1 readOasisCurrencyNeg_def by (rule debit_round_trip)
  have e2: "without_metadata (ops ! 2) =
      without_metadata (new_operation 2 (OpTransfer env)
             (Address_String env (address_after_UnmarshalText env (Address a2)))
             (SubAccountGeneral env) (Quantity_String q) (OasisCurrency env) Map.empty)"
    using encoded_round_trip [OF s2 [unfolded o2] c2 [unfolded o2] a2 r2 [unfolded readOasisCurrency_def]]
    by (simp add: o2)
  have "placeholder_ops MatchedTransfer ops =
      [with_placeholder (ops ! 0), with_placeholder (ops ! 1), ops ! 2]"
    using update3 [OF len, of "with_placeholder (ops ! 0)" "with_placeholder (ops ! 1)"]
    by (simp add: placeholder_ops_def)
  with pops e0 e1 e2 show ?thesis
    by simp
qed

lemma burn_round_trip:
  assumes inv: "codecs_invert env" and dis: "methods_distinct env"
    and m: "payloads_match env ops = Inr MatchedBurn"
    and fee: "payloads_fee env (ops ! 0) = Inr (signer, fa, fg)"
    and sw: "payloads_switch env ops signer = Inr (meth, body)"
    and can: "canonical_ops env MatchedBurn ops"
  shows "\<exists>pops.
           parse_operations env
             \<lparr>Nonce = n, Fee = Some \<lparr>FeeAmount = fa, Gas = fg\<rparr>, Method = meth, Body = body\<rparr>
             FromPlaceholder = Inr pops \<and>
           map without_metadata pops = map without_metadata (placeholder_ops MatchedBurn ops)"
proof -
  let ?tx = "\<lparr>Nonce = n, Fee = Some \<lparr>FeeAmount = fa, Gas = fg\<rparr>, Method = meth, Body = body\<rparr>"
  from cond2_TrueD [OF match_BurnD [OF m]]
  have len: "length ops = 2"
    and s1: "op_shape (ops ! 1) (OpBurn env) (SubAccountGeneral env) = Inr True"
    by auto
  from can have c0: "canonical_op env 0 True (OasisCurrency env) False (ops ! 0)"
    and c1: "canonical_op env 1 True (OasisCurrency env) False (ops ! 1)"
    by (simp_all add: canonical_ops_def)
  from canonical_op_Some [OF c0] obtain f where f: "ops ! 0 = Some f" by blast
  from canonical_op_Some [OF c1] obtain o1 where o1: "ops ! 1 = Some o1" by blast
  from sw m have "payloads_burn env ops signer = Inr (meth, body)"
    by (simp add: payloads_switch_def)
  from payloads_burn_InrD [OF this o1] obtain q where
    r1: "readOasisCurrencyNeg env (Amount o1) = Inr q"
    and meth: "meth = MethodBurn env"
    and body: "body = cbor_Marshal_Burn env \<lparr>Burn_Tokens = q\<rparr>"
    by blast
  from inv body have dec: "cbor_Unmarshal_Burn env body = Some \<lparr>Burn_Tokens = q\<rparr>"
    by (simp add: codecs_invert_def)
  from dis have ne: "MethodBurn env \<noteq> MethodTransfer env"
    by (auto simp: methods_distinct_def)
  have pops: "parse_operations env ?tx FromPlaceholder =
      Inr [parse_fee_operation env ?tx FromPlaceholder,
           new_operation 1 (OpBurn env) FromPlaceholder (SubAccountGeneral env)
             (''-'' @ Quantity_String q) (OasisCurrency env) Map.empty]"
    by (simp add: parse_operations_def meth dec ne)
  have e0: "without_metadata (with_placeholder (ops ! 0)) =
      without_metadata (parse_fee_operation env ?tx FromPlaceholder)"
    using fee c0 by (simp add: f fee_round_trip)
  have e1: "without_metadata (with_placeholder (ops ! 1)) =
      without_metadata (new_operation 1 (OpBurn env) FromPlaceholder (SubAccountGeneral env)
             (''-'' @ Quantity_String q) (OasisCurrency env) Map.empty)"
    using s1 c1 r1 unfolding o1 readOasisCurrencyNeg_def by (rule debit_round_trip)
  have "placeholder_ops MatchedBurn ops = [with_placeholder (ops ! 0), with_placeholder (ops ! 1)]"
    using update2(1) [OF len, of "with_placeholder (ops ! 0)" "with_placeholder (ops ! 1)"]
    by (simp add: placeholder_ops_def)
  with pops e0 e1 show ?thesis
    by simp
qed

lemma add_escrow_round_trip:
  assumes inv: "codecs_invert env" and dis: "methods_distinct env"
    and m: "payloads_match env ops = Inr MatchedAddEscrow"
    and fee: "payloads_fee env (ops ! 0) = Inr (signer, fa, fg)"
    and sw: "payloads_switch env ops signer = Inr (meth, body)"
    and can: "canonical_ops env MatchedAddEscrow ops"
  shows "\<exists>pops.
           parse_operations env
             \<lparr>Nonce = n, Fee = Some \<lparr>FeeAmount = fa, Gas = fg\<rparr>, Method = meth, Body = body\<rparr>
             FromPlaceholder = Inr pops \<and>
           map without_metadata pops = map without_metadata (placeholder_ops MatchedAddEscrow ops)"
proof -
  let ?tx = "\<lparr>Nonce = n, Fee = Some \<lparr>FeeAmount = fa, Gas = fg\<rparr>, Method = meth, Body = body\<rparr>"
  from cond3_TrueD [OF match_AddEscrowD [OF m]]
  have len: "length ops = 3"
    and s1: "op_shape (ops ! 1) (OpTransfer env) (SubAccountGeneral env) = Inr True"
    and s2: "op_shape (ops ! 2) (OpTransfer env) (SubAccountEscrow env) = Inr True"
    by auto
  from can have c0: "canonical_op env 0 True (OasisCurrency env) False (ops ! 0)"
    and c1: "canonical_op env 1 True (OasisCurrency env) False (ops ! 1)"
    and c2: "canonical_op env 2 False (OasisCurrency env) True (ops ! 2)"
    by (simp_all add: canonical_ops_def)
  from canonical_op_Some [OF c0] obtain f where f: "ops ! 0 = Some f" by blast
  from canonical_op_Some [OF c1] obtain o1 where o1: "ops ! 1 = Some o1" by blast
  from canonical_op_Some [OF c2] obtain o2 where o2: "ops ! 2 = Some o2" by blast
  from sw m have "payloads_add_escrow env ops signer = Inr (meth, body)"
    by (simp add: payloads_switch_def)
  from payloads_add_escrow_InrD [OF this o1 o2] obtain a2 q where
    a2: "Account o2 = Some a2"
    and r1: "readOasisCurrencyNeg env (Amount o1) = Inr q"
    and r2: "readOasisCurrency env (Amount o2) = Inr q"
    and meth: "meth = MethodAddEscrow env"
    and body: "body = cbor_Marshal_Escrow env
                 \<lparr>Escrow_Account = address_after_UnmarshalText env (Address a2), Escrow_Tokens = q\<rparr>"
    by blast
  from inv body have dec: "cbor_Unmarshal_Escrow env body =
      Some \<lparr>Escrow_Account = address_after_UnmarshalText env (Address a2), Escrow_Tokens = q\<rparr>"
    by (simp add: codecs_invert_def)
  from dis have ne: "MethodAddEscrow env \<noteq> MethodTransfer env"
    "MethodAddEscrow env \<noteq> MethodBurn env"
    by (auto simp: methods_distinct_def)
  have pops: "parse_operations env ?tx FromPlaceholder =
      Inr [parse_fee_operation env ?tx FromPlaceholder,
           new_operation 1 (OpTransfer env) FromPlaceholder (SubAccountGeneral env)
             (''-'' @ Quantity_String q) (OasisCurrency env) Map.empty,
           new_operation 2 (OpTransfer env)
             (Address_String env (address_after_UnmarshalText env (Address a2)))
             (SubAccountEscrow env) (Quantity_String q) (OasisCurrency env) Map.empty]"
    by (simp add: parse_operations_def meth dec ne)
  have e0: "without_metadata (with_placeholder (ops ! 0)) =
      without_metadata (parse_fee_operation env ?tx FromPlaceholder)"
    using fee c0 by (simp add: f fee_round_trip)
  have e1: "without_metadata (with_placeholder (ops ! 1)) =
      without_metadata (new_operation 1 (OpTransfer env) FromPlaceholder (SubAccountGeneral env)
             (''-'' @ Quantity_String q) (OasisCurrency env) Map.empty)"
    using s1 c1 r1 unfolding o1 readOasisCurrencyNeg_def by (rule debit_round_trip)
  have e2: "without_metadata (ops ! 2) =
      without_metadata (new_operation 2 (OpTransfer env)
             (Address_String env (address_after_UnmarshalText env (Address a2)))
             (SubAccountEscrow env) (Quantity_String q) (OasisCurrency env) Map.empty)"
    using encoded_round_trip [OF s2 [unfolded o2] c2 [unfolded o2] a2 r2 [unfolded readOasisCurrency_def]]
    by (simp add: o2)
  have "placeholder_ops MatchedAddEscrow ops =
      [with_placeholder (ops ! 0), with_placeholder (ops ! 1), ops ! 2]"
    using update3 [OF len, of "with_placeholder (ops ! 0)" "with_placeholder (ops ! 1)"]
    by (simp add: placeholder_ops_def)
  with pops e0 e1 e2 show ?thesis
    by simp
qed

lemma reclaim_escrow_round_trip:
  assumes inv: "codecs_invert env" and dis: "methods_distinct env"
    and m: "payloads_match env ops = Inr MatchedReclaimEscrow"
    and fee: "payloads_fee env (ops ! 0) = Inr (signer, fa, fg)"
    and sw: "payloads_switch env ops signer = Inr (meth, body)"
    and can: "canonical_ops env MatchedReclaimEscrow ops"
  shows "\<exists>pops.
           parse_operations env
             \<lparr>Nonce = n, Fee = Some \<lparr>FeeAmount = fa, Gas = fg\<rparr>, Method = meth, Body = body\<rparr>
             FromPlaceholder = Inr pops \<and>
           map without_metadata pops =
             map without_metadata (placeholder_ops MatchedReclaimEscrow ops)"
proof -
  let ?tx = "\<lparr>Nonce = n, Fee = Some \<lparr>FeeAmount = fa, Gas = fg\<rparr>, Method = meth, Body = body\<rparr>"
  from cond2_TrueD [OF match_ReclaimEscrowD [OF m]]
  have len: "length ops = 2"
    and s1: "op_shape (ops ! 1) (OpTransfer env) (SubAccountEscrow env) = Inr True"
    by auto
  from can have c0: "canonical_op env 0 True (OasisCurrency env) False (ops ! 0)"
    and c1: "canonical_op env 1 True (PoolShare env) True (ops ! 1)"
    by (simp_all add: canonical_ops_def)
  from canonical_op_Some [OF c0] obtain f where f: "ops ! 0 = Some f" by blast
  from canonical_op_Some [OF c1] obtain o1 where o1: "ops ! 1 = Some o1" by blast
  from sw m have "payloads_reclaim_escrow env ops = Inr (meth, body)"
    by (simp add: payloads_switch_def)
  from payloads_reclaim_escrow_InrD [OF this o1] obtain a1 q where
    a1: "Account o1 = Some a1"
    and r1: "readPoolShareNeg env (Amount o1) = Inr q"
    and meth: "meth = MethodReclaimEscrow env"
    and body: "body = cbor_Marshal_ReclaimEscrow env
                 \<lparr>ReclaimEscrow_Account = address_after_UnmarshalText env (Address a1),
                  ReclaimEscrow_Shares = q\<rparr>"
    by blast
  from inv body have dec: "cbor_Unmarshal_ReclaimEscrow env body =
      Some \<lparr>ReclaimEscrow_Account = address_after_UnmarshalText env (Address a1),
            ReclaimEscrow_Shares = q\<rparr>"
    by (simp add: codecs_invert_def)
  from dis have ne: "MethodReclaimEscrow env \<noteq> MethodTransfer env"
    "MethodReclaimEscrow env \<noteq> MethodBurn env" "MethodReclaimEscrow env \<noteq> MethodAddEscrow env"
    by (auto simp: methods_distinct_def)
  have pops: "parse_operations env ?tx FromPlaceholder =
      Inr [parse_fee_operation env ?tx FromPlaceholder,
           new_operation 1 (OpTransfer env)
             (Address_String env (address_after_UnmarshalText env (Address a1)))
             (SubAccountEscrow env) (''-'' @ Quantity_String q) (PoolShare env) Map.empty]"
    by (simp add: parse_operations_def meth dec ne)
  have e0: "without_metadata (with_placeholder (ops ! 0)) =
      without_metadata (parse_fee_operation env ?tx FromPlaceholder)"
    using fee c0 by (simp add: f fee_round_trip)
  have e1: "without_metadata (ops ! 1) =
      without_metadata (new_operation 1 (OpTransfer env)
             (Address_String env (address_after_UnmarshalText env (Address a1)))
             (SubAccountEscrow env) (''-'' @ Quantity_String q) (PoolShare env) Map.empty)"
    using encoded_round_trip [OF s1 [unfolded o1] c1 [unfolded o1] a1 r1 [unfolded readPoolShareNeg_def]]
    unfolding o1 by simp
  have "placeholder_ops MatchedReclaimEscrow ops = [with_placeholder (ops ! 0), ops ! 1]"
    using update2(2) [OF len, of "with_placeholder (ops ! 0)"]
    by (simp add: placeholder_ops_def)
  with pops e0 e1 show ?thesis
    by simp
qed

lemma char_eq_char_of: "c = char_of (n :: nat) \<longleftrightarrow> take_bit 8 n = of_char c"
  using char_of_eq_iff [of n c] by auto

lemmas show_defs = Quantity_String.simps digit_char_def char_of_eq_iff char_eq_char_of

lemmas canonical_defs =
  canonical_ops_def canonical_op_def canonical_value_def canonical_address_def

lemmas round_trip_defs =
  payloads_then_parse_def ConstructionParse_def parse_decode_def parse_operations_def
  parse_fee_operation_def FromPlaceholder_def ref_read_show ref_nats_tx_inverse
  ref_unbytes_bytes ref_Unmarshal_Transfer_def ref_Unmarshal_Burn_def ref_Unmarshal_Escrow_def
  ref_Unmarshal_ReclaimEscrow_def

subsection \<open>The round trip\<close>

text \<open>
  Claim C1, as amended. Let the decoders of the libraries invert their encoders and
  the four method names differ. Let ConstructionPayloads accept a request whose
  operation list matches one of the four patterns, whose nonce is the number \<open>nonce\<close>,
  and whose operations are in the form that parse writes: the indices 0, 1, 2 in order,
  every amount of the currency of its role with a canonical value string, and the
  address that is encoded into the transaction (the credit or escrow account) in
  canonical text. Then ConstructionParse, unsigned, of the unsigned transaction
  succeeds, with no signers; its operations are those of the request, on indices,
  types, accounts and amounts, except that the address of the fee payer (index 0) and,
  outside the reclaim-escrow pattern, of the debit operation (index 1) is the
  placeholder; and its metadata nonce is the \<^verbatim>\<open>uint64\<close> conversion of \<open>nonce\<close>.
\<close>

theorem payloads_parse_round_trip:
  assumes inv: "codecs_invert env" and dis: "methods_distinct env"
    and ok: "ConstructionPayloads env request = Inr response"
    and m: "payloads_match env (payloads_Operations request) = Inr m"
    and can: "canonical_ops env m (payloads_Operations request)"
    and nonce: "payloads_Metadata request NonceKey = Some (VFloat64 nonce)"
  shows "\<exists>parsed.
           payloads_then_parse env request = Inr parsed \<and>
           map without_metadata (parse_Operations parsed) =
             map without_metadata (placeholder_ops m (payloads_Operations request)) \<and>
           parse_Signers parsed = [] \<and>
           parse_Metadata parsed NonceKey = Some (VUint64 (float64_to_uint64 env nonce))"
proof -
  let ?ops = "payloads_Operations request"
  from handler_InrD [OF ok] obtain signer tx where
    net: "ValidateNetworkIdentifier env (payloads_NetworkIdentifier request) = None"
    and t: "payloads_transaction env request = Inr (signer, tx)"
    and j: "json_Marshal_Transaction env tx = Some (payloads_UnsignedTransaction response)"
    by blast
  from payloads_transaction_InrD [OF t] obtain n fa fg meth body where
    n: "payloads_nonce env request = Inr n"
    and fee: "payloads_fee env (?ops ! 0) = Inr (signer, fa, fg)"
    and sw: "payloads_switch env ?ops signer = Inr (meth, body)"
    and tx: "tx = \<lparr>Nonce = n, Fee = Some \<lparr>FeeAmount = fa, Gas = fg\<rparr>, Method = meth, Body = body\<rparr>"
    by blast
  from n nonce have n': "n = float64_to_uint64 env nonce"
    by (simp add: payloads_nonce_def)
  have "\<exists>pops. parse_operations env tx FromPlaceholder = Inr pops \<and>
      map without_metadata pops = map without_metadata (placeholder_ops m ?ops)"
  proof (cases m)
    case MatchedTransfer
    with inv m fee sw can show ?thesis
      unfolding tx by (simp add: transfer_round_trip)
  next
    case MatchedBurn
    with inv dis m fee sw can show ?thesis
      unfolding tx by (simp add: burn_round_trip)
  next
    case MatchedAddEscrow
    with inv dis m fee sw can show ?thesis
      unfolding tx by (simp add: add_escrow_round_trip)
  next
    case MatchedReclaimEscrow
    with inv dis m fee sw can show ?thesis
      unfolding tx by (simp add: reclaim_escrow_round_trip)
  next
    case Unmatched
    with can show ?thesis
      by (simp add: canonical_ops_def)
  qed
  then obtain pops where pops: "parse_operations env tx FromPlaceholder = Inr pops"
    and eq: "map without_metadata pops = map without_metadata (placeholder_ops m ?ops)"
    by blast
  from inv j have "json_Unmarshal_Transaction env (payloads_UnsignedTransaction response) = Some tx"
    by (simp add: codecs_invert_def)
  with ok net pops have "payloads_then_parse env request =
      Inr \<lparr>parse_Operations = pops, parse_Signers = [],
           parse_Metadata = [NonceKey \<mapsto> VUint64 (Nonce tx)]\<rparr>"
    by (simp add: payloads_then_parse_def ConstructionParse_def parse_decode_def)
  with eq tx n' show ?thesis
    by simp
qed

theorem payloads_parse_round_trip_witness:
  "codecs_invert ref_env \<and> methods_distinct ref_env \<and>
   canonical_ops ref_env MatchedTransfer
     (transfer_ops ''-10'' [FeeGasKey \<mapsto> VFloat64 20000] alice ''-100'' bob ''100'') \<and>
   (\<exists>parsed.
      payloads_then_parse ref_env
        (payloads_request
           (transfer_ops ''-10'' [FeeGasKey \<mapsto> VFloat64 20000] alice ''-100'' bob ''100'') 5) =
        Inr parsed \<and>
      map without_metadata (parse_Operations parsed) =
        [new_operation 0 ''Transfer'' ''(from)'' ''general'' ''-10'' rose Map.empty,
         new_operation 1 ''Transfer'' ''(from)'' ''general'' ''-100'' rose Map.empty,
         new_operation 2 ''Transfer'' bob ''general'' ''100'' rose Map.empty] \<and>
      parse_Metadata parsed NonceKey = Some (VUint64 5)) \<and>
   (\<exists>parsed.
      payloads_then_parse ref_env (payloads_request (burn_ops ''-1'' alice ''-50'') 5) =
        Inr parsed \<and>
      map without_metadata (parse_Operations parsed) =
        [new_operation 0 ''Transfer'' ''(from)'' ''general'' ''-1'' rose Map.empty,
         new_operation 1 ''Burn'' ''(from)'' ''general'' ''-50'' rose Map.empty]) \<and>
   (\<exists>parsed.
      payloads_then_parse ref_env
        (payloads_request (add_escrow_ops ''-1'' alice ''-100'' carol ''100'') 5) = Inr parsed \<and>
      map without_metadata (parse_Operations parsed) =
        [new_operation 0 ''Transfer'' ''(from)'' ''general'' ''-1'' rose Map.empty,
         new_operation 1 ''Transfer'' ''(from)'' ''general'' ''-100'' rose Map.empty,
         new_operation 2 ''Transfer'' carol ''escrow'' ''100'' rose Map.empty]) \<and>
   (\<exists>parsed.
      payloads_then_parse ref_env
        (payloads_request (reclaim_escrow_ops ''-1'' carol ''-30'') 5) = Inr parsed \<and>
      map without_metadata (parse_Operations parsed) =
        [new_operation 0 ''Transfer'' ''(from)'' ''general'' ''-1'' rose Map.empty,
         new_operation 1 ''Transfer'' carol ''escrow'' ''-30'' pool_share Map.empty])"
proof -
  note evals = payloads_defs ref_defs request_defs
  note rt = payloads_parse_round_trip [OF ref_env_codecs_invert ref_env_methods_distinct]
  let ?t = "transfer_ops ''-10'' [FeeGasKey \<mapsto> VFloat64 20000] alice ''-100'' bob ''100''"
  let ?b = "burn_ops ''-1'' alice ''-50''"
  let ?a = "add_escrow_ops ''-1'' alice ''-100'' carol ''100''"
  let ?r = "reclaim_escrow_ops ''-1'' carol ''-30''"
  have ops: "\<And>ops n. payloads_Operations (payloads_request ops n) = ops"
    and md: "\<And>ops n. payloads_Metadata (payloads_request ops n) NonceKey = Some (VFloat64 n)"
    by (simp_all add: payloads_request_def)
  have five: "float64_to_uint64 ref_env 5 = 5"
    by (simp add: ref_defs)
  have ct: "canonical_ops ref_env MatchedTransfer ?t"
    by (simp add: canonical_defs ref_defs request_defs new_operation_def show_defs
        char_of_byte_of_char comp_def)
  obtain rt1 where ok1: "ConstructionPayloads ref_env (payloads_request ?t 5) = Inr rt1"
    by (simp add: evals)
  have m1: "payloads_match ref_env (payloads_Operations (payloads_request ?t 5)) = Inr MatchedTransfer"
    by (simp add: evals)
  from rt [OF ok1 m1 _ md] ct obtain parsed1 where
    P1: "payloads_then_parse ref_env (payloads_request ?t 5) = Inr parsed1"
    and E1: "map without_metadata (parse_Operations parsed1) =
      map without_metadata (placeholder_ops MatchedTransfer ?t)"
    and N1: "parse_Metadata parsed1 NonceKey = Some (VUint64 (float64_to_uint64 ref_env 5))"
    by (auto simp: ops)
  have X1: "map without_metadata (placeholder_ops MatchedTransfer ?t) =
        [new_operation 0 ''Transfer'' ''(from)'' ''general'' ''-10'' rose Map.empty,
         new_operation 1 ''Transfer'' ''(from)'' ''general'' ''-100'' rose Map.empty,
         new_operation 2 ''Transfer'' bob ''general'' ''100'' rose Map.empty]"
    by (simp add: placeholder_ops_def request_defs new_operation_def without_metadata_def
        with_placeholder_def FromPlaceholder_def)
  from P1 E1 N1 X1 five
  have 1: "\<exists>parsed.
      payloads_then_parse ref_env (payloads_request ?t 5) = Inr parsed \<and>
      map without_metadata (parse_Operations parsed) =
        [new_operation 0 ''Transfer'' ''(from)'' ''general'' ''-10'' rose Map.empty,
         new_operation 1 ''Transfer'' ''(from)'' ''general'' ''-100'' rose Map.empty,
         new_operation 2 ''Transfer'' bob ''general'' ''100'' rose Map.empty] \<and>
      parse_Metadata parsed NonceKey = Some (VUint64 5)"
    by simp
  have cb: "canonical_ops ref_env MatchedBurn ?b"
    by (simp add: canonical_defs ref_defs request_defs new_operation_def show_defs)
  obtain rb where ok2: "ConstructionPayloads ref_env (payloads_request ?b 5) = Inr rb"
    by (simp add: evals)
  have m2: "payloads_match ref_env (payloads_Operations (payloads_request ?b 5)) = Inr MatchedBurn"
    by (simp add: evals)
  from rt [OF ok2 m2 _ md] cb obtain parsed2 where
    P2: "payloads_then_parse ref_env (payloads_request ?b 5) = Inr parsed2"
    and E2: "map without_metadata (parse_Operations parsed2) =
      map without_metadata (placeholder_ops MatchedBurn ?b)"
    and N2: "parse_Metadata parsed2 NonceKey = Some (VUint64 (float64_to_uint64 ref_env 5))"
    by (auto simp: ops)
  have X2: "map without_metadata (placeholder_ops MatchedBurn ?b) =
        [new_operation 0 ''Transfer'' ''(from)'' ''general'' ''-1'' rose Map.empty,
         new_operation 1 ''Burn'' ''(from)'' ''general'' ''-50'' rose Map.empty]"
    by (simp add: placeholder_ops_def request_defs new_operation_def without_metadata_def
        with_placeholder_def FromPlaceholder_def)
  from P2 E2 N2 X2 five
  have 2: "\<exists>parsed.
      payloads_then_parse ref_env (payloads_request ?b 5) = Inr parsed \<and>
      map without_metadata (parse_Operations parsed) =
        [new_operation 0 ''Transfer'' ''(from)'' ''general'' ''-1'' rose Map.empty,
         new_operation 1 ''Burn'' ''(from)'' ''general'' ''-50'' rose Map.empty]"
    by simp
  have ca: "canonical_ops ref_env MatchedAddEscrow ?a"
    by (simp add: canonical_defs ref_defs request_defs new_operation_def show_defs
        char_of_byte_of_char comp_def)
  obtain ra where ok3: "ConstructionPayloads ref_env (payloads_request ?a 5) = Inr ra"
    by (simp add: evals)
  have m3: "payloads_match ref_env (payloads_Operations (payloads_request ?a 5)) = Inr MatchedAddEscrow"
    by (simp add: evals)
  from rt [OF ok3 m3 _ md] ca obtain parsed3 where
    P3: "payloads_then_parse ref_env (payloads_request ?a 5) = Inr parsed3"
    and E3: "map without_metadata (parse_Operations parsed3) =
      map without_metadata (placeholder_ops MatchedAddEscrow ?a)"
    and N3: "parse_Metadata parsed3 NonceKey = Some (VUint64 (float64_to_uint64 ref_env 5))"
    by (auto simp: ops)
  have X3: "map without_metadata (placeholder_ops MatchedAddEscrow ?a) =
        [new_operation 0 ''Transfer'' ''(from)'' ''general'' ''-1'' rose Map.empty,
         new_operation 1 ''Transfer'' ''(from)'' ''general'' ''-100'' rose Map.empty,
         new_operation 2 ''Transfer'' carol ''escrow'' ''100'' rose Map.empty]"
    by (simp add: placeholder_ops_def request_defs new_operation_def without_metadata_def
        with_placeholder_def FromPlaceholder_def)
  from P3 E3 N3 X3 five
  have 3: "\<exists>parsed.
      payloads_then_parse ref_env (payloads_request ?a 5) = Inr parsed \<and>
      map without_metadata (parse_Operations parsed) =
        [new_operation 0 ''Transfer'' ''(from)'' ''general'' ''-1'' rose Map.empty,
         new_operation 1 ''Transfer'' ''(from)'' ''general'' ''-100'' rose Map.empty,
         new_operation 2 ''Transfer'' carol ''escrow'' ''100'' rose Map.empty]"
    by simp
  have cr: "canonical_ops ref_env MatchedReclaimEscrow ?r"
    by (simp add: canonical_defs ref_defs request_defs new_operation_def show_defs
        char_of_byte_of_char comp_def)
  obtain rr where ok4: "ConstructionPayloads ref_env (payloads_request ?r 5) = Inr rr"
    by (simp add: evals)
  have m4: "payloads_match ref_env (payloads_Operations (payloads_request ?r 5)) =
      Inr MatchedReclaimEscrow"
    by (simp add: evals)
  from rt [OF ok4 m4 _ md] cr obtain parsed4 where
    P4: "payloads_then_parse ref_env (payloads_request ?r 5) = Inr parsed4"
    and E4: "map without_metadata (parse_Operations parsed4) =
      map without_metadata (placeholder_ops MatchedReclaimEscrow ?r)"
    and N4: "parse_Metadata parsed4 NonceKey = Some (VUint64 (float64_to_uint64 ref_env 5))"
    by (auto simp: ops)
  have X4: "map without_metadata (placeholder_ops MatchedReclaimEscrow ?r) =
        [new_operation 0 ''Transfer'' ''(from)'' ''general'' ''-1'' rose Map.empty,
         new_operation 1 ''Transfer'' carol ''escrow'' ''-30'' pool_share Map.empty]"
    by (simp add: placeholder_ops_def request_defs new_operation_def without_metadata_def
        with_placeholder_def FromPlaceholder_def)
  from P4 E4 N4 X4 five
  have 4: "\<exists>parsed.
      payloads_then_parse ref_env (payloads_request ?r 5) = Inr parsed \<and>
      map without_metadata (parse_Operations parsed) =
        [new_operation 0 ''Transfer'' ''(from)'' ''general'' ''-1'' rose Map.empty,
         new_operation 1 ''Transfer'' carol ''escrow'' ''-30'' pool_share Map.empty]"
    by simp
  from ref_env_codecs_invert ref_env_methods_distinct ct 1 2 3 4 show ?thesis
    by blast
qed

text \<open>
  Claim C1 as stated fails: the transfer whose fee operation has the amount string
  \<^verbatim>\<open>0\<close> is accepted, and parse returns the amount string \<^verbatim>\<open>-0\<close> for the fee operation.
  Likewise the credit amount \<^verbatim>\<open>+100\<close> comes back as \<^verbatim>\<open>100\<close>, and a currency with the
  symbol of the native token and 18 decimals comes back as the currency of the gateway.
\<close>

theorem zero_fee_is_not_reproduced:
  "amount_values
     (payloads_Operations
        (payloads_request (transfer_ops ''0'' Map.empty alice ''-100'' bob ''100'') 5)) =
     [''0'', ''-100'', ''100''] \<and>
   map_sum id (\<lambda>parsed. amount_values (parse_Operations parsed))
     (payloads_then_parse ref_env
        (payloads_request (transfer_ops ''0'' Map.empty alice ''-100'' bob ''100'') 5)) =
     Inr [''-0'', ''-100'', ''100''] \<and>
   map_sum id (\<lambda>parsed. amount_values (parse_Operations parsed))
     (payloads_then_parse ref_env
        (payloads_request (transfer_ops ''-10'' Map.empty alice ''-100'' bob ''+100'') 5)) =
     Inr [''-10'', ''-100'', ''100''] \<and>
   map_sum id (\<lambda>parsed. map without_metadata (parse_Operations parsed))
     (payloads_then_parse ref_env
        (payloads_request
           [new_operation 0 ''Transfer'' alice ''general'' ''-1''
              \<lparr>Symbol = ''ROSE'', Decimals = 18\<rparr> Map.empty,
            new_operation 1 ''Burn'' alice ''general'' ''-50''
              \<lparr>Symbol = ''ROSE'', Decimals = 18\<rparr> Map.empty] 5)) =
     Inr [new_operation 0 ''Transfer'' ''(from)'' ''general'' ''-1''
            \<lparr>Symbol = ''ROSE'', Decimals = 9\<rparr> Map.empty,
          new_operation 1 ''Burn'' ''(from)'' ''general'' ''-50''
            \<lparr>Symbol = ''ROSE'', Decimals = 9\<rparr> Map.empty]"
  by (simp add: payloads_defs ref_defs request_defs round_trip_defs show_defs amount_values_def
      without_metadata_def)

lemma address_after_failure:
  "Address_UnmarshalText env text = None \<Longrightarrow> address_after_UnmarshalText env text = zero_Address"
  by (simp add: address_after_UnmarshalText_def)

lemma handler_returns:
  assumes "ValidateNetworkIdentifier env (payloads_NetworkIdentifier request) = None"
    and "encoders_total env"
    and "payloads_nonce env request = Inr n"
    and "payloads_match env (payloads_Operations request) = Inr m" and "m \<noteq> Unmatched"
    and "payloads_fee env (payloads_Operations request ! 0) = Inr (signer, fa, fg)"
    and "payloads_switch env (payloads_Operations request) signer = Inr (meth, body)"
  shows "payloads_transaction env request =
           Inr (signer, \<lparr>Nonce = n, Fee = Some \<lparr>FeeAmount = fa, Gas = fg\<rparr>,
                         Method = meth, Body = body\<rparr>) \<and>
         (\<exists>response txMessage.
            ConstructionPayloads env request = Inr response \<and>
            json_Marshal_Transaction env
                \<lparr>Nonce = n, Fee = Some \<lparr>FeeAmount = fa, Gas = fg\<rparr>,
                 Method = meth, Body = body\<rparr> =
              Some (payloads_UnsignedTransaction response) \<and>
            PrepareSignerMessage env
                (cbor_Marshal_Transaction env
                   \<lparr>Nonce = n, Fee = Some \<lparr>FeeAmount = fa, Gas = fg\<rparr>,
                    Method = meth, Body = body\<rparr>) =
              Some txMessage \<and>
            Payloads response =
              [\<lparr>payload_Address = signer, payload_Bytes = txMessage,
                payload_SignatureType = Ed25519\<rparr>])"
proof -
  have len: "2 \<le> length (payloads_Operations request)"
    using assms(4,5) by (rule match_length)
  have tx: "payloads_transaction env request =
           Inr (signer, \<lparr>Nonce = n, Fee = Some \<lparr>FeeAmount = fa, Gas = fg\<rparr>,
                         Method = meth, Body = body\<rparr>)"
    using assms(3) len assms(6,7) by (rule payloads_transaction_ok)
  from handler_ok [OF assms(1) tx assms(2)] tx show ?thesis
    by auto
qed

subsection \<open>An address that does not decode\<close>

text \<open>
  Claim C10. Let the request pass the network validation, the nonce and the fee
  operation be read, and the encoders of the libraries not fail. In the transfer and the
  add-escrow case, when the address of the credit-side operation (index 2) does not
  decode while the debit address is the signer's and both amounts read as the same
  quantity, and in the reclaim-escrow case, when the address of the escrow account
  (index 1) does not decode while the amount of pool shares is read: the handler does
  not fail. It builds the transaction whose body holds the zero value of the address
  type in place of the account, and returns the response whose unsigned transaction is
  the encoding of that transaction and whose one signing payload is the signer message
  of that transaction, for the signer.
\<close>

theorem payloads_undecodable_address:
  assumes net: "ValidateNetworkIdentifier env (payloads_NetworkIdentifier request) = None"
    and enc: "encoders_total env"
    and nonce: "payloads_nonce env request = Inr nonce"
    and fee: "payloads_fee env (payloads_Operations request ! 0) = Inr (signer, feeAmount, feeGas)"
    and first: "payloads_Operations request ! 1 = Some firstOp" "Account firstOp = Some firstAcc"
  shows
    "(payloads_match env (payloads_Operations request) = Inr MatchedTransfer \<and>
      Address firstAcc = signer \<and>
      payloads_Operations request ! 2 = Some secondOp \<and> Account secondOp = Some secondAcc \<and>
      Address_UnmarshalText env (Address secondAcc) = None \<and>
      readOasisCurrencyNeg env (Amount firstOp) = Inr q \<and>
      readOasisCurrency env (Amount secondOp) = Inr q \<longrightarrow>
        payloads_transaction env request =
          Inr (signer,
               \<lparr>Nonce = nonce, Fee = Some \<lparr>FeeAmount = feeAmount, Gas = feeGas\<rparr>,
                Method = MethodTransfer env,
                Body = cbor_Marshal_Transfer env \<lparr>Transfer_To = zero_Address, Transfer_Tokens = q\<rparr>\<rparr>) \<and>
        (\<exists>response txMessage.
           ConstructionPayloads env request = Inr response \<and>
           json_Marshal_Transaction env
               \<lparr>Nonce = nonce, Fee = Some \<lparr>FeeAmount = feeAmount, Gas = feeGas\<rparr>,
                Method = MethodTransfer env,
                Body = cbor_Marshal_Transfer env \<lparr>Transfer_To = zero_Address, Transfer_Tokens = q\<rparr>\<rparr> =
             Some (payloads_UnsignedTransaction response) \<and>
           PrepareSignerMessage env
               (cbor_Marshal_Transaction env
                  \<lparr>Nonce = nonce, Fee = Some \<lparr>FeeAmount = feeAmount, Gas = feeGas\<rparr>,
                Method = MethodTransfer env,
                Body = cbor_Marshal_Transfer env \<lparr>Transfer_To = zero_Address, Transfer_Tokens = q\<rparr>\<rparr>) =
             Some txMessage \<and>
           Payloads response =
             [\<lparr>payload_Address = signer, payload_Bytes = txMessage,
               payload_SignatureType = Ed25519\<rparr>])) \<and>
     (payloads_match env (payloads_Operations request) = Inr MatchedAddEscrow \<and>
      Address firstAcc = signer \<and>
      payloads_Operations request ! 2 = Some secondOp \<and> Account secondOp = Some secondAcc \<and>
      Address_UnmarshalText env (Address secondAcc) = None \<and>
      readOasisCurrencyNeg env (Amount firstOp) = Inr q \<and>
      readOasisCurrency env (Amount secondOp) = Inr q \<longrightarrow>
        payloads_transaction env request =
          Inr (signer,
               \<lparr>Nonce = nonce, Fee = Some \<lparr>FeeAmount = feeAmount, Gas = feeGas\<rparr>,
                Method = MethodAddEscrow env,
                Body = cbor_Marshal_Escrow env \<lparr>Escrow_Account = zero_Address, Escrow_Tokens = q\<rparr>\<rparr>) \<and>
        (\<exists>response txMessage.
           ConstructionPayloads env request = Inr response \<and>
           json_Marshal_Transaction env
               \<lparr>Nonce = nonce, Fee = Some \<lparr>FeeAmount = feeAmount, Gas = feeGas\<rparr>,
                Method = MethodAddEscrow env,
                Body = cbor_Marshal_Escrow env \<lparr>Escrow_Account = zero_Address, Escrow_Tokens = q\<rparr>\<rparr> =
             Some (payloads_UnsignedTransaction response) \<and>
           PrepareSignerMessage env
               (cbor_Marshal_Transaction env
                  \<lparr>Nonce = nonce, Fee = Some \<lparr>FeeAmount = feeAmount, Gas = feeGas\<rparr>,
                Method = MethodAddEscrow env,
                Body = cbor_Marshal_Escrow env \<lparr>Escrow_Account = zero_Address, Escrow_Tokens = q\<rparr>\<rparr>) =
             Some txMessage \<and>
           Payloads response =
             [\<lparr>payload_Address = signer, payload_Bytes = txMessage,
               payload_SignatureType = Ed25519\<rparr>])) \<and>
     (payloads_match env (payloads_Operations request) = Inr MatchedReclaimEscrow \<and>
      Address_UnmarshalText env (Address firstAcc) = None \<and>
      readPoolShareNeg env (Amount firstOp) = Inr q \<longrightarrow>
        payloads_transaction env request =
          Inr (signer,
               \<lparr>Nonce = nonce, Fee = Some \<lparr>FeeAmount = feeAmount, Gas = feeGas\<rparr>,
                Method = MethodReclaimEscrow env,
                Body = cbor_Marshal_ReclaimEscrow env
                  \<lparr>ReclaimEscrow_Account = zero_Address, ReclaimEscrow_Shares = q\<rparr>\<rparr>) \<and>
        (\<exists>response txMessage.
           ConstructionPayloads env request = Inr response \<and>
           json_Marshal_Transaction env
               \<lparr>Nonce = nonce, Fee = Some \<lparr>FeeAmount = feeAmount, Gas = feeGas\<rparr>,
                Method = MethodReclaimEscrow env,
                Body = cbor_Marshal_ReclaimEscrow env
                  \<lparr>ReclaimEscrow_Account = zero_Address, ReclaimEscrow_Shares = q\<rparr>\<rparr> =
             Some (payloads_UnsignedTransaction response) \<and>
           PrepareSignerMessage env
               (cbor_Marshal_Transaction env
                  \<lparr>Nonce = nonce, Fee = Some \<lparr>FeeAmount = feeAmount, Gas = feeGas\<rparr>,
                Method = MethodReclaimEscrow env,
                Body = cbor_Marshal_ReclaimEscrow env
                  \<lparr>ReclaimEscrow_Account = zero_Address, ReclaimEscrow_Shares = q\<rparr>\<rparr>) =
             Some txMessage \<and>
           Payloads response =
             [\<lparr>payload_Address = signer, payload_Bytes = txMessage,
               payload_SignatureType = Ed25519\<rparr>]))"
proof (intro conjI; rule impI)
  let ?ops = "payloads_Operations request"
  assume a: "payloads_match env (?ops) = Inr MatchedTransfer \<and>
      Address firstAcc = signer \<and>
      ?ops ! 2 = Some secondOp \<and> Account secondOp = Some secondAcc \<and>
      Address_UnmarshalText env (Address secondAcc) = None \<and>
      readOasisCurrencyNeg env (Amount firstOp) = Inr q \<and>
      readOasisCurrency env (Amount secondOp) = Inr q"
  have "payloads_switch env ?ops signer =
      Inr (MethodTransfer env,
           cbor_Marshal_Transfer env \<lparr>Transfer_To = zero_Address, Transfer_Tokens = q\<rparr>)"
    using a first by (simp add: switch_transfer address_after_failure)
  with net enc nonce fee a
  show "payloads_transaction env request =
          Inr (signer,
               \<lparr>Nonce = nonce, Fee = Some \<lparr>FeeAmount = feeAmount, Gas = feeGas\<rparr>,
                Method = MethodTransfer env,
                Body = cbor_Marshal_Transfer env \<lparr>Transfer_To = zero_Address, Transfer_Tokens = q\<rparr>\<rparr>) \<and>
        (\<exists>response txMessage.
           ConstructionPayloads env request = Inr response \<and>
           json_Marshal_Transaction env
               \<lparr>Nonce = nonce, Fee = Some \<lparr>FeeAmount = feeAmount, Gas = feeGas\<rparr>,
                Method = MethodTransfer env,
                Body = cbor_Marshal_Transfer env \<lparr>Transfer_To = zero_Address, Transfer_Tokens = q\<rparr>\<rparr> =
             Some (payloads_UnsignedTransaction response) \<and>
           PrepareSignerMessage env
               (cbor_Marshal_Transaction env
                  \<lparr>Nonce = nonce, Fee = Some \<lparr>FeeAmount = feeAmount, Gas = feeGas\<rparr>,
                Method = MethodTransfer env,
                Body = cbor_Marshal_Transfer env \<lparr>Transfer_To = zero_Address, Transfer_Tokens = q\<rparr>\<rparr>) =
             Some txMessage \<and>
           Payloads response =
             [\<lparr>payload_Address = signer, payload_Bytes = txMessage,
               payload_SignatureType = Ed25519\<rparr>])"
    by (intro handler_returns [where m = MatchedTransfer]) auto
next
  let ?ops = "payloads_Operations request"
  assume a: "payloads_match env (?ops) = Inr MatchedAddEscrow \<and>
      Address firstAcc = signer \<and>
      ?ops ! 2 = Some secondOp \<and> Account secondOp = Some secondAcc \<and>
      Address_UnmarshalText env (Address secondAcc) = None \<and>
      readOasisCurrencyNeg env (Amount firstOp) = Inr q \<and>
      readOasisCurrency env (Amount secondOp) = Inr q"
  have "payloads_switch env ?ops signer =
      Inr (MethodAddEscrow env,
           cbor_Marshal_Escrow env \<lparr>Escrow_Account = zero_Address, Escrow_Tokens = q\<rparr>)"
    using a first by (simp add: switch_add_escrow address_after_failure)
  with net enc nonce fee a
  show "payloads_transaction env request =
          Inr (signer,
               \<lparr>Nonce = nonce, Fee = Some \<lparr>FeeAmount = feeAmount, Gas = feeGas\<rparr>,
                Method = MethodAddEscrow env,
                Body = cbor_Marshal_Escrow env \<lparr>Escrow_Account = zero_Address, Escrow_Tokens = q\<rparr>\<rparr>) \<and>
        (\<exists>response txMessage.
           ConstructionPayloads env request = Inr response \<and>
           json_Marshal_Transaction env
               \<lparr>Nonce = nonce, Fee = Some \<lparr>FeeAmount = feeAmount, Gas = feeGas\<rparr>,
                Method = MethodAddEscrow env,
                Body = cbor_Marshal_Escrow env \<lparr>Escrow_Account = zero_Address, Escrow_Tokens = q\<rparr>\<rparr> =
             Some (payloads_UnsignedTransaction response) \<and>
           PrepareSignerMessage env
               (cbor_Marshal_Transaction env
                  \<lparr>Nonce = nonce, Fee = Some \<lparr>FeeAmount = feeAmount, Gas = feeGas\<rparr>,
                Method = MethodAddEscrow env,
                Body = cbor_Marshal_Escrow env \<lparr>Escrow_Account = zero_Address, Escrow_Tokens = q\<rparr>\<rparr>) =
             Some txMessage \<and>
           Payloads response =
             [\<lparr>payload_Address = signer, payload_Bytes = txMessage,
               payload_SignatureType = Ed25519\<rparr>])"
    by (intro handler_returns [where m = MatchedAddEscrow]) auto
next
  let ?ops = "payloads_Operations request"
  assume a: "payloads_match env (?ops) = Inr MatchedReclaimEscrow \<and>
      Address_UnmarshalText env (Address firstAcc) = None \<and>
      readPoolShareNeg env (Amount firstOp) = Inr q"
  have "payloads_switch env ?ops signer =
      Inr (MethodReclaimEscrow env,
           cbor_Marshal_ReclaimEscrow env
                  \<lparr>ReclaimEscrow_Account = zero_Address, ReclaimEscrow_Shares = q\<rparr>)"
    using a first by (simp add: switch_reclaim address_after_failure)
  with net enc nonce fee a
  show "payloads_transaction env request =
          Inr (signer,
               \<lparr>Nonce = nonce, Fee = Some \<lparr>FeeAmount = feeAmount, Gas = feeGas\<rparr>,
                Method = MethodReclaimEscrow env,
                Body = cbor_Marshal_ReclaimEscrow env
                  \<lparr>ReclaimEscrow_Account = zero_Address, ReclaimEscrow_Shares = q\<rparr>\<rparr>) \<and>
        (\<exists>response txMessage.
           ConstructionPayloads env request = Inr response \<and>
           json_Marshal_Transaction env
               \<lparr>Nonce = nonce, Fee = Some \<lparr>FeeAmount = feeAmount, Gas = feeGas\<rparr>,
                Method = MethodReclaimEscrow env,
                Body = cbor_Marshal_ReclaimEscrow env
                  \<lparr>ReclaimEscrow_Account = zero_Address, ReclaimEscrow_Shares = q\<rparr>\<rparr> =
             Some (payloads_UnsignedTransaction response) \<and>
           PrepareSignerMessage env
               (cbor_Marshal_Transaction env
                  \<lparr>Nonce = nonce, Fee = Some \<lparr>FeeAmount = feeAmount, Gas = feeGas\<rparr>,
                Method = MethodReclaimEscrow env,
                Body = cbor_Marshal_ReclaimEscrow env
                  \<lparr>ReclaimEscrow_Account = zero_Address, ReclaimEscrow_Shares = q\<rparr>\<rparr>) =
             Some txMessage \<and>
           Payloads response =
             [\<lparr>payload_Address = signer, payload_Bytes = txMessage,
               payload_SignatureType = Ed25519\<rparr>])"
    by (intro handler_returns [where m = MatchedReclaimEscrow]) auto
qed

theorem payloads_undecodable_address_witness:
  "Address_UnmarshalText ref_env ''nowhere'' = None \<and>
   payloads_transaction ref_env
     (payloads_request (transfer_ops ''-10'' Map.empty alice ''-100'' ''nowhere'' ''100'') 5) =
     Inr (alice,
          \<lparr>Nonce = 5, Fee = Some \<lparr>FeeAmount = 10, Gas = 10000\<rparr>,
           Method = ''staking.Transfer'',
           Body = cbor_Marshal_Transfer ref_env
                    \<lparr>Transfer_To = zero_Address, Transfer_Tokens = 100\<rparr>\<rparr>) \<and>
   (\<exists>response.
      ConstructionPayloads ref_env
        (payloads_request (transfer_ops ''-10'' Map.empty alice ''-100'' ''nowhere'' ''100'') 5) =
        Inr response \<and>
      payloads_UnsignedTransaction response =
        unsigned_text
          \<lparr>Nonce = 5, Fee = Some \<lparr>FeeAmount = 10, Gas = 10000\<rparr>,
           Method = ''staking.Transfer'',
           Body = cbor_Marshal_Transfer ref_env
                    \<lparr>Transfer_To = zero_Address, Transfer_Tokens = 100\<rparr>\<rparr> \<and>
      json_Unmarshal_Transaction ref_env (payloads_UnsignedTransaction response) =
        Some
          \<lparr>Nonce = 5, Fee = Some \<lparr>FeeAmount = 10, Gas = 10000\<rparr>,
           Method = ''staking.Transfer'',
           Body = cbor_Marshal_Transfer ref_env
                    \<lparr>Transfer_To = zero_Address, Transfer_Tokens = 100\<rparr>\<rparr> \<and>
      map payload_Address (Payloads response) = [alice]) \<and>
   payloads_transaction ref_env
     (payloads_request (add_escrow_ops ''-1'' alice ''-100'' ''nowhere'' ''100'') 5) =
     Inr (alice,
          \<lparr>Nonce = 5, Fee = Some \<lparr>FeeAmount = 1, Gas = 10000\<rparr>,
           Method = ''staking.AddEscrow'',
           Body = cbor_Marshal_Escrow ref_env
                    \<lparr>Escrow_Account = zero_Address, Escrow_Tokens = 100\<rparr>\<rparr>) \<and>
   (\<exists>response.
      ConstructionPayloads ref_env
        (payloads_request (add_escrow_ops ''-1'' alice ''-100'' ''nowhere'' ''100'') 5) =
        Inr response \<and>
      payloads_UnsignedTransaction response =
        unsigned_text
          \<lparr>Nonce = 5, Fee = Some \<lparr>FeeAmount = 1, Gas = 10000\<rparr>,
           Method = ''staking.AddEscrow'',
           Body = cbor_Marshal_Escrow ref_env
                    \<lparr>Escrow_Account = zero_Address, Escrow_Tokens = 100\<rparr>\<rparr> \<and>
      json_Unmarshal_Transaction ref_env (payloads_UnsignedTransaction response) =
        Some
          \<lparr>Nonce = 5, Fee = Some \<lparr>FeeAmount = 1, Gas = 10000\<rparr>,
           Method = ''staking.AddEscrow'',
           Body = cbor_Marshal_Escrow ref_env
                    \<lparr>Escrow_Account = zero_Address, Escrow_Tokens = 100\<rparr>\<rparr> \<and>
      map payload_Address (Payloads response) = [alice]) \<and>
   payloads_transaction ref_env
     (payloads_request (reclaim_escrow_ops ''-1'' ''nowhere'' ''-30'') 5) =
     Inr (alice,
          \<lparr>Nonce = 5, Fee = Some \<lparr>FeeAmount = 1, Gas = 10000\<rparr>,
           Method = ''staking.ReclaimEscrow'',
           Body = cbor_Marshal_ReclaimEscrow ref_env
                    \<lparr>ReclaimEscrow_Account = zero_Address, ReclaimEscrow_Shares = 30\<rparr>\<rparr>) \<and>
   (\<exists>response.
      ConstructionPayloads ref_env
        (payloads_request (reclaim_escrow_ops ''-1'' ''nowhere'' ''-30'') 5) =
        Inr response \<and>
      payloads_UnsignedTransaction response =
        unsigned_text
          \<lparr>Nonce = 5, Fee = Some \<lparr>FeeAmount = 1, Gas = 10000\<rparr>,
           Method = ''staking.ReclaimEscrow'',
           Body = cbor_Marshal_ReclaimEscrow ref_env
                    \<lparr>ReclaimEscrow_Account = zero_Address, ReclaimEscrow_Shares = 30\<rparr>\<rparr> \<and>
      json_Unmarshal_Transaction ref_env (payloads_UnsignedTransaction response) =
        Some
          \<lparr>Nonce = 5, Fee = Some \<lparr>FeeAmount = 1, Gas = 10000\<rparr>,
           Method = ''staking.ReclaimEscrow'',
           Body = cbor_Marshal_ReclaimEscrow ref_env
                    \<lparr>ReclaimEscrow_Account = zero_Address, ReclaimEscrow_Shares = 30\<rparr>\<rparr> \<and>
      map payload_Address (Payloads response) = [alice])"
proof -
  note evals = payloads_defs ref_defs request_defs
  let ?alice = "\<lparr>Address = alice, SubAccount = Some \<lparr>SubAddress = ''general''\<rparr>\<rparr>"
  have n: "Address_UnmarshalText ref_env ''nowhere'' = None"
    by (simp add: ref_defs)
  have t0: "payloads_transaction ref_env
     (payloads_request (transfer_ops ''-10'' Map.empty alice ''-100'' ''nowhere'' ''100'') 5) =
     Inr (alice,
          \<lparr>Nonce = 5, Fee = Some \<lparr>FeeAmount = 10, Gas = 10000\<rparr>,
           Method = ''staking.Transfer'',
           Body = cbor_Marshal_Transfer ref_env
                    \<lparr>Transfer_To = zero_Address, Transfer_Tokens = 100\<rparr>\<rparr>) \<and>
   (\<exists>response txMessage.
      ConstructionPayloads ref_env
        (payloads_request (transfer_ops ''-10'' Map.empty alice ''-100'' ''nowhere'' ''100'') 5) =
        Inr response \<and>
      json_Marshal_Transaction ref_env
          \<lparr>Nonce = 5, Fee = Some \<lparr>FeeAmount = 10, Gas = 10000\<rparr>,
           Method = ''staking.Transfer'',
           Body = cbor_Marshal_Transfer ref_env
                    \<lparr>Transfer_To = zero_Address, Transfer_Tokens = 100\<rparr>\<rparr> =
        Some (payloads_UnsignedTransaction response) \<and>
      PrepareSignerMessage ref_env
          (cbor_Marshal_Transaction ref_env
             \<lparr>Nonce = 5, Fee = Some \<lparr>FeeAmount = 10, Gas = 10000\<rparr>,
           Method = ''staking.Transfer'',
           Body = cbor_Marshal_Transfer ref_env
                    \<lparr>Transfer_To = zero_Address, Transfer_Tokens = 100\<rparr>\<rparr>) =
        Some txMessage \<and>
      Payloads response =
        [\<lparr>payload_Address = alice, payload_Bytes = txMessage,
          payload_SignatureType = Ed25519\<rparr>])"
    using payloads_undecodable_address [
      where env = ref_env and nonce = 5 and signer = alice and feeAmount = 10 and feeGas = 10000
        and request =
          "payloads_request (transfer_ops ''-10'' Map.empty alice ''-100'' ''nowhere'' ''100'') 5"
        and firstOp = "the (new_operation 1 ''Transfer'' alice ''general'' ''-100'' rose Map.empty)"
        and firstAcc = ?alice
        and secondOp = "the (new_operation 2 ''Transfer'' ''nowhere'' ''general'' ''100'' rose Map.empty)"
        and secondAcc = "\<lparr>Address = ''nowhere'', SubAccount = Some \<lparr>SubAddress = ''general''\<rparr>\<rparr>"
        and q = 100,
      THEN conjunct1, THEN mp]
      ref_env_encoders_total
    by (simp add: evals)
  have t: "payloads_transaction ref_env
     (payloads_request (transfer_ops ''-10'' Map.empty alice ''-100'' ''nowhere'' ''100'') 5) =
     Inr (alice,
          \<lparr>Nonce = 5, Fee = Some \<lparr>FeeAmount = 10, Gas = 10000\<rparr>,
           Method = ''staking.Transfer'',
           Body = cbor_Marshal_Transfer ref_env
                    \<lparr>Transfer_To = zero_Address, Transfer_Tokens = 100\<rparr>\<rparr>) \<and>
   (\<exists>response.
      ConstructionPayloads ref_env
        (payloads_request (transfer_ops ''-10'' Map.empty alice ''-100'' ''nowhere'' ''100'') 5) =
        Inr response \<and>
      payloads_UnsignedTransaction response =
        unsigned_text
          \<lparr>Nonce = 5, Fee = Some \<lparr>FeeAmount = 10, Gas = 10000\<rparr>,
           Method = ''staking.Transfer'',
           Body = cbor_Marshal_Transfer ref_env
                    \<lparr>Transfer_To = zero_Address, Transfer_Tokens = 100\<rparr>\<rparr> \<and>
      json_Unmarshal_Transaction ref_env (payloads_UnsignedTransaction response) =
        Some
          \<lparr>Nonce = 5, Fee = Some \<lparr>FeeAmount = 10, Gas = 10000\<rparr>,
           Method = ''staking.Transfer'',
           Body = cbor_Marshal_Transfer ref_env
                    \<lparr>Transfer_To = zero_Address, Transfer_Tokens = 100\<rparr>\<rparr> \<and>
      map payload_Address (Payloads response) = [alice])"
  proof -
    from t0 obtain response where
      r: "ConstructionPayloads ref_env
        (payloads_request (transfer_ops ''-10'' Map.empty alice ''-100'' ''nowhere'' ''100'') 5) =
        Inr response"
      and j: "json_Marshal_Transaction ref_env
          \<lparr>Nonce = 5, Fee = Some \<lparr>FeeAmount = 10, Gas = 10000\<rparr>,
           Method = ''staking.Transfer'',
           Body = cbor_Marshal_Transfer ref_env
                    \<lparr>Transfer_To = zero_Address, Transfer_Tokens = 100\<rparr>\<rparr> =
        Some (payloads_UnsignedTransaction response)"
      and p: "map payload_Address (Payloads response) = [alice]"
      by auto
    from j have u: "payloads_UnsignedTransaction response =
        unsigned_text
          \<lparr>Nonce = 5, Fee = Some \<lparr>FeeAmount = 10, Gas = 10000\<rparr>,
           Method = ''staking.Transfer'',
           Body = cbor_Marshal_Transfer ref_env
                    \<lparr>Transfer_To = zero_Address, Transfer_Tokens = 100\<rparr>\<rparr>"
      by (simp add: ref_env_codecs(1) unsigned_text_def)
    from t0 r u p show ?thesis
      by (simp add: ref_unsigned_text)
  qed
  have a0: "payloads_transaction ref_env
     (payloads_request (add_escrow_ops ''-1'' alice ''-100'' ''nowhere'' ''100'') 5) =
     Inr (alice,
          \<lparr>Nonce = 5, Fee = Some \<lparr>FeeAmount = 1, Gas = 10000\<rparr>,
           Method = ''staking.AddEscrow'',
           Body = cbor_Marshal_Escrow ref_env
                    \<lparr>Escrow_Account = zero_Address, Escrow_Tokens = 100\<rparr>\<rparr>) \<and>
   (\<exists>response txMessage.
      ConstructionPayloads ref_env
        (payloads_request (add_escrow_ops ''-1'' alice ''-100'' ''nowhere'' ''100'') 5) =
        Inr response \<and>
      json_Marshal_Transaction ref_env
          \<lparr>Nonce = 5, Fee = Some \<lparr>FeeAmount = 1, Gas = 10000\<rparr>,
           Method = ''staking.AddEscrow'',
           Body = cbor_Marshal_Escrow ref_env
                    \<lparr>Escrow_Account = zero_Address, Escrow_Tokens = 100\<rparr>\<rparr> =
        Some (payloads_UnsignedTransaction response) \<and>
      PrepareSignerMessage ref_env
          (cbor_Marshal_Transaction ref_env
             \<lparr>Nonce = 5, Fee = Some \<lparr>FeeAmount = 1, Gas = 10000\<rparr>,
           Method = ''staking.AddEscrow'',
           Body = cbor_Marshal_Escrow ref_env
                    \<lparr>Escrow_Account = zero_Address, Escrow_Tokens = 100\<rparr>\<rparr>) =
        Some txMessage \<and>
      Payloads response =
        [\<lparr>payload_Address = alice, payload_Bytes = txMessage,
          payload_SignatureType = Ed25519\<rparr>])"
    using payloads_undecodable_address [
      where env = ref_env and nonce = 5 and signer = alice and feeAmount = 1 and feeGas = 10000
        and request =
          "payloads_request (add_escrow_ops ''-1'' alice ''-100'' ''nowhere'' ''100'') 5"
        and firstOp = "the (new_operation 1 ''Transfer'' alice ''general'' ''-100'' rose Map.empty)"
        and firstAcc = ?alice
        and secondOp = "the (new_operation 2 ''Transfer'' ''nowhere'' ''escrow'' ''100'' rose Map.empty)"
        and secondAcc = "\<lparr>Address = ''nowhere'', SubAccount = Some \<lparr>SubAddress = ''escrow''\<rparr>\<rparr>"
        and q = 100,
      THEN conjunct2, THEN conjunct1, THEN mp]
      ref_env_encoders_total
    by (simp add: evals)
  have a: "payloads_transaction ref_env
     (payloads_request (add_escrow_ops ''-1'' alice ''-100'' ''nowhere'' ''100'') 5) =
     Inr (alice,
          \<lparr>Nonce = 5, Fee = Some \<lparr>FeeAmount = 1, Gas = 10000\<rparr>,
           Method = ''staking.AddEscrow'',
           Body = cbor_Marshal_Escrow ref_env
                    \<lparr>Escrow_Account = zero_Address, Escrow_Tokens = 100\<rparr>\<rparr>) \<and>
   (\<exists>response.
      ConstructionPayloads ref_env
        (payloads_request (add_escrow_ops ''-1'' alice ''-100'' ''nowhere'' ''100'') 5) =
        Inr response \<and>
      payloads_UnsignedTransaction response =
        unsigned_text
          \<lparr>Nonce = 5, Fee = Some \<lparr>FeeAmount = 1, Gas = 10000\<rparr>,
           Method = ''staking.AddEscrow'',
           Body = cbor_Marshal_Escrow ref_env
                    \<lparr>Escrow_Account = zero_Address, Escrow_Tokens = 100\<rparr>\<rparr> \<and>
      json_Unmarshal_Transaction ref_env (payloads_UnsignedTransaction response) =
        Some
          \<lparr>Nonce = 5, Fee = Some \<lparr>FeeAmount = 1, Gas = 10000\<rparr>,
           Method = ''staking.AddEscrow'',
           Body = cbor_Marshal_Escrow ref_env
                    \<lparr>Escrow_Account = zero_Address, Escrow_Tokens = 100\<rparr>\<rparr> \<and>
      map payload_Address (Payloads response) = [alice])"
  proof -
    from a0 obtain response where
      r: "ConstructionPayloads ref_env
        (payloads_request (add_escrow_ops ''-1'' alice ''-100'' ''nowhere'' ''100'') 5) =
        Inr response"
      and j: "json_Marshal_Transaction ref_env
          \<lparr>Nonce = 5, Fee = Some \<lparr>FeeAmount = 1, Gas = 10000\<rparr>,
           Method = ''staking.AddEscrow'',
           Body = cbor_Marshal_Escrow ref_env
                    \<lparr>Escrow_Account = zero_Address, Escrow_Tokens = 100\<rparr>\<rparr> =
        Some (payloads_UnsignedTransaction response)"
      and p: "map payload_Address (Payloads response) = [alice]"
      by auto
    from j have u: "payloads_UnsignedTransaction response =
        unsigned_text
          \<lparr>Nonce = 5, Fee = Some \<lparr>FeeAmount = 1, Gas = 10000\<rparr>,
           Method = ''staking.AddEscrow'',
           Body = cbor_Marshal_Escrow ref_env
                    \<lparr>Escrow_Account = zero_Address, Escrow_Tokens = 100\<rparr>\<rparr>"
      by (simp add: ref_env_codecs(1) unsigned_text_def)
    from a0 r u p show ?thesis
      by (simp add: ref_unsigned_text)
  qed
  have r0: "payloads_transaction ref_env
     (payloads_request (reclaim_escrow_ops ''-1'' ''nowhere'' ''-30'') 5) =
     Inr (alice,
          \<lparr>Nonce = 5, Fee = Some \<lparr>FeeAmount = 1, Gas = 10000\<rparr>,
           Method = ''staking.ReclaimEscrow'',
           Body = cbor_Marshal_ReclaimEscrow ref_env
                    \<lparr>ReclaimEscrow_Account = zero_Address, ReclaimEscrow_Shares = 30\<rparr>\<rparr>) \<and>
   (\<exists>response txMessage.
      ConstructionPayloads ref_env
        (payloads_request (reclaim_escrow_ops ''-1'' ''nowhere'' ''-30'') 5) =
        Inr response \<and>
      json_Marshal_Transaction ref_env
          \<lparr>Nonce = 5, Fee = Some \<lparr>FeeAmount = 1, Gas = 10000\<rparr>,
           Method = ''staking.ReclaimEscrow'',
           Body = cbor_Marshal_ReclaimEscrow ref_env
                    \<lparr>ReclaimEscrow_Account = zero_Address, ReclaimEscrow_Shares = 30\<rparr>\<rparr> =
        Some (payloads_UnsignedTransaction response) \<and>
      PrepareSignerMessage ref_env
          (cbor_Marshal_Transaction ref_env
             \<lparr>Nonce = 5, Fee = Some \<lparr>FeeAmount = 1, Gas = 10000\<rparr>,
           Method = ''staking.ReclaimEscrow'',
           Body = cbor_Marshal_ReclaimEscrow ref_env
                    \<lparr>ReclaimEscrow_Account = zero_Address, ReclaimEscrow_Shares = 30\<rparr>\<rparr>) =
        Some txMessage \<and>
      Payloads response =
        [\<lparr>payload_Address = alice, payload_Bytes = txMessage,
          payload_SignatureType = Ed25519\<rparr>])"
    using payloads_undecodable_address [
      where env = ref_env and nonce = 5 and signer = alice and feeAmount = 1 and feeGas = 10000
        and request =
          "payloads_request (reclaim_escrow_ops ''-1'' ''nowhere'' ''-30'') 5"
        and firstOp = "the (new_operation 1 ''Transfer'' ''nowhere'' ''escrow'' ''-30'' pool_share Map.empty)"
        and firstAcc = "\<lparr>Address = ''nowhere'', SubAccount = Some \<lparr>SubAddress = ''escrow''\<rparr>\<rparr>"
        and q = 30,
      THEN conjunct2, THEN conjunct2, THEN mp]
      ref_env_encoders_total
    by (simp add: evals)
  have r: "payloads_transaction ref_env
     (payloads_request (reclaim_escrow_ops ''-1'' ''nowhere'' ''-30'') 5) =
     Inr (alice,
          \<lparr>Nonce = 5, Fee = Some \<lparr>FeeAmount = 1, Gas = 10000\<rparr>,
           Method = ''staking.ReclaimEscrow'',
           Body = cbor_Marshal_ReclaimEscrow ref_env
                    \<lparr>ReclaimEscrow_Account = zero_Address, ReclaimEscrow_Shares = 30\<rparr>\<rparr>) \<and>
   (\<exists>response.
      ConstructionPayloads ref_env
        (payloads_request (reclaim_escrow_ops ''-1'' ''nowhere'' ''-30'') 5) =
        Inr response \<and>
      payloads_UnsignedTransaction response =
        unsigned_text
          \<lparr>Nonce = 5, Fee = Some \<lparr>FeeAmount = 1, Gas = 10000\<rparr>,
           Method = ''staking.ReclaimEscrow'',
           Body = cbor_Marshal_ReclaimEscrow ref_env
                    \<lparr>ReclaimEscrow_Account = zero_Address, ReclaimEscrow_Shares = 30\<rparr>\<rparr> \<and>
      json_Unmarshal_Transaction ref_env (payloads_UnsignedTransaction response) =
        Some
          \<lparr>Nonce = 5, Fee = Some \<lparr>FeeAmount = 1, Gas = 10000\<rparr>,
           Method = ''staking.ReclaimEscrow'',
           Body = cbor_Marshal_ReclaimEscrow ref_env
                    \<lparr>ReclaimEscrow_Account = zero_Address, ReclaimEscrow_Shares = 30\<rparr>\<rparr> \<and>
      map payload_Address (Payloads response) = [alice])"
  proof -
    from r0 obtain response where
      r: "ConstructionPayloads ref_env
        (payloads_request (reclaim_escrow_ops ''-1'' ''nowhere'' ''-30'') 5) =
        Inr response"
      and j: "json_Marshal_Transaction ref_env
          \<lparr>Nonce = 5, Fee = Some \<lparr>FeeAmount = 1, Gas = 10000\<rparr>,
           Method = ''staking.ReclaimEscrow'',
           Body = cbor_Marshal_ReclaimEscrow ref_env
                    \<lparr>ReclaimEscrow_Account = zero_Address, ReclaimEscrow_Shares = 30\<rparr>\<rparr> =
        Some (payloads_UnsignedTransaction response)"
      and p: "map payload_Address (Payloads response) = [alice]"
      by auto
    from j have u: "payloads_UnsignedTransaction response =
        unsigned_text
          \<lparr>Nonce = 5, Fee = Some \<lparr>FeeAmount = 1, Gas = 10000\<rparr>,
           Method = ''staking.ReclaimEscrow'',
           Body = cbor_Marshal_ReclaimEscrow ref_env
                    \<lparr>ReclaimEscrow_Account = zero_Address, ReclaimEscrow_Shares = 30\<rparr>\<rparr>"
      by (simp add: ref_env_codecs(1) unsigned_text_def)
    from r0 r u p show ?thesis
      by (simp add: ref_unsigned_text)
  qed
  from n t a r show ?thesis by blast
qed

end
